theory Spec2Isabelle
  imports Complex_Main
begin

section \<open>Numbers\<close>

text \<open>
  The program computes with the host's \<^verbatim>\<open>number\<close> type. The model keeps its three
  special values apart from the finite ones: a finite number is an exact real
  \<open>Num q\<close>, and \<open>NaN\<close>, \<open>PosInf\<close> and \<open>NegInf\<close> are the values the parsers can
  produce and \<^verbatim>\<open>clampNumber\<close> tests for. Arithmetic on finite numbers is exact: the
  rounding of binary floating point and the sign of zero are not modelled. A decimal
  literal too large for the number type reads as an infinity (\<open>toDouble\<close>).
\<close>

datatype number = Num real | NaN | PosInf | NegInf

definition isNaN :: "number \<Rightarrow> bool" where
  "isNaN v = (v = NaN)"

fun isFinite :: "number \<Rightarrow> bool" where
  "isFinite (Num q) = True"
| "isFinite v = False"

text \<open>\<^verbatim>\<open>a === b\<close> on numbers: \<open>NaN\<close> equals nothing.\<close>

definition strictEq :: "number \<Rightarrow> number \<Rightarrow> bool" where
  "strictEq a b = (a = b \<and> a \<noteq> NaN)"

text \<open>\<^verbatim>\<open>a < b\<close>, \<^verbatim>\<open>a <= b\<close> and \<^verbatim>\<open>a > b\<close>: false as soon as one side is \<open>NaN\<close>.\<close>

fun numLt :: "number \<Rightarrow> number \<Rightarrow> bool" where
  "numLt (Num a) (Num b) = (a < b)"
| "numLt NaN b = False"
| "numLt a NaN = False"
| "numLt NegInf b = (b \<noteq> NegInf)"
| "numLt a NegInf = False"
| "numLt PosInf b = False"
| "numLt (Num a) PosInf = True"

definition numLe :: "number \<Rightarrow> number \<Rightarrow> bool" where
  "numLe a b = (numLt a b \<or> strictEq a b)"

definition numGt :: "number \<Rightarrow> number \<Rightarrow> bool" where
  "numGt a b = numLt b a"

text \<open>A number in a condition: \<open>0\<close> and \<open>NaN\<close> count as false.\<close>

definition truthy :: "number \<Rightarrow> bool" where
  "truthy v = (v \<noteq> NaN \<and> v \<noteq> Num 0)"

fun numNeg :: "number \<Rightarrow> number" where
  "numNeg (Num a) = Num (- a)"
| "numNeg NaN = NaN"
| "numNeg PosInf = NegInf"
| "numNeg NegInf = PosInf"

fun numAdd :: "number \<Rightarrow> number \<Rightarrow> number" where
  "numAdd (Num a) (Num b) = Num (a + b)"
| "numAdd NaN b = NaN"
| "numAdd a NaN = NaN"
| "numAdd PosInf NegInf = NaN"
| "numAdd NegInf PosInf = NaN"
| "numAdd PosInf b = PosInf"
| "numAdd NegInf b = NegInf"
| "numAdd (Num a) b = b"

definition numSub :: "number \<Rightarrow> number \<Rightarrow> number" where
  "numSub a b = numAdd a (numNeg b)"

text \<open>The sign of a number that is not \<open>NaN\<close>: \<open>-1\<close>, \<open>0\<close> or \<open>1\<close>.\<close>

fun numSign :: "number \<Rightarrow> int" where
  "numSign (Num a) = (if a < 0 then - 1 else if a = 0 then 0 else 1)"
| "numSign PosInf = 1"
| "numSign NegInf = - 1"
| "numSign NaN = 0"

definition infOfSign :: "int \<Rightarrow> number" where
  "infOfSign s = (if s = 0 then NaN else if 0 < s then PosInf else NegInf)"

fun numMul :: "number \<Rightarrow> number \<Rightarrow> number" where
  "numMul (Num a) (Num b) = Num (a * b)"
| "numMul NaN b = NaN"
| "numMul a NaN = NaN"
| "numMul a b = infOfSign (numSign a * numSign b)"

text \<open>
  Division. A finite nonzero number divided by zero is an infinity of the dividend's
  sign (the zero taken as positive); the program only ever divides by numbers that are
  not zero.
\<close>

fun numDiv :: "number \<Rightarrow> number \<Rightarrow> number" where
  "numDiv (Num a) (Num b) = (if b = 0 then infOfSign (numSign (Num a)) else Num (a / b))"
| "numDiv NaN b = NaN"
| "numDiv a NaN = NaN"
| "numDiv (Num a) b = Num 0"
| "numDiv a (Num b) = infOfSign (numSign a * (if b < 0 then - 1 else 1))"
| "numDiv a b = NaN"

text \<open>\<^verbatim>\<open>Math.min\<close>, \<^verbatim>\<open>Math.max\<close>, \<^verbatim>\<open>Math.abs\<close>, \<^verbatim>\<open>Math.round\<close>.\<close>

definition mathMin :: "number \<Rightarrow> number \<Rightarrow> number" where
  "mathMin a b = (if a = NaN \<or> b = NaN then NaN else if numLt b a then b else a)"

definition mathMax :: "number \<Rightarrow> number \<Rightarrow> number" where
  "mathMax a b = (if a = NaN \<or> b = NaN then NaN else if numLt a b then b else a)"

definition mathMin3 :: "number \<Rightarrow> number \<Rightarrow> number \<Rightarrow> number" where
  "mathMin3 a b c = mathMin (mathMin a b) c"

definition mathAbs :: "number \<Rightarrow> number" where
  "mathAbs a = (if numLt a (Num 0) then numNeg a else a)"

fun mathRound :: "number \<Rightarrow> number" where
  "mathRound (Num a) = Num (of_int \<lfloor>a + 1 / 2\<rfloor>)"
| "mathRound v = v"

fun isInteger :: "number \<Rightarrow> bool" where
  "isInteger (Num a) = (of_int \<lfloor>a\<rfloor> = a)"
| "isInteger v = False"

definition EPSILON :: number where
  "EPSILON = Num (1 / 2 ^ 52)"

text \<open>
  Reading a decimal value into the number type: a magnitude of at least
  \<open>2^1024 - 2^970\<close> rounds to an infinity.
\<close>

definition toDouble :: "real \<Rightarrow> number" where
  "toDouble q = (if 2 ^ 1024 - 2 ^ 970 \<le> \<bar>q\<bar> then (if 0 < q then PosInf else NegInf) else Num q)"

definition clampNumber :: "number \<Rightarrow> number \<Rightarrow> number" where
  "clampNumber v fallback = (if isNaN v \<or> \<not> isFinite v then fallback else v)"

definition clampChannel :: "number \<Rightarrow> number" where
  "clampChannel v = mathMin (Num 255) (mathMax (Num 0) v)"

section \<open>Strings\<close>

text \<open>
  A string is a list of code units, here the 8-bit \<open>char\<close>: the model covers text
  whose code units are below 256. White space is what \<^verbatim>\<open>\s\<close> and \<^verbatim>\<open>trim\<close> accept in
  that range.
\<close>

definition isSpace :: "char \<Rightarrow> bool" where
  "isSpace c = (c = CHR 0x09 \<or> c = CHR 0x0A \<or> c = CHR 0x0B \<or> c = CHR 0x0C \<or> c = CHR 0x0D
     \<or> c = CHR 0x20 \<or> c = CHR 0xA0)"

definition isDigit :: "char \<Rightarrow> bool" where
  "isDigit c = (48 \<le> (of_char c :: nat) \<and> (of_char c :: nat) \<le> 57)"

definition isUpper :: "char \<Rightarrow> bool" where
  "isUpper c = (65 \<le> (of_char c :: nat) \<and> (of_char c :: nat) \<le> 90)"

definition isLower :: "char \<Rightarrow> bool" where
  "isLower c = (97 \<le> (of_char c :: nat) \<and> (of_char c :: nat) \<le> 122)"

definition isAlpha :: "char \<Rightarrow> bool" where
  "isAlpha c = (isUpper c \<or> isLower c)"

text \<open>\<^verbatim>\<open>toLowerCase\<close> on one code unit below 256.\<close>

definition toLowerChar :: "char \<Rightarrow> char" where
  "toLowerChar c = (let n = (of_char c :: nat) in
     if (65 \<le> n \<and> n \<le> 90) \<or> (192 \<le> n \<and> n \<le> 222 \<and> n \<noteq> 215) then char_of (n + 32) else c)"

definition toLowerCase :: "string \<Rightarrow> string" where
  "toLowerCase s = map toLowerChar s"

definition trim :: "string \<Rightarrow> string" where
  "trim s = rev (dropWhile isSpace (rev (dropWhile isSpace s)))"

definition startsWith :: "string \<Rightarrow> string \<Rightarrow> bool" where
  "startsWith s p = (take (length p) s = p)"

definition endsWith :: "string \<Rightarrow> string \<Rightarrow> bool" where
  "endsWith s p = (length p \<le> length s \<and> drop (length s - length p) s = p)"

text \<open>
  \<^verbatim>\<open>s.indexOf(p, from)\<close>: the first position at or after \<open>from\<close> where \<open>p\<close> starts;
  \<open>None\<close> stands for \<open>-1\<close>.
\<close>

fun findFrom :: "string \<Rightarrow> string \<Rightarrow> nat \<Rightarrow> nat option" where
  "findFrom p [] i = (if p = [] then Some i else None)"
| "findFrom p (c # cs) i = (if startsWith (c # cs) p then Some i else findFrom p cs (Suc i))"

definition indexOf :: "string \<Rightarrow> string \<Rightarrow> nat \<Rightarrow> nat option" where
  "indexOf s p from = (if length s < from then None else findFrom p (drop from s) from)"

definition strIncludes :: "string \<Rightarrow> string \<Rightarrow> bool" where
  "strIncludes s p = (indexOf s p 0 \<noteq> None)"

text \<open>\<^verbatim>\<open>s.slice(a, b)\<close> for \<open>0 \<le> a\<close> and \<open>0 \<le> b\<close>.\<close>

definition slice :: "string \<Rightarrow> nat \<Rightarrow> nat \<Rightarrow> string" where
  "slice s a b = take (b - a) (drop a s)"

text \<open>\<^verbatim>\<open>parts.join(sep)\<close>.\<close>

fun joinWith :: "string \<Rightarrow> string list \<Rightarrow> string" where
  "joinWith sep [] = []"
| "joinWith sep [a] = a"
| "joinWith sep (a # b # rest) = a @ sep @ joinWith sep (b # rest)"

text \<open>
  A global replacement of one character, \<^verbatim>\<open>s.replace(/c/g, r)\<close>: every occurrence of
  \<open>c\<close> becomes \<open>r\<close>, every other character stays.
\<close>

definition replaceChar :: "char \<Rightarrow> string \<Rightarrow> string \<Rightarrow> string" where
  "replaceChar c r s = concat (map (\<lambda>d. if d = c then r else [d]) s)"

text \<open>\<^verbatim>\<open>s.split(/\s+/).filter(Boolean)\<close>: the maximal runs of characters that are not white space.\<close>

fun splitWords :: "string \<Rightarrow> string \<Rightarrow> string list" where
  "splitWords buf [] = (if buf = [] then [] else [buf])"
| "splitWords buf (c # cs) =
     (if isSpace c then (if buf = [] then splitWords [] cs else buf # splitWords [] cs)
      else splitWords (buf @ [c]) cs)"

subsection \<open>Numbers and text\<close>

definition digitChar :: "nat \<Rightarrow> char" where
  "digitChar n = ''0123456789'' ! (n mod 10)"

function natToString :: "nat \<Rightarrow> string" where
  "natToString n = (if n < 10 then [digitChar n] else natToString (n div 10) @ [digitChar n])"
  by pat_completeness auto
termination
  by (relation "measure id") auto

declare natToString.simps [simp del]

text \<open>An optional sign in front of a literal.\<close>

definition splitSign :: "string \<Rightarrow> bool \<times> string" where
  "splitSign s =
     (case s of
        [] \<Rightarrow> (False, s)
      | c # r \<Rightarrow>
          if c = CHR ''-'' then (True, r)
          else if c = CHR ''+'' then (False, r) else (False, s))"

definition digitsValue :: "string \<Rightarrow> nat" where
  "digitsValue ds = foldl (\<lambda>acc c. 10 * acc + ((of_char c :: nat) - 48)) 0 ds"

text \<open>
  The optional exponent part of a decimal literal, \<^verbatim>\<open>[eE][+-]?[0-9]+\<close>: its value and
  the text after it. An incomplete exponent is not part of the literal.
\<close>

definition parseExponent :: "string \<Rightarrow> int \<times> string" where
  "parseExponent s =
     (case s of
        [] \<Rightarrow> (0, s)
      | c # r \<Rightarrow>
          if c = CHR ''e'' \<or> c = CHR ''E'' then
            (let (neg, r1) =
                   (case r of
                      [] \<Rightarrow> (False, r)
                    | d # r' \<Rightarrow>
                        if d = CHR ''-'' then (True, r')
                        else if d = CHR ''+'' then (False, r') else (False, r));
                 ds = takeWhile isDigit r1
             in if ds = [] then (0, s)
                else ((if neg then - int (digitsValue ds) else int (digitsValue ds)),
                      dropWhile isDigit r1))
          else (0, s))"

text \<open>
  The longest prefix of a text that is a decimal literal (\<^verbatim>\<open>StrDecimalLiteral\<close>: a
  sign, then \<^verbatim>\<open>Infinity\<close> or digits with an optional fraction and exponent), with its
  value and the text after it; \<open>None\<close> when no prefix is one.
\<close>

definition parseDecimal :: "string \<Rightarrow> (number \<times> string) option" where
  "parseDecimal s =
     (let (neg, s1) = splitSign s
      in if take 8 s1 = ''Infinity'' then Some (if neg then NegInf else PosInf, drop 8 s1)
         else
           (let ip = takeWhile isDigit s1;
                r1 = dropWhile isDigit s1;
                (fp, r2) =
                  (case r1 of
                     [] \<Rightarrow> ([], r1)
                   | c # r \<Rightarrow>
                       if c = CHR ''.'' then (takeWhile isDigit r, dropWhile isDigit r)
                       else ([], r1))
            in if ip = [] \<and> fp = [] then None
               else
                 (let (e, r3) = parseExponent r2;
                      m = of_nat (digitsValue ip) + of_nat (digitsValue fp) / 10 ^ length fp;
                      v = (if 0 \<le> e then m * 10 ^ nat e else m / 10 ^ nat (- e))
                  in Some (toDouble (if neg then - v else v), r3))))"

definition parseFloat :: "string \<Rightarrow> number" where
  "parseFloat s = (case parseDecimal (dropWhile isSpace s) of Some (v, r) \<Rightarrow> v | None \<Rightarrow> NaN)"

text \<open>
  \<^verbatim>\<open>parseInt(s, 10)\<close> and \<^verbatim>\<open>parseInt(s, 16)\<close>: leading white space, a sign, for
  radix 16 an optional \<^verbatim>\<open>0x\<close>, then the longest run of digits of the radix; \<open>NaN\<close>
  when the run is empty.
\<close>

definition isHexDigit :: "char \<Rightarrow> bool" where
  "isHexDigit c = (isDigit c
     \<or> (65 \<le> (of_char c :: nat) \<and> (of_char c :: nat) \<le> 70)
     \<or> (97 \<le> (of_char c :: nat) \<and> (of_char c :: nat) \<le> 102))"

definition hexDigitValue :: "char \<Rightarrow> nat" where
  "hexDigitValue c = (let n = (of_char c :: nat) in
     if isDigit c then n - 48 else if 97 \<le> n then n - 87 else n - 55)"

definition hexValue :: "string \<Rightarrow> nat" where
  "hexValue h = foldl (\<lambda>acc c. 16 * acc + hexDigitValue c) 0 h"

definition parseInt10 :: "string \<Rightarrow> number" where
  "parseInt10 s =
     (let (neg, s1) = splitSign (dropWhile isSpace s);
          ds = takeWhile isDigit s1
      in if ds = [] then NaN
         else toDouble (if neg then - of_nat (digitsValue ds) else of_nat (digitsValue ds)))"

definition parseInt16 :: "string \<Rightarrow> number" where
  "parseInt16 s =
     (let (neg, s1) = splitSign (dropWhile isSpace s);
          s2 = (if take 2 s1 = ''0x'' \<or> take 2 s1 = ''0X'' then drop 2 s1 else s1);
          ds = takeWhile isHexDigit s2
      in if ds = [] then NaN
         else toDouble (if neg then - of_nat (hexValue ds) else of_nat (hexValue ds)))"

section \<open>Colours\<close>

record rgbaColor =
  color :: string
  opacity :: number

text \<open>
  \<^verbatim>\<open>RGBA_REGEX = /rgba?\((\d+)\s*,\s*(\d+)\s*,\s*(\d+)(?:\s*,\s*([\d.]+))?\)/i\<close>.
  Its character classes are disjoint from what follows them, so a match attempt at a
  position never gains from giving characters back: each repetition takes all it can.
  \<open>matchRgbaAt\<close> is the attempt at the start of a text, \<open>rgbaMatch\<close> the search for
  the leftmost position where it succeeds; the result holds the four captures.
\<close>

definition skipComma :: "string \<Rightarrow> string option" where
  "skipComma s =
     (case dropWhile isSpace s of
        [] \<Rightarrow> None
      | c # r \<Rightarrow> if c = CHR '','' then Some (dropWhile isSpace r) else None)"

definition isDigitOrDot :: "char \<Rightarrow> bool" where
  "isDigitOrDot c = (isDigit c \<or> c = CHR ''.'')"

definition alphaGroup :: "string \<Rightarrow> (string \<times> string) option" where
  "alphaGroup s =
     (case skipComma s of
        None \<Rightarrow> None
      | Some r \<Rightarrow>
          if takeWhile isDigitOrDot r = [] then None
          else Some (takeWhile isDigitOrDot r, dropWhile isDigitOrDot r))"

definition matchRgbaAt :: "string \<Rightarrow> (string \<times> string \<times> string \<times> string option) option" where
  "matchRgbaAt s =
     (if toLowerCase (take 3 s) \<noteq> ''rgb'' then None
      else
        (let s1 = drop 3 s;
             s2 = (case s1 of [] \<Rightarrow> s1 | c # r \<Rightarrow> if toLowerChar c = CHR ''a'' then r else s1)
         in case s2 of
              [] \<Rightarrow> None
            | c # s3 \<Rightarrow>
                if c \<noteq> CHR ''('' \<or> takeWhile isDigit s3 = [] then None
                else
                  (case skipComma (dropWhile isDigit s3) of
                     None \<Rightarrow> None
                   | Some s4 \<Rightarrow>
                       if takeWhile isDigit s4 = [] then None
                       else
                         (case skipComma (dropWhile isDigit s4) of
                            None \<Rightarrow> None
                          | Some s5 \<Rightarrow>
                              if takeWhile isDigit s5 = [] then None
                              else
                                (case alphaGroup (dropWhile isDigit s5) of
                                   Some (a, s7) \<Rightarrow>
                                     if startsWith s7 '')''
                                     then Some (takeWhile isDigit s3, takeWhile isDigit s4,
                                                takeWhile isDigit s5, Some a)
                                     else None
                                 | None \<Rightarrow>
                                     if startsWith (dropWhile isDigit s5) '')''
                                     then Some (takeWhile isDigit s3, takeWhile isDigit s4,
                                                takeWhile isDigit s5, None)
                                     else None)))))"

fun rgbaMatch :: "string \<Rightarrow> (string \<times> string \<times> string \<times> string option) option" where
  "rgbaMatch [] = matchRgbaAt []"
| "rgbaMatch (c # cs) =
     (case matchRgbaAt (c # cs) of Some m \<Rightarrow> Some m | None \<Rightarrow> rgbaMatch cs)"

text \<open>
  \<^verbatim>\<open>HEX_REGEX = /^#([0-9a-f]{3}|[0-9a-f]{4}|[0-9a-f]{6}|[0-9a-f]{8})$/i\<close>: the
  capture is the text after the hash.
\<close>

definition hexMatch :: "string \<Rightarrow> string option" where
  "hexMatch s =
     (case s of
        [] \<Rightarrow> None
      | c # h \<Rightarrow>
          if c = CHR ''#'' \<and> list_all isHexDigit h
             \<and> (length h = 3 \<or> length h = 4 \<or> length h = 6 \<or> length h = 8)
          then Some h else None)"

definition hexChar :: "nat \<Rightarrow> char" where
  "hexChar n = ''0123456789abcdef'' ! (n mod 16)"

function natToHex :: "nat \<Rightarrow> string" where
  "natToHex n = (if n < 16 then [hexChar n] else natToHex (n div 16) @ [hexChar n])"
  by pat_completeness auto
termination
  by (relation "measure id") auto

declare natToHex.simps [simp del]

text \<open>
  \<^verbatim>\<open>channel.toString(16)\<close>. The program calls it on clamped channels, which are whole
  numbers from 0 to 255; the model prints the whole part of a finite number.
\<close>

fun toString16 :: "number \<Rightarrow> string" where
  "toString16 (Num a) = (if a < 0 then ''-'' else []) @ natToHex (nat \<lfloor>\<bar>a\<bar>\<rfloor>)"
| "toString16 NaN = ''NaN''"
| "toString16 PosInf = ''Infinity''"
| "toString16 NegInf = ''-Infinity''"

definition padStart2 :: "string \<Rightarrow> string" where
  "padStart2 s = replicate (2 - length s) (CHR ''0'') @ s"

definition toHex :: "number \<Rightarrow> string" where
  "toHex channel = padStart2 (toString16 channel)"

definition rgbToHex :: "number \<Rightarrow> number \<Rightarrow> number \<Rightarrow> string" where
  "rgbToHex r g b = ''#'' @ toHex r @ toHex g @ toHex b"

definition normalizeHex :: "string \<Rightarrow> string" where
  "normalizeHex v =
     (if length v = 3 then concat (map (\<lambda>c. [c, c]) v) @ ''ff''
      else if length v = 4 then concat (map (\<lambda>c. [c, c]) v)
      else if length v = 6 then v @ ''ff''
      else v)"

text \<open>
  \<^verbatim>\<open>parseColor\<close>. An absent value (\<^verbatim>\<open>null\<close>, \<^verbatim>\<open>undefined\<close>) and the empty text
  take the same first branch; the model has the empty text for all three.
\<close>

definition parseColor :: "string \<Rightarrow> rgbaColor" where
  "parseColor v =
     (if v = [] then \<lparr>color = ''#000000'', opacity = Num 1\<rparr>
      else
        (let trimmed = trim v in
         case rgbaMatch trimmed of
           Some (m1, m2, m3, m4) \<Rightarrow>
             (let r = clampChannel (parseInt10 m1);
                  g = clampChannel (parseInt10 m2);
                  b = clampChannel (parseInt10 m3);
                  a = (case m4 of Some t \<Rightarrow> clampNumber (parseFloat t) (Num 1) | None \<Rightarrow> Num 1)
              in \<lparr>color = rgbToHex r g b, opacity = a\<rparr>)
         | None \<Rightarrow>
             (case hexMatch trimmed of
                Some h \<Rightarrow>
                  (let normalized = normalizeHex h;
                       op = (if length normalized = 8
                             then numDiv (parseInt16 (drop 6 normalized)) (Num 255) else Num 1)
                   in \<lparr>color = ''#'' @ slice normalized 0 6, opacity = op\<rparr>)
              | None \<Rightarrow> \<lparr>color = trimmed, opacity = Num 1\<rparr>)))"


section \<open>Fills and gradients\<close>

record gradientStop = rgbaColor +
  offset :: number

record linearGradientFill =
  angle :: number
  stops :: "gradientStop list"

datatype fill = SolidFill rgbaColor | LinearGradientFill linearGradientFill

text \<open>
  The computed style of an element, read by property name; a property the host does not
  report reads as the empty text.
\<close>

type_synonym cssStyle = "string \<Rightarrow> string"

text \<open>
  The scan of \<^verbatim>\<open>extractLinearGradientSegment\<close> for the parenthesis that closes the
  one at \<open>start\<close>: the text from position \<open>i\<close> on, \<open>i\<close>, and the depth.
\<close>

fun closingParen :: "string \<Rightarrow> nat \<Rightarrow> int \<Rightarrow> nat option" where
  "closingParen [] i depth = None"
| "closingParen (c # cs) i depth =
     (if c = CHR ''('' then closingParen cs (Suc i) (depth + 1)
      else if c = CHR '')'' then
        (if depth - 1 = 0 then Some i else closingParen cs (Suc i) (depth - 1))
      else closingParen cs (Suc i) depth)"

definition extractLinearGradientSegment :: "string \<Rightarrow> string option" where
  "extractLinearGradientSegment v =
     (case indexOf v ''linear-gradient'' 0 of
        None \<Rightarrow> None
      | Some index \<Rightarrow>
          (case indexOf v ''('' index of
             None \<Rightarrow> None
           | Some start \<Rightarrow>
               (case closingParen (drop (start + 1) v) (start + 1) 1 of
                  None \<Rightarrow> None
                | Some i \<Rightarrow> Some (slice v index (i + 1)))))"

text \<open>
  The loop shared, word for word, by \<^verbatim>\<open>splitGradientArgs\<close> and
  \<^verbatim>\<open>splitShadowValue\<close>: the text still to read, the buffer, and the depth.
\<close>

fun splitTopLevel :: "string \<Rightarrow> string \<Rightarrow> int \<Rightarrow> string list" where
  "splitTopLevel [] buffer depth = (if trim buffer \<noteq> [] then [trim buffer] else [])"
| "splitTopLevel (c # cs) buffer depth =
     (let depth' = (if c = CHR ''('' then depth + 1
                    else if c = CHR '')'' then max (depth - 1) 0 else depth)
      in if c = CHR '','' \<and> depth' = 0 then trim buffer # splitTopLevel cs [] depth'
         else splitTopLevel cs (buffer @ [c]) depth')"

definition splitGradientArgs :: "string \<Rightarrow> string list" where
  "splitGradientArgs input = splitTopLevel input [] 0"

definition parseGradientAngle :: "string \<Rightarrow> number" where
  "parseGradientAngle token =
     (let trimmed = toLowerCase (trim token) in
      if endsWith trimmed ''deg'' then clampNumber (parseFloat trimmed) (Num 180)
      else if endsWith trimmed ''rad''
        then clampNumber (numDiv (numMul (parseFloat trimmed) (Num 180)) (Num pi)) (Num 180)
      else if trimmed = ''to top'' then Num 0
      else if trimmed = ''to right'' then Num 90
      else if trimmed = ''to bottom'' then Num 180
      else if trimmed = ''to left'' then Num 270
      else if trimmed = ''to top right'' then Num 45
      else if trimmed = ''to top left'' then Num 315
      else if trimmed = ''to bottom right'' then Num 135
      else if trimmed = ''to bottom left'' then Num 225
      else Num 180)"

text \<open>
  \<^verbatim>\<open>token.split(/\s+(?![^()]*\))/)\<close>. A run of white space separates two parts
  unless the text after it reaches a closing parenthesis before any opening one
  (\<open>closesAhead\<close>, the negative lookahead); white space is no parenthesis, so the
  answer is the same from every position of one run.
\<close>

definition closesAhead :: "string \<Rightarrow> bool" where
  "closesAhead s =
     (case dropWhile (\<lambda>c. c \<noteq> CHR ''('' \<and> c \<noteq> CHR '')'') s of
        [] \<Rightarrow> False
      | c # r \<Rightarrow> c = CHR '')'')"

function splitStop :: "string \<Rightarrow> string \<Rightarrow> string list" where
  "splitStop buf [] = [buf]"
| "splitStop buf (c # cs) =
     (if isSpace c \<and> \<not> closesAhead (dropWhile isSpace cs)
      then buf # splitStop [] (dropWhile isSpace cs)
      else splitStop (buf @ [c]) cs)"
  by pat_completeness auto
termination
  by (relation "measure (\<lambda>(buf, s). length s)")
     (auto simp: length_dropWhile_le less_Suc_eq_le)

definition parseGradientStop :: "string \<Rightarrow> nat \<Rightarrow> nat \<Rightarrow> gradientStop option" where
  "parseGradientStop token index total' =
     (if token = [] then None
      else
        (let parts = splitStop [] token;
             spaced = numDiv (Num (of_nat index))
                      (mathMax (numSub (Num (of_nat total')) (Num 1)) (Num 1));
             hasOffset = (1 < length parts \<and> endsWith (last parts) ''%'');
             offsetValue =
               (if hasOffset
                then Some (clampNumber (numDiv (parseFloat (last parts)) (Num 100)) spaced)
                else None);
             colorToken = (if hasOffset then joinWith '' '' (butlast parts) else token);
             c = parseColor colorToken
         in Some \<lparr>color = color c, opacity = opacity c,
                  offset = (case offsetValue of Some v \<Rightarrow> v | None \<Rightarrow> spaced)\<rparr>))"

text \<open>
  The \<^verbatim>\<open>forEach\<close> of \<^verbatim>\<open>parseLinearGradient\<close>: every token of the slice is parsed
  with its own index and the length of the slice, and the stops that are not
  \<^verbatim>\<open>null\<close> are kept in order.
\<close>

definition collectStops :: "string list \<Rightarrow> gradientStop list" where
  "collectStops arr =
     List.map_filter (\<lambda>(index, token). parseGradientStop (trim token) index (length arr))
       (enumerate 0 arr)"

definition parseLinearGradient :: "string \<Rightarrow> linearGradientFill option" where
  "parseLinearGradient v =
     (case extractLinearGradientSegment v of
        None \<Rightarrow> None
      | Some segment \<Rightarrow>
          (let inner = butlast (drop (the (indexOf segment ''('' 0) + 1) segment);
               tokens = splitGradientArgs inner
           in if tokens = [] then None
              else
                (let isAngle = (strIncludes (hd tokens) ''deg'' \<or> strIncludes (hd tokens) ''rad''
                                \<or> startsWith (hd tokens) ''to '');
                     angle = (if isAngle then parseGradientAngle (hd tokens) else Num 180);
                     startIndex = (if isAngle then 1 else 0 :: nat)
                 in if length tokens - startIndex < 2 then None
                    else
                      (let stops = collectStops (drop startIndex tokens)
                       in if length stops < 2 then None
                          else Some \<lparr>angle = angle, stops = stops\<rparr>))))"

definition parseFill :: "cssStyle \<Rightarrow> fill option" where
  "parseFill style =
     (case (if style ''backgroundImage'' \<noteq> [] \<and> style ''backgroundImage'' \<noteq> ''none''
            then parseLinearGradient (style ''backgroundImage'') else None) of
        Some gradient \<Rightarrow> Some (LinearGradientFill gradient)
      | None \<Rightarrow>
          if style ''backgroundColor'' \<noteq> []
             \<and> style ''backgroundColor'' \<noteq> ''rgba(0, 0, 0, 0)''
             \<and> style ''backgroundColor'' \<noteq> ''transparent''
          then Some (SolidFill (parseColor (style ''backgroundColor'')))
          else None)"


section \<open>Lengths, radii, borders and shadows\<close>

text \<open>
  \<^verbatim>\<open>PX_REGEX = /(-?\d+(?:\.\d+)?)px/\<close>: the attempt at the start of a text, and the
  search for the leftmost match; the result is the capture.
\<close>

definition matchPxAt :: "string \<Rightarrow> string option" where
  "matchPxAt s =
     (let sgn = (case s of [] \<Rightarrow> [] | c # r \<Rightarrow> if c = CHR ''-'' then ''-'' else []);
          s1 = drop (length sgn) s;
          ip = takeWhile isDigit s1;
          r1 = dropWhile isDigit s1;
          fp = (case r1 of [] \<Rightarrow> [] | c # r \<Rightarrow> if c = CHR ''.'' then takeWhile isDigit r else [])
      in if ip = [] then None
         else if fp \<noteq> [] then
           (if startsWith (drop (1 + length fp) r1) ''px'' then Some (sgn @ ip @ ''.'' @ fp) else None)
         else if startsWith r1 ''px'' then Some (sgn @ ip) else None)"

fun pxMatch :: "string \<Rightarrow> string option" where
  "pxMatch [] = None"
| "pxMatch (c # cs) = (case matchPxAt (c # cs) of Some m \<Rightarrow> Some m | None \<Rightarrow> pxMatch cs)"

definition parsePx :: "string \<Rightarrow> number \<Rightarrow> number" where
  "parsePx v fallback =
     (if v = [] then fallback
      else
        (case pxMatch v of
           Some m \<Rightarrow> parseFloat m
         | None \<Rightarrow> if isNaN (parseFloat v) then fallback else parseFloat v))"

record borderRadius =
  topLeft :: number
  topRight :: number
  bottomRight :: number
  bottomLeft :: number

definition parseRadiusValue :: "string \<Rightarrow> number" where
  "parseRadiusValue v = (if v \<noteq> [] \<and> v \<noteq> ''0px'' then parsePx v (Num 0) else Num 0)"

definition parseBorderRadius :: "cssStyle \<Rightarrow> borderRadius" where
  "parseBorderRadius style =
     \<lparr>topLeft = parseRadiusValue (style ''borderTopLeftRadius''),
      topRight = parseRadiusValue (style ''borderTopRightRadius''),
      bottomRight = parseRadiusValue (style ''borderBottomRightRadius''),
      bottomLeft = parseRadiusValue (style ''borderBottomLeftRadius'')\<rparr>"

text \<open>
  A border side: the fields \<^verbatim>\<open>width\<close> and \<^verbatim>\<open>style\<close> of the program are
  \<open>sideWidth\<close> and \<open>sideStyle\<close>, and the four sides of a set are \<open>topSide\<close> to
  \<open>leftSide\<close>.
\<close>

record borderSide = rgbaColor +
  sideWidth :: number
  sideStyle :: string

record borderSet =
  topSide :: borderSide
  rightSide :: borderSide
  bottomSide :: borderSide
  leftSide :: borderSide

definition defaultBorderSide :: borderSide where
  "defaultBorderSide = \<lparr>color = ''#000000'', opacity = Num 1, sideWidth = Num 0, sideStyle = ''solid''\<rparr>"

text \<open>
  One round of the loop over the sides in \<^verbatim>\<open>parseBorders\<close>: \<open>side\<close> is
  \<^verbatim>\<open>Top\<close>, \<^verbatim>\<open>Right\<close>, \<^verbatim>\<open>Bottom\<close> or \<^verbatim>\<open>Left\<close>. The style properties are
  texts, so the \<^verbatim>\<open>??\<close> defaults of the program never apply.
\<close>

definition parseBorderSide :: "cssStyle \<Rightarrow> string \<Rightarrow> borderSide option" where
  "parseBorderSide style side =
     (let widthValue = style (''border'' @ side @ ''Width'');
          styleValue = style (''border'' @ side @ ''Style'');
          colorValue = style (''border'' @ side @ ''Color'');
          width = parsePx widthValue (Num 0)
      in if numLe width (Num 0) \<or> styleValue = ''none'' then None
         else Some \<lparr>color = color (parseColor colorValue), opacity = opacity (parseColor colorValue),
                    sideWidth = width, sideStyle = styleValue\<rparr>)"

definition orElse :: "'a option \<Rightarrow> 'a \<Rightarrow> 'a" where
  "orElse v fallback = (case v of Some a \<Rightarrow> a | None \<Rightarrow> fallback)"

definition parseBorders :: "cssStyle \<Rightarrow> borderSet option" where
  "parseBorders style =
     (let rTop = parseBorderSide style ''Top'';
          rRight = parseBorderSide style ''Right'';
          rBottom = parseBorderSide style ''Bottom'';
          rLeft = parseBorderSide style ''Left''
      in if rTop = None \<and> rRight = None \<and> rBottom = None \<and> rLeft = None then None
         else Some \<lparr>topSide = orElse rTop defaultBorderSide,
                    rightSide = orElse rRight defaultBorderSide,
                    bottomSide = orElse rBottom defaultBorderSide,
                    leftSide = orElse rLeft defaultBorderSide\<rparr>)"

record boxShadow = rgbaColor +
  inset :: bool
  offsetX :: number
  offsetY :: number
  blur :: number
  spread :: number

definition splitShadowValue :: "string \<Rightarrow> string list" where
  "splitShadowValue v = splitTopLevel v [] 0"

text \<open>
  \<^verbatim>\<open>/(^|\s)inset(\s|$)/i\<close> at one position of a text: \<open>atStart\<close> says whether the
  position is the start of the whole text, and the result is the length of the match.
\<close>

definition insetWord :: "string \<Rightarrow> nat option" where
  "insetWord r =
     (if toLowerCase (take 5 r) = ''inset'' then
        (case drop 5 r of [] \<Rightarrow> Some 5 | c # r' \<Rightarrow> if isSpace c then Some 6 else None)
      else None)"

definition matchInsetAt :: "bool \<Rightarrow> string \<Rightarrow> nat option" where
  "matchInsetAt atStart s =
     (case (if atStart then insetWord s else None) of
        Some n \<Rightarrow> Some n
      | None \<Rightarrow>
          (case s of
             [] \<Rightarrow> None
           | c # r \<Rightarrow> if isSpace c then map_option Suc (insetWord r) else None))"

text \<open>\<^verbatim>\<open>/(^|\s)inset(\s|$)/i.test(value)\<close>.\<close>

fun testInset :: "bool \<Rightarrow> string \<Rightarrow> bool" where
  "testInset atStart [] = (matchInsetAt atStart [] \<noteq> None)"
| "testInset atStart (c # cs) = (matchInsetAt atStart (c # cs) \<noteq> None \<or> testInset False cs)"

text \<open>\<^verbatim>\<open>value.replace(/(^|\s)inset(\s|$)/gi, ' ')\<close>: the search goes on after each match.\<close>

fun replaceInset :: "bool \<Rightarrow> string \<Rightarrow> string" where
  "replaceInset atStart [] = []"
| "replaceInset atStart (c # cs) =
     (case matchInsetAt atStart (c # cs) of
        Some n \<Rightarrow> '' '' @ replaceInset False (drop (n - 1) cs)
      | None \<Rightarrow> c # replaceInset False cs)"

text \<open>
  \<^verbatim>\<open>SHADOW_COLOR_REGEX = /(rgba?\([^)]*\)|hsla?\([^)]*\)|#[0-9a-f]{3,8}|[a-z]+)$/i\<close>.
  A match ends where the text ends, so it is a suffix that one of the four alternatives
  accepts whole (\<open>isShadowColor\<close>); \<open>shadowColorIndex\<close> is the start of the leftmost one.
\<close>

definition isColorCall :: "string \<Rightarrow> string \<Rightarrow> bool" where
  "isColorCall name s =
     (toLowerCase (take 3 s) = name \<and>
      (let s1 = drop 3 s;
           s2 = (case s1 of [] \<Rightarrow> s1 | c # r \<Rightarrow> if toLowerChar c = CHR ''a'' then r else s1)
       in case s2 of
            [] \<Rightarrow> False
          | c # r \<Rightarrow> c = CHR ''('' \<and> r \<noteq> [] \<and> last r = CHR '')''
                     \<and> list_all (\<lambda>d. d \<noteq> CHR '')'') (butlast r)))"

definition isShadowColor :: "string \<Rightarrow> bool" where
  "isShadowColor s =
     (isColorCall ''rgb'' s \<or> isColorCall ''hsl'' s
      \<or> (case s of [] \<Rightarrow> False
          | c # h \<Rightarrow> c = CHR ''#'' \<and> 3 \<le> length h \<and> length h \<le> 8 \<and> list_all isHexDigit h)
      \<or> (s \<noteq> [] \<and> list_all isAlpha s))"

fun shadowColorIndex :: "string \<Rightarrow> nat \<Rightarrow> nat option" where
  "shadowColorIndex [] i = None"
| "shadowColorIndex (c # cs) i =
     (if isShadowColor (c # cs) then Some i else shadowColorIndex cs (Suc i))"

definition parseSingleShadow :: "string \<Rightarrow> boxShadow option" where
  "parseSingleShadow v =
     (if v = [] then None
      else
        (let cleaned = trim (replaceInset True v);
             colorMatch = shadowColorIndex cleaned 0;
             colorToken = (case colorMatch of Some i \<Rightarrow> drop i cleaned | None \<Rightarrow> ''rgba(0, 0, 0, 0.25)'');
             numericPart =
               (case colorMatch of
                  Some i \<Rightarrow> trim (take i cleaned @ drop (i + length colorToken) cleaned)
                | None \<Rightarrow> cleaned);
             tokens = splitWords [] numericPart
         in if length tokens < 2 then None
            else
              Some \<lparr>color = color (parseColor colorToken), opacity = opacity (parseColor colorToken),
                    inset = testInset True v,
                    offsetX = parsePx (tokens ! 0) (Num 0),
                    offsetY = parsePx (tokens ! 1) (Num 0),
                    blur = mathMax (Num 0) (parsePx (if 2 < length tokens then tokens ! 2 else ''0px'') (Num 0)),
                    spread = parsePx (if 3 < length tokens then tokens ! 3 else ''0px'') (Num 0)\<rparr>))"

definition parseBoxShadows :: "cssStyle \<Rightarrow> boxShadow list" where
  "parseBoxShadows style =
     (let v = style ''boxShadow'' in
      if v = [] \<or> v = ''none'' then []
      else List.map_filter (\<lambda>shadow. parseSingleShadow (trim shadow)) (splitShadowValue v))"

section \<open>Typography\<close>

definition parseLineHeight :: "string \<Rightarrow> number \<Rightarrow> number" where
  "parseLineHeight v fontSize =
     (if v = [] \<or> v = ''normal'' then numMul fontSize (Num (12 / 10))
      else if endsWith v ''%'' then numMul (numDiv (parseFloat v) (Num 100)) fontSize
      else if endsWith v ''px'' then parsePx v fontSize
      else if \<not> isNaN (parseFloat v) then numMul (parseFloat v) fontSize
      else numMul fontSize (Num (12 / 10)))"

text \<open>\<^verbatim>\<open>value.split(',')\<close>.\<close>

fun splitOn :: "char \<Rightarrow> string \<Rightarrow> string \<Rightarrow> string list" where
  "splitOn sep buf [] = [buf]"
| "splitOn sep buf (c # cs) =
     (if c = sep then buf # splitOn sep [] cs else splitOn sep (buf @ [c]) cs)"

definition sanitizeFontFamily :: "string \<Rightarrow> string" where
  "sanitizeFontFamily v =
     (if v = [] then ''sans-serif''
      else joinWith '', ''
             (map (\<lambda>family. filter (\<lambda>c. c \<noteq> CHR 0x22 \<and> c \<noteq> CHR 0x27) (trim family))
                (splitOn (CHR '','') [] v)))"

text \<open>The anchors \<^verbatim>\<open>'start'\<close>, \<^verbatim>\<open>'middle'\<close> and \<^verbatim>\<open>'end'\<close>.\<close>

datatype textAnchor = AnchorStart | AnchorMiddle | AnchorEnd

definition toTextAnchor :: "string \<Rightarrow> textAnchor" where
  "toTextAnchor textAlign =
     (if textAlign = ''center'' then AnchorMiddle
      else if textAlign = ''right'' \<or> textAlign = ''end'' then AnchorEnd
      else AnchorStart)"


section \<open>The styled element tree\<close>

text \<open>
  What the program reads from the host: for an element its \<^verbatim>\<open>id\<close>, \<^verbatim>\<open>tagName\<close>,
  \<^verbatim>\<open>className\<close>, whether it is an \<^verbatim>\<open>HTMLElement\<close>, its bounding rectangle, its
  computed style and its child nodes; for a text node its text and the bounding rectangle
  of the range around each of its code units (\<^verbatim>\<open>range.getBoundingClientRect()\<close>).
  One snapshot of these readings is a value of type \<open>element\<close>.
\<close>

record domRect =
  rectLeft :: number
  rectTop :: number
  rectRight :: number
  rectBottom :: number
  rectWidth :: number
  rectHeight :: number

record elementData =
  elementId :: string
  tagName :: string
  className :: string
  isHTMLElement :: bool
  boundingRect :: domRect
  computedStyle :: cssStyle

datatype element = Element elementData "childNode list"
  and childNode = ElementChild element | TextChild string "domRect list" | OtherChild

fun elementInfo :: "element \<Rightarrow> elementData" where
  "elementInfo (Element e kids) = e"

fun childNodes :: "element \<Rightarrow> childNode list" where
  "childNodes (Element e kids) = kids"

text \<open>\<^verbatim>\<open>element.textContent\<close>: the text of the text nodes below the element, in order.\<close>

fun textContent :: "element \<Rightarrow> string"
  and textContentOfNodes :: "childNode list \<Rightarrow> string"
  and textContentOfNode :: "childNode \<Rightarrow> string" where
  "textContent (Element e kids) = textContentOfNodes kids"
| "textContentOfNodes [] = []"
| "textContentOfNodes (k # kids) = textContentOfNode k @ textContentOfNodes kids"
| "textContentOfNode (ElementChild el) = textContent el"
| "textContentOfNode (TextChild t rects) = t"
| "textContentOfNode OtherChild = []"

text \<open>
  \<^verbatim>\<open>element.classList.contains(token)\<close>: the class attribute split at ASCII white space.
\<close>

definition isAsciiSpace :: "char \<Rightarrow> bool" where
  "isAsciiSpace c = (c = CHR 0x09 \<or> c = CHR 0x0A \<or> c = CHR 0x0C \<or> c = CHR 0x0D \<or> c = CHR 0x20)"

fun classTokens :: "string \<Rightarrow> string \<Rightarrow> string list" where
  "classTokens buf [] = (if buf = [] then [] else [buf])"
| "classTokens buf (c # cs) =
     (if isAsciiSpace c then (if buf = [] then classTokens [] cs else buf # classTokens [] cs)
      else classTokens (buf @ [c]) cs)"

definition classListContains :: "string \<Rightarrow> string \<Rightarrow> bool" where
  "classListContains cls token = (token \<in> set (classTokens [] cls))"

definition IGNORED_TAGS :: "string list" where
  "IGNORED_TAGS = [''SCRIPT'', ''STYLE'', ''META'', ''TITLE'', ''LINK'', ''NOSCRIPT'']"

section \<open>The node tree\<close>

text \<open>
  The fields every node has (\<^verbatim>\<open>BaseNode\<close> and \<^verbatim>\<open>tagName\<close>) are \<open>nodeBase\<close>; the
  tag \<^verbatim>\<open>kind\<close> is the constructor of \<open>simpleNode\<close>. An absent class name is the empty
  text: the program tests the field only for being empty or absent.
\<close>

record nodeBase =
  nodeId :: string
  nodeTagName :: string
  nodeX :: number
  nodeY :: number
  nodeWidth :: number
  nodeHeight :: number
  nodeOpacity :: number
  nodeClassName :: string

record textPayload = rgbaColor +
  content :: string
  fontFamily :: string
  fontSize :: number
  fontWeight :: string
  fontStyle :: string
  letterSpacing :: number
  lineHeight :: number
  textAnchor :: textAnchor

record boxData =
  background :: "fill option"
  borderRadius :: borderRadius
  borders :: "borderSet option"
  shadows :: "boxShadow list"
  overflowHidden :: bool

text \<open>
  An icon node. The fields \<^verbatim>\<open>svgPath\<close> and \<^verbatim>\<open>viewBox\<close> are read from the value found
  in the glyph table; \<open>None\<close> is \<^verbatim>\<open>undefined\<close>, what reading them gives when that value
  is not an entry of the table (see \<open>lookupIcon\<close>).
\<close>

record iconData =
  iconName :: string
  iconColor :: string
  svgPath :: "string option"
  viewBox :: "string option"

datatype simpleNode =
    BoxNode nodeBase boxData "simpleNode list"
  | TextNode nodeBase textPayload
  | IconNode nodeBase iconData

section \<open>The visual line segmenter\<close>

record lineState =
  currentTop :: "number option"
  lineStart :: nat
  aggLeft :: number
  aggTop :: number
  aggRight :: number
  aggBottom :: number
  segments :: "(string \<times> domRect) list"

definition zeroRect :: domRect where
  "zeroRect = \<lparr>rectLeft = Num 0, rectTop = Num 0, rectRight = Num 0, rectBottom = Num 0,
                rectWidth = Num 0, rectHeight = Num 0\<rparr>"

text \<open>The rectangle of the range around code unit \<open>i\<close>; empty where the host reports none.\<close>

definition rangeRect :: "domRect list \<Rightarrow> nat \<Rightarrow> domRect" where
  "rangeRect rects i = (if i < length rects then rects ! i else zeroRect)"

definition commitLine :: "string \<Rightarrow> nat \<Rightarrow> lineState \<Rightarrow> lineState" where
  "commitLine text endExclusive st =
     (if lineStart st < endExclusive \<and> isFinite (aggLeft st) \<and> isFinite (aggTop st)
         \<and> isFinite (aggRight st) \<and> isFinite (aggBottom st)
      then st\<lparr>segments := segments st @
             [(slice text (lineStart st) endExclusive,
               \<lparr>rectLeft = aggLeft st, rectTop = aggTop st, rectRight = aggRight st,
                rectBottom = aggBottom st,
                rectWidth = mathMax (Num 0) (numSub (aggRight st) (aggLeft st)),
                rectHeight = mathMax (Num 0) (numSub (aggBottom st) (aggTop st))\<rparr>)]\<rparr>
      else st)"

definition startLine :: "nat \<Rightarrow> domRect \<Rightarrow> lineState \<Rightarrow> lineState" where
  "startLine i r st =
     st\<lparr>currentTop := Some (rectTop r), lineStart := i, aggLeft := rectLeft r,
        aggTop := rectTop r, aggRight := rectRight r, aggBottom := rectBottom r\<rparr>"

text \<open>One round of the loop over the code units, at index \<open>i\<close>.\<close>

definition lineStep :: "string \<Rightarrow> domRect list \<Rightarrow> nat \<Rightarrow> lineState \<Rightarrow> lineState" where
  "lineStep text rects i st =
     (let r = rangeRect rects i in
      if strictEq (rectWidth r) (Num 0) \<or> strictEq (rectHeight r) (Num 0) then st
      else
        (case currentTop st of
           None \<Rightarrow> startLine i r st
         | Some lineTop \<Rightarrow>
             if numGt (mathAbs (numSub (rectTop r) lineTop)) (Num (1 / 2))
             then startLine i r (commitLine text i st)
             else st\<lparr>aggLeft := mathMin (aggLeft st) (rectLeft r),
                     aggTop := mathMin (aggTop st) (rectTop r),
                     aggRight := mathMax (aggRight st) (rectRight r),
                     aggBottom := mathMax (aggBottom st) (rectBottom r)\<rparr>))"

fun lineLoop :: "string \<Rightarrow> domRect list \<Rightarrow> nat \<Rightarrow> nat \<Rightarrow> lineState \<Rightarrow> lineState" where
  "lineLoop text rects i 0 st = st"
| "lineLoop text rects i (Suc n) st = lineLoop text rects (Suc i) n (lineStep text rects i st)"

definition splitTextByVisualLines :: "string \<Rightarrow> domRect list \<Rightarrow> (string \<times> domRect) list" where
  "splitTextByVisualLines text rects =
     (if text = [] then []
      else
        segments (commitLine text (length text)
          (lineLoop text rects 0 (length text)
             \<lparr>currentTop = None, lineStart = 0, aggLeft = PosInf, aggTop = PosInf,
              aggRight = NegInf, aggBottom = NegInf, segments = []\<rparr>)))"


section \<open>The tree snapshotter\<close>

text \<open>
  The glyph table: name, path data and view box of its own entries (the names are
  distinct).
\<close>

definition MATERIAL_SYMBOLS_PATHS :: "(string \<times> string \<times> string) list" where
  "MATERIAL_SYMBOLS_PATHS =
    [(''dashboard'',
      (''M13 9V3h8v6h-8zm-2 0H3V3h8v6zm2 2h8v10h-8V11zm-2 0v10H3V11h8z'',
       ''0 0 24 24'')),
     (''calendar_month'',
      (''M9 11H7v2h2v-2zm4 0h-2v2h2v-2zm4 0h-2v2h2v-2zm2-7h-1V2h-2v2H8V2H6v2H5c-1.11 0-1.99.9-1.99 2L3 20c0 1.1.89 2 2 2h14c1.1 0 2-.9 2-2V6c0-1.1-.9-2-2-2zm0 16H5V9h14v11z'',
       ''0 0 24 24'')),
     (''bed'',
      (''M7 13c1.66 0 3-1.34 3-3S8.66 7 7 7s-3 1.34-3 3 1.34 3 3 3zm12-6h-8v7H3V5H1v15h2v-3h18v3h2v-9c0-2.21-1.79-4-4-4z'',
       ''0 0 24 24'')),
     (''bar_chart'',
      (''M5 9.2h3V19H5V9.2zM10.6 5h2.8v14h-2.8V5zm5.6 8H19v6h-2.8v-6z'',
       ''0 0 24 24'')),
     (''settings'',
      (''M19.14 12.94c.04-.3.06-.61.06-.94 0-.32-.02-.64-.07-.94l2.03-1.58c.18-.14.23-.41.12-.61l-1.92-3.32c-.12-.22-.37-.29-.59-.22l-2.39.96c-.5-.38-1.03-.7-1.62-.94l-.36-2.54c-.04-.24-.24-.41-.48-.41h-3.84c-.24 0-.43.17-.47.41l-.36 2.54c-.59.24-1.13.57-1.62.94l-2.39-.96c-.22-.08-.47 0-.59.22L2.74 8.87c-.12.21-.08.47.12.61l2.03 1.58c-.05.3-.09.63-.09.94s.02.64.07.94l-2.03 1.58c-.18.14-.23.41-.12.61l1.92 3.32c.12.22.37.29.59.22l2.39-.96c.5.38 1.03.7 1.62.94l.36 2.54c.05.24.24.41.48.41h3.84c.24 0 .44-.17.47-.41l.36-2.54c.59-.24 1.13-.56 1.62-.94l2.39.96c.22.08.47 0 .59-.22l1.92-3.32c.12-.22.07-.47-.12-.61l-2.01-1.58zM12 15.6c-1.98 0-3.6-1.62-3.6-3.6s1.62-3.6 3.6-3.6 3.6 1.62 3.6 3.6-1.62 3.6-3.6 3.6z'',
       ''0 0 24 24'')),
     (''help_center'',
      (''M19 3H5c-1.1 0-2 .9-2 2v14c0 1.1.9 2 2 2h14c1.1 0 2-.9 2-2V5c0-1.1-.9-2-2-2zm-7 15h-2v-2h2v2zm1.07-7.75l-.9.92C11.45 11.9 11 12.5 11 14h-2v-.5c0-1.1.45-2.1 1.17-2.83l1.24-1.26c.37-.36.59-.86.59-1.41 0-1.1-.9-2-2-2s-2 .9-2 2H6c0-2.21 1.79-4 4-4s4 1.79 4 4c0 .88-.36 1.68-.93 2.25z'',
       ''0 0 24 24'')),
     (''logout'',
      (''M17 7l-1.41 1.41L18.17 11H8v2h10.17l-2.58 2.58L17 17l5-5zM4 5h8V3H4c-1.1 0-2 .9-2 2v14c0 1.1.9 2 2 2h8v-2H4V5z'',
       ''0 0 24 24'')),
     (''search'',
      (''M15.5 14h-.79l-.28-.27C15.41 12.59 16 11.11 16 9.5 16 5.91 13.09 3 9.5 3S3 5.91 3 9.5 5.91 16 9.5 16c1.61 0 3.09-.59 4.23-1.57l.27.28v.79l5 4.99L20.49 19l-4.99-5zm-6 0C7.01 14 5 11.99 5 9.5S7.01 5 9.5 5 14 7.01 14 9.5 11.99 14 9.5 14z'',
       ''0 0 24 24'')),
     (''expand_more'',
      (''M16.59 8.59L12 13.17 7.41 8.59 6 10l6 6 6-6z'',
       ''0 0 24 24'')),
     (''add'',
      (''M19 13h-6v6h-2v-6H5v-2h6V5h2v6h6v2z'',
       ''0 0 24 24'')),
     (''edit'',
      (''M3 17.25V21h3.75L17.81 9.94l-3.75-3.75L3 17.25zM20.71 7.04c.39-.39.39-1.02 0-1.41l-2.34-2.34c-.39-.39-1.02-.39-1.41 0l-1.83 1.83 3.75 3.75 1.83-1.83z'',
       ''0 0 24 24'')),
     (''content_copy'',
      (''M16 1H4c-1.1 0-2 .9-2 2v14h2V3h12V1zm3 4H8c-1.1 0-2 .9-2 2v14c0 1.1.9 2 2 2h11c1.1 0 2-.9 2-2V7c0-1.1-.9-2-2-2zm0 16H8V7h11v14z'',
       ''0 0 24 24'')),
     (''delete'',
      (''M6 19c0 1.1.9 2 2 2h8c1.1 0 2-.9 2-2V7H6v12zM19 4h-3.5l-1-1h-5l-1 1H5v2h14V4z'',
       ''0 0 24 24'')),
     (''chevron_left'',
      (''M15.41 7.41L14 6l-6 6 6 6 1.41-1.41L10.83 12z'',
       ''0 0 24 24'')),
     (''chevron_right'',
      (''M10 6L8.59 7.41 13.17 12l-4.58 4.59L10 18l6-6z'',
       ''0 0 24 24''))]"

text \<open>
  \<^verbatim>\<open>MATERIAL_SYMBOLS_PATHS[iconName]\<close>. The table is an object literal, so the lookup
  also finds the properties that every object inherits from \<^verbatim>\<open>Object.prototype\<close>: their
  names are listed in \<open>INHERITED_NAMES\<close>. The value found under such a name (a function,
  or the prototype itself for \<^verbatim>\<open>__proto__\<close>) counts as true in a condition and has neither
  a \<^verbatim>\<open>path\<close> nor a \<^verbatim>\<open>viewBox\<close>. The result of \<open>lookupIcon\<close> is \<open>None\<close> when nothing is
  found, and else the \<^verbatim>\<open>path\<close> and the \<^verbatim>\<open>viewBox\<close> of the value found, each \<open>None\<close>
  when the value has no such property.
\<close>

definition INHERITED_NAMES :: "string list" where
  "INHERITED_NAMES =
     [''constructor'', ''hasOwnProperty'', ''isPrototypeOf'', ''propertyIsEnumerable'',
      ''toLocaleString'', ''toString'', ''valueOf'', ''__proto__'', ''__defineGetter__'',
      ''__defineSetter__'', ''__lookupGetter__'', ''__lookupSetter__'']"

definition lookupIcon :: "string \<Rightarrow> (string option \<times> string option) option" where
  "lookupIcon name =
     (case map_of MATERIAL_SYMBOLS_PATHS name of
        Some (path, box) \<Rightarrow> Some (Some path, Some box)
      | None \<Rightarrow> if name \<in> set INHERITED_NAMES then Some (None, None) else None)"


definition isRenderable :: "cssStyle \<Rightarrow> bool" where
  "isRenderable style =
     (if style ''display'' = ''none'' then False
      else if style ''visibility'' = ''hidden'' \<or> style ''visibility'' = ''collapse'' then False
      else numGt (parseFloat (style ''opacity'')) (Num 0))"

text \<open>
  The counter \<^verbatim>\<open>nodeCounter\<close> is a variable of the module, shared by all calls. Every
  function that reads or increments it takes its value and returns the new one.

  \<^verbatim>\<open>createIconNode\<close>. The diagnostic written for an unknown name is not modelled.
\<close>

definition createIconNode :: "element \<Rightarrow> domRect \<Rightarrow> nat \<Rightarrow> simpleNode option \<times> nat" where
  "createIconNode element rootRect counter =
     (let e = elementInfo element;
          style = computedStyle e;
          name = trim (textContent element);
          r = boundingRect e
      in case lookupIcon name of
           None \<Rightarrow> (None, counter)
         | Some (path, box) \<Rightarrow>
             if strictEq (rectWidth r) (Num 0) \<or> strictEq (rectHeight r) (Num 0) then (None, counter)
             else
               (Some (IconNode
                  \<lparr>nodeId = ''icon-'' @ natToString counter,
                   nodeTagName = toLowerCase (tagName e),
                   nodeX = numSub (rectLeft r) (rectLeft rootRect),
                   nodeY = numSub (rectTop r) (rectTop rootRect),
                   nodeWidth = rectWidth r,
                   nodeHeight = rectHeight r,
                   nodeOpacity = clampNumber (parseFloat (style ''opacity'')) (Num 1),
                   nodeClassName = className e\<rparr>
                  \<lparr>iconName = name, iconColor = color (parseColor (style ''color'')),
                   svgPath = path, viewBox = box\<rparr>),
                counter + 1))"

text \<open>\<^verbatim>\<open>fullText.replace(/\s+/g, ' ')\<close>.\<close>

function collapseWhitespace :: "string \<Rightarrow> string" where
  "collapseWhitespace [] = []"
| "collapseWhitespace (c # cs) =
     (if isSpace c then CHR '' '' # collapseWhitespace (dropWhile isSpace cs)
      else c # collapseWhitespace cs)"
  by pat_completeness auto
termination
  by (relation "measure length") (auto simp: length_dropWhile_le less_Suc_eq_le)

text \<open>The text node built for one line segment; \<open>counter\<close> numbers it.\<close>

definition lineTextNode :: "elementData \<Rightarrow> domRect \<Rightarrow> string \<times> domRect \<Rightarrow> nat \<Rightarrow> simpleNode" where
  "lineTextNode e rootRect seg counter =
     (let style = computedStyle e;
          r = snd seg;
          c = parseColor (style ''color'');
          size = parsePx (style ''fontSize'') (Num 16);
          anchor = toTextAnchor (style ''textAlign'');
          xPos =
            (if anchor = AnchorMiddle
             then numAdd (numSub (rectLeft r) (rectLeft rootRect)) (numDiv (rectWidth r) (Num 2))
             else if anchor = AnchorEnd then numSub (rectRight r) (rectLeft rootRect)
             else numSub (rectLeft r) (rectLeft rootRect));
          lineHeightPx = rectHeight r;
          baselineOffset =
            numAdd (numDiv (numSub lineHeightPx size) (Num 2)) (numMul size (Num (85 / 100)));
          yPos = numAdd (numSub (rectTop r) (rectTop rootRect)) baselineOffset
      in TextNode
           \<lparr>nodeId = ''text-'' @ natToString counter,
            nodeTagName = toLowerCase (tagName e),
            nodeX = xPos,
            nodeY = yPos,
            nodeWidth = rectWidth r,
            nodeHeight = rectHeight r,
            nodeOpacity = clampNumber (parseFloat (style ''opacity'')) (Num 1),
            nodeClassName = className e\<rparr>
           \<lparr>color = color c, opacity = opacity c,
            content = fst seg,
            fontFamily = sanitizeFontFamily (style ''fontFamily''),
            fontSize = size,
            fontWeight = style ''fontWeight'',
            fontStyle = style ''fontStyle'',
            letterSpacing =
              (if style ''letterSpacing'' = ''normal'' then Num 0
               else parsePx (style ''letterSpacing'') (Num 0)),
            lineHeight = parseLineHeight (style ''lineHeight'') size,
            textAnchor = anchor\<rparr>)"

text \<open>The loop over the line segments of one text node.\<close>

fun segmentNodes :: "elementData \<Rightarrow> domRect \<Rightarrow> (string \<times> domRect) list \<Rightarrow> nat
    \<Rightarrow> simpleNode list \<times> nat" where
  "segmentNodes e rootRect [] counter = ([], counter)"
| "segmentNodes e rootRect (seg # rest) counter =
     (if trim (fst seg) = [] then segmentNodes e rootRect rest counter
      else if strictEq (rectWidth (snd seg)) (Num 0) \<or> strictEq (rectHeight (snd seg)) (Num 0)
        then segmentNodes e rootRect rest counter
      else
        (let (nodes, counter') = segmentNodes e rootRect rest (counter + 1)
         in (lineTextNode e rootRect seg counter # nodes, counter')))"

text \<open>\<^verbatim>\<open>collectTextNodes\<close>: the loop over the child nodes of the element.\<close>

fun collectTextNodes :: "elementData \<Rightarrow> childNode list \<Rightarrow> domRect \<Rightarrow> nat
    \<Rightarrow> simpleNode list \<times> nat" where
  "collectTextNodes e [] rootRect counter = ([], counter)"
| "collectTextNodes e (TextChild fullText rects # rest) rootRect counter =
     (if trim (collapseWhitespace fullText) = [] then collectTextNodes e rest rootRect counter
      else
        (let (nodes, c1) = segmentNodes e rootRect (splitTextByVisualLines fullText rects) counter;
             (more, c2) = collectTextNodes e rest rootRect c1
         in (nodes @ more, c2)))"
| "collectTextNodes e (other # rest) rootRect counter = collectTextNodes e rest rootRect counter"

text \<open>
  \<^verbatim>\<open>createNodeFromElement\<close>, and the loop over \<^verbatim>\<open>element.children\<close> in it
  (\<open>createChildNodes\<close>), which passes \<open>allowHidden\<close> on unchanged.
\<close>

fun createNodeFromElement :: "element \<Rightarrow> domRect \<Rightarrow> bool \<Rightarrow> nat \<Rightarrow> simpleNode option \<times> nat"
  and createChildNodes :: "childNode list \<Rightarrow> domRect \<Rightarrow> bool \<Rightarrow> nat \<Rightarrow> simpleNode list \<times> nat"
  where
  "createNodeFromElement (Element e kids) rootRect allowHidden counter =
     (if strictEq (rectWidth (boundingRect e)) (Num 0) \<or> strictEq (rectHeight (boundingRect e)) (Num 0)
      then (None, counter)
      else if \<not> allowHidden \<and> \<not> isRenderable (computedStyle e) then (None, counter)
      else if classListContains (className e) ''material-symbols-outlined''
        then createIconNode (Element e kids) rootRect counter
      else
        (let c0 = (if elementId e \<noteq> [] then counter else counter + 1);
             (textNodes, c1) = collectTextNodes e kids rootRect c0;
             (childBoxes, c2) = createChildNodes kids rootRect allowHidden c1
         in (Some (BoxNode
               \<lparr>nodeId = (if elementId e \<noteq> [] then elementId e
                           else toLowerCase (tagName e) @ ''-'' @ natToString counter),
                nodeTagName = toLowerCase (tagName e),
                nodeX = numSub (rectLeft (boundingRect e)) (rectLeft rootRect),
                nodeY = numSub (rectTop (boundingRect e)) (rectTop rootRect),
                nodeWidth = rectWidth (boundingRect e),
                nodeHeight = rectHeight (boundingRect e),
                nodeOpacity = clampNumber (parseFloat (computedStyle e ''opacity'')) (Num 1),
                nodeClassName = className e\<rparr>
               \<lparr>background = parseFill (computedStyle e),
                borderRadius = parseBorderRadius (computedStyle e),
                borders = parseBorders (computedStyle e),
                shadows = parseBoxShadows (computedStyle e),
                overflowHidden = (computedStyle e ''overflow'' = ''hidden''
                                  \<or> computedStyle e ''overflowX'' = ''hidden''
                                  \<or> computedStyle e ''overflowY'' = ''hidden'')\<rparr>
               (textNodes @ childBoxes)),
             c2)))"
| "createChildNodes [] rootRect allowHidden counter = ([], counter)"
| "createChildNodes (ElementChild child # rest) rootRect allowHidden counter =
     (if \<not> isHTMLElement (elementInfo child) then createChildNodes rest rootRect allowHidden counter
      else if tagName (elementInfo child) \<in> set IGNORED_TAGS
        then createChildNodes rest rootRect allowHidden counter
      else
        (let (childNode, c1) = createNodeFromElement child rootRect allowHidden counter;
             (more, c2) = createChildNodes rest rootRect allowHidden c1
         in ((case childNode of Some n \<Rightarrow> [n] | None \<Rightarrow> []) @ more, c2)))"
| "createChildNodes (other # rest) rootRect allowHidden counter =
     createChildNodes rest rootRect allowHidden counter"


section \<open>Printing numbers\<close>

text \<open>
  The text of a number (\<^verbatim>\<open>String(v)\<close>, a number in a template): the decimal
  notation, with the digits of the fraction as far as it goes and at most 17 of them.
  The program prints the shortest digits that identify the binary value and switches to
  an exponent outside \<open>1e-6 .. 1e21\<close>; the model agrees with it on whole numbers and
  short decimal fractions inside that range, the numbers the geometry is made of.
\<close>

fun fracDigits :: "nat \<Rightarrow> real \<Rightarrow> string" where
  "fracDigits 0 f = []"
| "fracDigits (Suc n) f =
     (if f = 0 then []
      else digitChar (nat \<lfloor>f * 10\<rfloor>) # fracDigits n (f * 10 - of_int \<lfloor>f * 10\<rfloor>))"

fun numberToString :: "number \<Rightarrow> string" where
  "numberToString (Num a) =
     (if a < 0 then ''-'' else []) @ natToString (nat \<lfloor>\<bar>a\<bar>\<rfloor>)
       @ (if \<bar>a\<bar> - of_int \<lfloor>\<bar>a\<bar>\<rfloor> = 0 then []
          else ''.'' @ fracDigits 17 (\<bar>a\<bar> - of_int \<lfloor>\<bar>a\<bar>\<rfloor>))"
| "numberToString NaN = ''NaN''"
| "numberToString PosInf = ''Infinity''"
| "numberToString NegInf = ''-Infinity''"

text \<open>\<^verbatim>\<open>v.toFixed(3)\<close>, for magnitudes below \<open>1e21\<close>.\<close>

fun toFixed3 :: "number \<Rightarrow> string" where
  "toFixed3 (Num a) =
     (let n = nat \<lfloor>\<bar>a\<bar> * 1000 + 1 / 2\<rfloor>
      in (if a < 0 then ''-'' else []) @ natToString (n div 1000) @ ''.''
           @ [digitChar (n div 100), digitChar (n div 10), digitChar n])"
| "toFixed3 v = numberToString v"

text \<open>\<^verbatim>\<open>.replace(/0+$/, '')\<close> and \<^verbatim>\<open>.replace(/\.$/, '')\<close>.\<close>

definition stripTrailingZeros :: "string \<Rightarrow> string" where
  "stripTrailingZeros s = rev (dropWhile (\<lambda>c. c = CHR ''0'') (rev s))"

definition stripTrailingDot :: "string \<Rightarrow> string" where
  "stripTrailingDot s = (if s \<noteq> [] \<and> last s = CHR ''.'' then butlast s else s)"

definition formatNumber :: "number \<Rightarrow> string" where
  "formatNumber v =
     (let rounded = numDiv (mathRound (numMul (numAdd v EPSILON) (Num 1000))) (Num 1000)
      in if isInteger rounded then numberToString rounded
         else stripTrailingDot (stripTrailingZeros (toFixed3 rounded)))"

definition formatPercentage :: "number \<Rightarrow> string" where
  "formatPercentage v = numberToString (numDiv (mathRound (numMul v (Num 10000))) (Num 100)) @ ''%''"

text \<open>
  \<^verbatim>\<open>Number(s)\<close> on a text: white space around it is dropped, the empty text is 0,
  and the rest must be, as a whole, a decimal literal or a literal with one of the
  prefixes \<^verbatim>\<open>0x\<close>, \<^verbatim>\<open>0o\<close>, \<^verbatim>\<open>0b\<close>.
\<close>

definition radixValue :: "nat \<Rightarrow> string \<Rightarrow> nat" where
  "radixValue base ds = foldl (\<lambda>acc c. base * acc + hexDigitValue c) 0 ds"

definition prefixedLiteral :: "string \<Rightarrow> number option" where
  "prefixedLiteral t =
     (let p = toLowerCase (take 2 t);
          ds = drop 2 t;
          base = (if p = ''0x'' then 16 else if p = ''0o'' then 8 else if p = ''0b'' then 2 else 0 :: nat)
      in if base = 0 \<or> ds = [] \<or> \<not> list_all (\<lambda>c. isHexDigit c \<and> hexDigitValue c < base) ds then None
         else Some (toDouble (of_nat (radixValue base ds))))"

definition toNumber :: "string \<Rightarrow> number" where
  "toNumber s =
     (let t = trim s in
      if t = [] then Num 0
      else
        (case prefixedLiteral t of
           Some v \<Rightarrow> v
         | None \<Rightarrow>
             (case parseDecimal t of
                None \<Rightarrow> NaN
              | Some (v, r) \<Rightarrow> if r = [] then v else NaN)))"

section \<open>The document emitter\<close>

text \<open>
  An exception: an \<^verbatim>\<open>Error\<close> that the entry point throws, with its message, or the
  \<^verbatim>\<open>TypeError\<close> that the runtime throws when a method is called on \<^verbatim>\<open>undefined\<close> (its
  message depends on the runtime and is not modelled). A function that can throw returns
  the exception on the left and its value on the right.
\<close>

datatype error = Error string | TypeError

definition escapeAttribute :: "string \<Rightarrow> string" where
  "escapeAttribute v = replaceChar (CHR 0x22) ''&quot;'' (replaceChar (CHR ''&'') ''&amp;'' v)"

definition escapeText :: "string \<Rightarrow> string" where
  "escapeText v =
     replaceChar (CHR ''>'') ''&gt;'' (replaceChar (CHR ''<'') ''&lt;'' (replaceChar (CHR ''&'') ''&amp;'' v))"

record renderContext =
  defs :: "string list"
  gradientIndex :: nat
  filterIndex :: nat

definition roundedRectPath :: "number \<Rightarrow> number \<Rightarrow> number \<Rightarrow> number \<Rightarrow> borderRadius \<Rightarrow> string" where
  "roundedRectPath x y width height radii =
     (let tl = mathMin3 (topLeft radii) (numDiv width (Num 2)) (numDiv height (Num 2));
          tr = mathMin3 (topRight radii) (numDiv width (Num 2)) (numDiv height (Num 2));
          br = mathMin3 (bottomRight radii) (numDiv width (Num 2)) (numDiv height (Num 2));
          bl = mathMin3 (bottomLeft radii) (numDiv width (Num 2)) (numDiv height (Num 2))
      in joinWith '' ''
           [''M '' @ formatNumber (numAdd x tl) @ '' '' @ formatNumber y,
            ''H '' @ formatNumber (numSub (numAdd x width) tr),
            ''Q '' @ formatNumber (numAdd x width) @ '' '' @ formatNumber y @ '' ''
              @ formatNumber (numAdd x width) @ '' '' @ formatNumber (numAdd y tr),
            ''V '' @ formatNumber (numSub (numAdd y height) br),
            ''Q '' @ formatNumber (numAdd x width) @ '' '' @ formatNumber (numAdd y height) @ '' ''
              @ formatNumber (numSub (numAdd x width) br) @ '' '' @ formatNumber (numAdd y height),
            ''H '' @ formatNumber (numAdd x bl),
            ''Q '' @ formatNumber x @ '' '' @ formatNumber (numAdd y height) @ '' ''
              @ formatNumber x @ '' '' @ formatNumber (numSub (numAdd y height) bl),
            ''V '' @ formatNumber (numAdd y tl),
            ''Q '' @ formatNumber x @ '' '' @ formatNumber y @ '' ''
              @ formatNumber (numAdd x tl) @ '' '' @ formatNumber y,
            ''Z''])"

definition applyAlpha :: "string \<Rightarrow> number \<Rightarrow> string" where
  "applyAlpha hexColor alpha =
     (if startsWith hexColor ''#'' \<and> 7 \<le> length hexColor then
        ''rgba('' @ numberToString (parseInt16 (slice hexColor 1 3)) @ '', ''
          @ numberToString (parseInt16 (slice hexColor 3 5)) @ '', ''
          @ numberToString (parseInt16 (slice hexColor 5 7)) @ '', ''
          @ numberToString alpha @ '')''
      else hexColor)"

fun mathCos :: "number \<Rightarrow> number" where
  "mathCos (Num a) = Num (cos a)"
| "mathCos v = NaN"

fun mathSin :: "number \<Rightarrow> number" where
  "mathSin (Num a) = Num (sin a)"
| "mathSin v = NaN"

text \<open>\<^verbatim>\<open>gradientVector\<close>: the four coordinates \<open>x1\<close>, \<open>y1\<close>, \<open>x2\<close>, \<open>y2\<close>.\<close>

definition gradientVector :: "number \<Rightarrow> number \<times> number \<times> number \<times> number" where
  "gradientVector a =
     (let rad = numDiv (numMul a (Num pi)) (Num 180);
          x = mathCos rad;
          y = mathSin rad
      in (numDiv (numSub (Num 1) x) (Num 2), numDiv (numSub (Num 1) y) (Num 2),
          numDiv (numAdd (Num 1) x) (Num 2), numDiv (numAdd (Num 1) y) (Num 2)))"

definition ensureGradient :: "linearGradientFill \<Rightarrow> renderContext \<Rightarrow> string \<times> renderContext" where
  \<open>ensureGradient gradient context =
     (let ident = ''gradient-'' @ natToString (gradientIndex context);
          (x1, y1, x2, y2) = gradientVector (angle gradient);
          stopsText = concat (map (\<lambda>stop.
              ''<stop offset="'' @ formatPercentage (offset stop) @ ''" stop-color="'' @ color stop
                @ ''" stop-opacity="'' @ formatNumber (opacity stop) @ ''" />'') (stops gradient))
      in (ident,
          context\<lparr>gradientIndex := gradientIndex context + 1,
                  defs := defs context @
                    [''<linearGradient id="'' @ ident @ ''" gradientUnits="objectBoundingBox" x1="''
                       @ formatNumber x1 @ ''" y1="'' @ formatNumber y1 @ ''" x2="'' @ formatNumber x2
                       @ ''" y2="'' @ formatNumber y2 @ ''">'' @ stopsText @ ''</linearGradient>'']\<rparr>))\<close>

definition resolveFill :: "fill option \<Rightarrow> renderContext \<Rightarrow> string \<times> renderContext" where
  "resolveFill f context =
     (case f of
        None \<Rightarrow> (''transparent'', context)
      | Some (SolidFill c) \<Rightarrow>
          (if strictEq (opacity c) (Num 1) then color c else applyAlpha (color c) (opacity c), context)
      | Some (LinearGradientFill g) \<Rightarrow>
          (let (ident, context') = ensureGradient g context in (''url(#'' @ ident @ '')'', context')))"

text \<open>\<^verbatim>\<open>resolveStroke\<close>: the three \<^verbatim>\<open>every\<close> tests compare each side with the top side.\<close>

definition resolveStroke :: "borderSet option \<Rightarrow> string" where
  \<open>resolveStroke b =
     (case b of
        None \<Rightarrow> []
      | Some bset \<Rightarrow>
          (let widths = [sideWidth (topSide bset), sideWidth (rightSide bset),
                         sideWidth (bottomSide bset), sideWidth (leftSide bset)];
               colors = [color (topSide bset), color (rightSide bset),
                         color (bottomSide bset), color (leftSide bset)];
               opacities = [opacity (topSide bset), opacity (rightSide bset),
                            opacity (bottomSide bset), opacity (leftSide bset)];
               uniformWidth = list_all (\<lambda>w. strictEq w (widths ! 0)) widths;
               uniformColor = list_all (\<lambda>c. c = colors ! 0) colors;
               uniformOpacity = list_all (\<lambda>p. strictEq p (opacities ! 0)) opacities
           in if \<not> uniformWidth \<or> \<not> uniformColor \<or> \<not> uniformOpacity then []
              else if strictEq (widths ! 0) (Num 0) then []
              else
                ''stroke="''
                  @ (if strictEq (opacities ! 0) (Num 1) then colors ! 0
                     else applyAlpha (colors ! 0) (opacities ! 0))
                  @ ''" stroke-width="'' @ formatNumber (widths ! 0)
                  @ ''" shape-rendering="geometricPrecision"''))\<close>

definition resolveShadows :: "boxShadow list \<Rightarrow> renderContext \<Rightarrow> string option \<times> renderContext" where
  \<open>resolveShadows shadowList context =
     (let usable = filter (\<lambda>shadow. \<not> inset shadow) shadowList
      in if usable = [] then (None, context)
         else
           (let ident = ''shadow-'' @ natToString (filterIndex context);
                shadowContent = concat (map (\<lambda>shadow.
                    ''<feDropShadow dx="'' @ formatNumber (offsetX shadow) @ ''" dy="''
                      @ formatNumber (offsetY shadow) @ ''" stdDeviation="''
                      @ formatNumber (numDiv (mathMax (blur shadow) (Num 0)) (Num 2))
                      @ ''" flood-color="'' @ color shadow @ ''" flood-opacity="''
                      @ formatNumber (opacity shadow) @ ''" />'') usable)
            in (Some ident,
                context\<lparr>filterIndex := filterIndex context + 1,
                        defs := defs context @
                          [''<filter id="'' @ ident
                             @ ''" x="-50%" y="-50%" width="200%" height="200%" color-interpolation-filters="sRGB">''
                             @ shadowContent @ ''</filter>'']\<rparr>)))\<close>

definition ensureClipPath :: "nodeBase \<Rightarrow> boxData \<Rightarrow> renderContext \<Rightarrow> string \<times> renderContext" where
  \<open>ensureClipPath b d context =
     (let ident = ''clip-'' @ natToString (filterIndex context);
          path = roundedRectPath (nodeX b) (nodeY b) (nodeWidth b) (nodeHeight b) (borderRadius d)
      in (ident,
          context\<lparr>filterIndex := filterIndex context + 1,
                  defs := defs context @
                    [''<clipPath id="'' @ ident @ ''" clipPathUnits="userSpaceOnUse"><path d="'' @ path
                       @ ''" /></clipPath>'']\<rparr>))\<close>

definition normalizeFontWeight :: "string \<Rightarrow> string" where
  \<open>normalizeFontWeight weight =
     (let w = toLowerCase (trim weight)
      in if w \<in> set [''100'', ''200'', ''300'', ''400'', ''500'', ''600'', ''700'', ''800'', ''900'']
         then ''font-weight="'' @ w @ ''"''
         else if w = ''bold'' then ''font-weight="700"''
         else if w = ''normal'' then ''font-weight="400"''
         else ''font-weight="'' @ escapeAttribute weight @ ''"'')\<close>

definition anchorText :: "textAnchor \<Rightarrow> string" where
  "anchorText a = (case a of AnchorStart \<Rightarrow> ''start'' | AnchorMiddle \<Rightarrow> ''middle'' | AnchorEnd \<Rightarrow> ''end'')"

definition renderTextNode :: "nodeBase \<Rightarrow> textPayload \<Rightarrow> string" where
  \<open>renderTextNode b t =
     (let combinedOpacity = numMul (nodeOpacity b) (opacity t);
          opacityAttr = (if \<not> strictEq combinedOpacity (Num 1)
                         then '' fill-opacity="'' @ formatNumber combinedOpacity @ ''"'' else []);
          letterSpacingAttr = (if truthy (letterSpacing t)
                               then '' letter-spacing="'' @ formatNumber (letterSpacing t) @ ''"'' else []);
          classAttr = (if nodeClassName b \<noteq> []
                       then '' class="'' @ escapeAttribute (nodeClassName b) @ ''"'' else []);
          dataTagAttr = '' data-tag="'' @ escapeAttribute (nodeTagName b) @ ''"'';
          fontWeightAttr = normalizeFontWeight (fontWeight t)
      in ''<text x="'' @ formatNumber (nodeX b) @ ''" y="'' @ formatNumber (nodeY b)
           @ ''" font-family="'' @ escapeAttribute (fontFamily t)
           @ ''" font-size="'' @ formatNumber (fontSize t) @ ''" '' @ fontWeightAttr
           @ '' font-style="'' @ escapeAttribute (fontStyle t)
           @ ''" text-anchor="'' @ anchorText (textAnchor t)
           @ ''" dominant-baseline="alphabetic" xml:space="preserve" fill="'' @ color t @ ''"''
           @ opacityAttr @ letterSpacingAttr @ classAttr @ dataTagAttr @ ''>''
           @ escapeText (content t) @ ''</text>'')\<close>

text \<open>\<^verbatim>\<open>viewBoxParts[i] || 24\<close>: 24 where the part is missing, zero or not a number.\<close>

definition viewBoxPart :: "string \<Rightarrow> nat \<Rightarrow> number" where
  "viewBoxPart box i =
     (let parts = map toNumber (splitOn (CHR '' '') [] box)
      in if i < length parts \<and> truthy (parts ! i) then parts ! i else Num 24)"

text \<open>
  \<^verbatim>\<open>renderIconNode\<close>. \<^verbatim>\<open>node.viewBox.split(' ')\<close> throws when the view box is
  \<^verbatim>\<open>undefined\<close>; a path that is \<^verbatim>\<open>undefined\<close> would be written as that word.
\<close>

definition renderIconNode :: "nodeBase \<Rightarrow> iconData \<Rightarrow> error + string" where
  \<open>renderIconNode b i =
     (case viewBox i of
        None \<Rightarrow> Inl TypeError
      | Some box \<Rightarrow> Inr
     (let opacityAttr = (if \<not> strictEq (nodeOpacity b) (Num 1)
                         then '' opacity="'' @ formatNumber (nodeOpacity b) @ ''"'' else []);
          classAttr = (if nodeClassName b \<noteq> []
                       then '' class="'' @ escapeAttribute (nodeClassName b) @ ''"'' else []);
          dataTagAttr = '' data-tag="'' @ escapeAttribute (nodeTagName b) @ ''"'';
          dataIconAttr = '' data-icon="'' @ escapeAttribute (iconName i) @ ''"'';
          origWidth = viewBoxPart box 2;
          origHeight = viewBoxPart box 3;
          scaleX = numDiv (nodeWidth b) origWidth;
          scaleY = numDiv (nodeHeight b) origHeight;
          scale = mathMin scaleX scaleY;
          scaledWidth = numMul origWidth scale;
          scaledHeight = numMul origHeight scale;
          offX = numAdd (nodeX b) (numDiv (numSub (nodeWidth b) scaledWidth) (Num 2));
          offY = numAdd (nodeY b) (numDiv (numSub (nodeHeight b) scaledHeight) (Num 2))
      in ''<g transform="translate('' @ formatNumber offX @ '','' @ formatNumber offY @ '') scale(''
           @ formatNumber scale @ '')"'' @ opacityAttr @ classAttr @ dataTagAttr @ dataIconAttr
           @ ''><path d="'' @ (case svgPath i of Some path \<Rightarrow> path | None \<Rightarrow> ''undefined'')
           @ ''" fill="'' @ iconColor i @ ''"/></g>''))\<close>

text \<open>
  \<^verbatim>\<open>renderNode\<close> with \<^verbatim>\<open>renderBoxNode\<close> in its third case, and the \<^verbatim>\<open>map\<close> over
  the children followed by \<^verbatim>\<open>join('')\<close> (\<open>renderNodes\<close>). The context is passed
  along in the order in which the program changes it. An exception thrown for a node
  ends the emission of every node around it.
\<close>

fun renderNode :: "simpleNode \<Rightarrow> renderContext \<Rightarrow> error + string \<times> renderContext"
  and renderNodes :: "simpleNode list \<Rightarrow> renderContext \<Rightarrow> error + string \<times> renderContext" where
  \<open>renderNode (TextNode b t) context = Inr (renderTextNode b t, context)\<close>
| \<open>renderNode (IconNode b i) context =
     (case renderIconNode b i of Inl err \<Rightarrow> Inl err | Inr s \<Rightarrow> Inr (s, context))\<close>
| \<open>renderNode (BoxNode b d children) context =
     (let path = roundedRectPath (nodeX b) (nodeY b) (nodeWidth b) (nodeHeight b) (borderRadius d);
          (fillAttr, c1) = resolveFill (background d) context;
          strokeAttr = resolveStroke (borders d);
          (filterAttr, c2) = resolveShadows (shadows d) c1;
          opacityAttr = (if \<not> strictEq (nodeOpacity b) (Num 1)
                         then '' opacity="'' @ formatNumber (nodeOpacity b) @ ''"'' else []);
          classAttr = (if nodeClassName b \<noteq> []
                       then '' class="'' @ escapeAttribute (nodeClassName b) @ ''"'' else []);
          dataTagAttr = '' data-tag="'' @ escapeAttribute (nodeTagName b) @ ''"'';
          (clipAttr, c3) =
            (if overflowHidden d
             then (let (clipId, c) = ensureClipPath b d c2
                   in ('' clip-path="url(#'' @ clipId @ '')"'', c))
             else ([], c2))
      in case renderNodes children c3 of
           Inl err \<Rightarrow> Inl err
         | Inr (childrenContent, c4) \<Rightarrow>
             (let filterString = (case filterAttr of Some f \<Rightarrow> '' filter="url(#'' @ f @ '')"''
                                  | None \<Rightarrow> []);
                  strokeString = (if strokeAttr \<noteq> [] then '' '' @ strokeAttr else []);
                  shapeClassAttr = (if nodeClassName b \<noteq> []
                                    then '' class="'' @ escapeAttribute (nodeClassName b) @ ''"'' else [])
              in Inr (''<g'' @ opacityAttr @ classAttr @ dataTagAttr @ clipAttr @ ''>''
                        @ ''<path d="'' @ path @ ''" fill="'' @ fillAttr @ ''"'' @ strokeString
                        @ filterString @ shapeClassAttr @ '' />'' @ childrenContent @ ''</g>'',
                      c4)))\<close>
| \<open>renderNodes [] context = Inr ([], context)\<close>
| \<open>renderNodes (n # ns) context =
     (case renderNode n context of
        Inl err \<Rightarrow> Inl err
      | Inr (a, c1) \<Rightarrow>
          (case renderNodes ns c1 of
             Inl err \<Rightarrow> Inl err
           | Inr (b, c2) \<Rightarrow> Inr (a @ b, c2)))\<close>

text \<open>\<^verbatim>\<open>css.replace(/]]>/g, ']]]]><![CDATA[>')\<close>.\<close>

fun replaceCdataEnd :: "string \<Rightarrow> string" where
  "replaceCdataEnd [] = []"
| "replaceCdataEnd (c # cs) =
     (if startsWith (c # cs) '']]>'' then '']]]]><![CDATA[>'' @ replaceCdataEnd (drop 2 cs)
      else c # replaceCdataEnd cs)"

definition createStyleDef :: "string \<Rightarrow> string" where
  \<open>createStyleDef css = ''<style type="text/css"><![CDATA['' @ replaceCdataEnd css @ '']]></style>''\<close>

section \<open>The entry point\<close>

record htmlToSvgOptions =
  inlineCss :: "string option"

text \<open>
  \<^verbatim>\<open>htmlToSvg\<close>: the root handle (\<open>None\<close> when it is missing), the options, and the
  value of the node counter when the call starts. The result is the exception thrown,
  by the entry point itself or while the tree is emitted, or the returned document, and
  the value of the counter when the call ends.
\<close>

definition htmlToSvg :: "element option \<Rightarrow> htmlToSvgOptions \<Rightarrow> nat \<Rightarrow> (error + string) \<times> nat" where
  \<open>htmlToSvg rootElement options counter =
     (case rootElement of
        None \<Rightarrow> (Inl (Error ''A root element is required to generate SVG.''), counter)
      | Some rootEl \<Rightarrow>
          (let rootRect = boundingRect (elementInfo rootEl) in
           if strictEq (rectWidth rootRect) (Num 0) \<or> strictEq (rectHeight rootRect) (Num 0)
           then (Inl (Error ''Root element has no measurable layout.''), counter)
           else
             (case createNodeFromElement rootEl rootRect True counter of
                (None, counter') \<Rightarrow>
                  (Inl (Error ''Unable to capture layout from the provided HTML.''), counter')
              | (Some simpleTree, counter') \<Rightarrow>
                  (case renderNode simpleTree \<lparr>defs = [], gradientIndex = 0, filterIndex = 0\<rparr> of
                     Inl err \<Rightarrow> (Inl err, counter')
                   | Inr (content', context) \<Rightarrow>
                  (let cssBlock = (case inlineCss options of Some css \<Rightarrow> trim css | None \<Rightarrow> []);
                       defsEntries = (if cssBlock \<noteq> [] then [createStyleDef cssBlock] else [])
                                       @ defs context;
                       defsContent = (if defsEntries \<noteq> []
                                      then ''<defs>'' @ concat defsEntries @ ''</defs>'' else []);
                       width = formatNumber (rectWidth rootRect);
                       height = formatNumber (rectHeight rootRect)
                   in (Inr (''<?xml version="1.0" encoding="UTF-8"?><svg xmlns="http://www.w3.org/2000/svg" width="''
                             @ width @ ''" height="'' @ height @ ''" viewBox="0 0 '' @ width @ '' '' @ height
                             @ ''" role="presentation">'' @ defsContent @ content' @ ''</svg>''),
                       counter'))))))\<close>

section \<open>Notions used in the statements\<close>

text \<open>
  The definitions of this section are not part of the program. They name the shapes of
  input and the measures that the properties below speak about.
\<close>

subsection \<open>Colour texts\<close>

text \<open>
  A channel is a nonempty text of decimal digits with a value from 0 to 255; a separator
  is a comma with optional white space on both sides; an alpha text is a nonempty text of
  digits and dots, what the fourth group of \<^verbatim>\<open>RGBA_REGEX\<close> accepts. \<open>hexPair n\<close> is
  the two lower-case hexadecimal digits of a channel value \<open>n\<close>.
\<close>

definition isChannel :: "string \<Rightarrow> bool" where
  "isChannel d = (d \<noteq> [] \<and> list_all isDigit d \<and> digitsValue d \<le> 255)"

definition isSeparator :: "string \<Rightarrow> bool" where
  "isSeparator p =
     (case dropWhile isSpace p of [] \<Rightarrow> False | c # r \<Rightarrow> c = CHR '','' \<and> list_all isSpace r)"

definition isAlphaText :: "string \<Rightarrow> bool" where
  "isAlphaText a = (a \<noteq> [] \<and> list_all isDigitOrDot a)"

definition hexPair :: "nat \<Rightarrow> string" where
  "hexPair n = [hexChar (n div 16), hexChar n]"

subsection \<open>Gradient stops\<close>

text \<open>
  The arguments of the first \<^verbatim>\<open>linear-gradient(...)\<close> call of a value, none when the value
  has no such call; the stop tokens are the arguments after the optional angle or
  direction, and the usable ones are those that are not blank.
  A stop token carries an explicit percentage when \<^verbatim>\<open>parseGradientStop\<close> takes its
  first branch: the token splits into more than one part and the last part ends in a
  percent sign. \<open>evenOffset i n\<close> is the evenly spaced offset of position \<open>i\<close> among
  \<open>n\<close> tokens.
\<close>

definition hasAngleToken :: "string list \<Rightarrow> bool" where
  "hasAngleToken tokens =
     (tokens \<noteq> [] \<and> (strIncludes (hd tokens) ''deg'' \<or> strIncludes (hd tokens) ''rad''
                       \<or> startsWith (hd tokens) ''to ''))"

definition gradientTokens :: "string \<Rightarrow> string list" where
  "gradientTokens v =
     (case extractLinearGradientSegment v of
        None \<Rightarrow> []
      | Some segment \<Rightarrow> splitGradientArgs (butlast (drop (the (indexOf segment ''('' 0) + 1) segment)))"

definition stopTokens :: "string \<Rightarrow> string list" where
  "stopTokens v = (if hasAngleToken (gradientTokens v) then tl (gradientTokens v) else gradientTokens v)"

definition usableStops :: "string \<Rightarrow> string list" where
  "usableStops v = filter (\<lambda>t. trim t \<noteq> []) (stopTokens v)"

definition hasExplicitOffset :: "string \<Rightarrow> bool" where
  "hasExplicitOffset token =
     (1 < length (splitStop [] token) \<and> endsWith (last (splitStop [] token)) ''%'')"

definition evenOffset :: "nat \<Rightarrow> nat \<Rightarrow> real" where
  "evenOffset i n = real i / max (real n - 1) 1"

subsection \<open>Borders\<close>

text \<open>The right, bottom and left sides have the width, colour and opacity of the top side.\<close>

definition uniformBorder :: "borderSet \<Rightarrow> bool" where
  "uniformBorder b =
     list_all (\<lambda>s. sideWidth s = sideWidth (topSide b) \<and> color s = color (topSide b)
                    \<and> opacity s = opacity (topSide b))
       [rightSide b, bottomSide b, leftSide b]"

text \<open>
  The stroke attributes written for a border whose sides are those of \<open>s\<close>: the colour,
  with the opacity applied when it is not 1, and the width.
\<close>

definition strokeAttribute :: "borderSide \<Rightarrow> string" where
  \<open>strokeAttribute s =
     ''stroke="'' @ (if opacity s = Num 1 then color s else applyAlpha (color s) (opacity s))
       @ ''" stroke-width="'' @ formatNumber (sideWidth s)
       @ ''" shape-rendering="geometricPrecision"''\<close>

subsection \<open>Corner radii\<close>

text \<open>The least of a declared radius, half the width and half the height.\<close>

definition clampedRadius :: "number \<Rightarrow> number \<Rightarrow> number \<Rightarrow> number" where
  "clampedRadius r width height = mathMin3 r (numDiv width (Num 2)) (numDiv height (Num 2))"

definition clampRadii :: "number \<Rightarrow> number \<Rightarrow> borderRadius \<Rightarrow> borderRadius" where
  "clampRadii width height radii =
     \<lparr>topLeft = clampedRadius (topLeft radii) width height,
      topRight = clampedRadius (topRight radii) width height,
      bottomRight = clampedRadius (bottomRight radii) width height,
      bottomLeft = clampedRadius (bottomLeft radii) width height\<rparr>"

text \<open>
  The outline of a box at \<open>(x, y)\<close> of the given width and height, drawn with the corner
  radii \<open>topL\<close>, \<open>topR\<close>, \<open>botR\<close> and \<open>botL\<close> as they are given: clockwise from the end of the top
  left corner, every corner a quadratic curve whose control point is the corner of the box.
\<close>

definition roundedPath ::
  "number \<Rightarrow> number \<Rightarrow> number \<Rightarrow> number \<Rightarrow> number \<Rightarrow> number \<Rightarrow> number \<Rightarrow> number \<Rightarrow> string" where
  "roundedPath x y width height topL topR botR botL =
     joinWith '' ''
       [''M '' @ formatNumber (numAdd x topL) @ '' '' @ formatNumber y,
        ''H '' @ formatNumber (numSub (numAdd x width) topR),
        ''Q '' @ formatNumber (numAdd x width) @ '' '' @ formatNumber y @ '' ''
          @ formatNumber (numAdd x width) @ '' '' @ formatNumber (numAdd y topR),
        ''V '' @ formatNumber (numSub (numAdd y height) botR),
        ''Q '' @ formatNumber (numAdd x width) @ '' '' @ formatNumber (numAdd y height) @ '' ''
          @ formatNumber (numSub (numAdd x width) botR) @ '' '' @ formatNumber (numAdd y height),
        ''H '' @ formatNumber (numAdd x botL),
        ''Q '' @ formatNumber x @ '' '' @ formatNumber (numAdd y height) @ '' ''
          @ formatNumber x @ '' '' @ formatNumber (numSub (numAdd y height) botL),
        ''V '' @ formatNumber (numAdd y topL),
        ''Q '' @ formatNumber x @ '' '' @ formatNumber y @ '' ''
          @ formatNumber (numAdd x topL) @ '' '' @ formatNumber y,
        ''Z'']"

subsection \<open>The markup of a box\<close>

text \<open>
  The markup of a box is a group that holds the path of the box and then its children.
  \<open>boxOpening\<close> is the opening tag of the group; \<open>boxPathStart\<close> is the path element up to
  its fill attribute, for given path data and fill; \<open>boxPathEnd\<close> is what closes the path
  element, the filter and the class when the box has them. Between the two stands what the
  border gives. \<open>boxChildContext\<close> is the context in which the children are emitted, after
  the fill, the shadows and the clip path of the box have made their entries.
\<close>

definition boxChildContext :: "nodeBase \<Rightarrow> boxData \<Rightarrow> renderContext \<Rightarrow> renderContext" where
  "boxChildContext nb d c =
     (let c2 = snd (resolveShadows (shadows d) (snd (resolveFill (background d) c)))
      in if overflowHidden d then snd (ensureClipPath nb d c2) else c2)"

definition boxOpening :: "nodeBase \<Rightarrow> boxData \<Rightarrow> renderContext \<Rightarrow> string" where
  \<open>boxOpening nb d c =
     ''<g'' @ (if nodeOpacity nb = Num 1 then [] else '' opacity="'' @ formatNumber (nodeOpacity nb) @ ''"'')
       @ (if nodeClassName nb = [] then [] else '' class="'' @ escapeAttribute (nodeClassName nb) @ ''"'')
       @ '' data-tag="'' @ escapeAttribute (nodeTagName nb) @ ''"''
       @ (if overflowHidden d
          then '' clip-path="url(#''
                 @ fst (ensureClipPath nb d
                          (snd (resolveShadows (shadows d) (snd (resolveFill (background d) c)))))
                 @ '')"''
          else [])
       @ ''>''\<close>

definition boxPathStart :: "string \<Rightarrow> string \<Rightarrow> string" where
  \<open>boxPathStart path fillText = ''<path d="'' @ path @ ''" fill="'' @ fillText @ ''"''\<close>

definition boxPathEnd :: "nodeBase \<Rightarrow> boxData \<Rightarrow> renderContext \<Rightarrow> string" where
  \<open>boxPathEnd nb d c =
     (case fst (resolveShadows (shadows d) (snd (resolveFill (background d) c))) of
        Some f \<Rightarrow> '' filter="url(#'' @ f @ '')"'' | None \<Rightarrow> [])
       @ (if nodeClassName nb = [] then [] else '' class="'' @ escapeAttribute (nodeClassName nb) @ ''"'')
       @ '' />''\<close>

subsection \<open>Node trees\<close>

text \<open>
  The common fields of a node, its children, and the tree with every identifier blanked:
  two trees with the same \<open>stripIds\<close> differ in their identifiers only.
\<close>

fun nodeBaseOf :: "simpleNode \<Rightarrow> nodeBase" where
  "nodeBaseOf (BoxNode b d kids) = b"
| "nodeBaseOf (TextNode b t) = b"
| "nodeBaseOf (IconNode b i) = b"


fun stripIds :: "simpleNode \<Rightarrow> simpleNode" where
  "stripIds (BoxNode b d kids) = BoxNode (b\<lparr>nodeId := []\<rparr>) d (map stripIds kids)"
| "stripIds (TextNode b t) = TextNode (b\<lparr>nodeId := []\<rparr>) t"
| "stripIds (IconNode b i) = IconNode (b\<lparr>nodeId := []\<rparr>) i"

subsection \<open>Sample inputs\<close>

text \<open>
  A 10 by 10 rectangle and an empty one; a style with nothing set but full opacity, and
  the same with \<^verbatim>\<open>visibility: hidden\<close>; elements built from them.
\<close>

definition squareRect :: domRect where
  "squareRect = \<lparr>rectLeft = Num 0, rectTop = Num 0, rectRight = Num 10, rectBottom = Num 10,
                  rectWidth = Num 10, rectHeight = Num 10\<rparr>"

definition plainStyle :: cssStyle where
  "plainStyle = (\<lambda>p. if p = ''opacity'' then ''1'' else [])"

definition hiddenStyle :: cssStyle where
  "hiddenStyle = (\<lambda>p. if p = ''visibility'' then ''hidden'' else if p = ''opacity'' then ''1'' else [])"

definition hiddenChildInfo :: elementData where
  "hiddenChildInfo = \<lparr>elementId = ''kid'', tagName = ''DIV'', className = [], isHTMLElement = True,
                       boundingRect = squareRect, computedStyle = hiddenStyle\<rparr>"

definition hiddenChild :: element where
  "hiddenChild = Element hiddenChildInfo []"

definition plainRootInfo :: elementData where
  "plainRootInfo = \<lparr>elementId = ''top'', tagName = ''DIV'', className = [], isHTMLElement = True,
                     boundingRect = squareRect, computedStyle = plainStyle\<rparr>"

definition rootWithHiddenChild :: element where
  "rootWithHiddenChild = Element plainRootInfo [ElementChild hiddenChild]"

definition emptyRootInfo :: elementData where
  "emptyRootInfo = \<lparr>elementId = ''top'', tagName = ''DIV'', className = [], isHTMLElement = True,
                     boundingRect = zeroRect, computedStyle = plainStyle\<rparr>"

definition emptyRoot :: element where
  "emptyRoot = Element emptyRootInfo []"

definition unknownIconRoot :: element where
  "unknownIconRoot =
     Element \<lparr>elementId = [], tagName = ''SPAN'', className = ''material-symbols-outlined'',
              isHTMLElement = True, boundingRect = squareRect, computedStyle = plainStyle\<rparr>
       [TextChild ''nope'' []]"

text \<open>
  An icon element whose text is \<^verbatim>\<open>constructor\<close>, a name that the glyph table does not list
  and that every object inherits.
\<close>

definition inheritedIconRoot :: element where
  "inheritedIconRoot =
     Element \<lparr>elementId = [], tagName = ''SPAN'', className = ''material-symbols-outlined'',
              isHTMLElement = True, boundingRect = squareRect, computedStyle = plainStyle\<rparr>
       [TextChild ''constructor'' []]"

definition anonymousRoot :: element where
  "anonymousRoot =
     Element \<lparr>elementId = [], tagName = ''DIV'', className = [], isHTMLElement = True,
              boundingRect = squareRect, computedStyle = plainStyle\<rparr> []"

definition noOptions :: htmlToSvgOptions where
  "noOptions = \<lparr>inlineCss = None\<rparr>"

text \<open>A style with a red border of 2px on every side, and the border set read from it.\<close>

definition redBorderStyle :: cssStyle where
  "redBorderStyle = (\<lambda>p. if endsWith p ''Width'' then ''2px''
                           else if endsWith p ''Style'' then ''solid''
                           else if endsWith p ''Color'' then ''rgb(255, 0, 0)'' else [])"

definition redSide :: borderSide where
  "redSide = \<lparr>color = ''#ff0000'', opacity = Num 1, sideWidth = Num 2, sideStyle = ''solid''\<rparr>"

definition redBorders :: borderSet where
  "redBorders = \<lparr>topSide = redSide, rightSide = redSide, bottomSide = redSide, leftSide = redSide\<rparr>"

definition redBox :: boxData where
  "redBox = \<lparr>background = None,
              borderRadius = \<lparr>topLeft = Num 50, topRight = Num 50, bottomRight = Num 50,
                              bottomLeft = Num 50\<rparr>,
              borders = Some redBorders, shadows = [], overflowHidden = False\<rparr>"

definition lopsidedBorders :: borderSet where
  "lopsidedBorders = redBorders\<lparr>leftSide := defaultBorderSide\<rparr>"

text \<open>A box of 10 by 4 with a declared radius of 50 on every corner, and an empty context.\<close>

definition sampleBase :: nodeBase where
  "sampleBase = \<lparr>nodeId = ''box'', nodeTagName = ''div'', nodeX = Num 0, nodeY = Num 0,
                  nodeWidth = Num 10, nodeHeight = Num 4, nodeOpacity = Num 1, nodeClassName = []\<rparr>"

definition sampleBox :: boxData where
  "sampleBox = \<lparr>background = None,
                 borderRadius = \<lparr>topLeft = Num 50, topRight = Num 50, bottomRight = Num 50,
                                 bottomLeft = Num 50\<rparr>,
                 borders = Some lopsidedBorders, shadows = [], overflowHidden = False\<rparr>"

text \<open>
  A text node and an icon node with characters that markup reserves in their class,
  content and icon name, and a box with such a class.
\<close>

definition markedBase :: nodeBase where
  \<open>markedBase = \<lparr>nodeId = ''n'', nodeTagName = ''span'', nodeX = Num 1, nodeY = Num 2,
                  nodeWidth = Num 24, nodeHeight = Num 24, nodeOpacity = Num 1,
                  nodeClassName = [CHR ''a'', CHR ''<'', CHR 0x22, CHR ''&'', CHR ''>'']\<rparr>\<close>

definition markedText :: textPayload where
  \<open>markedText = \<lparr>color = ''#000000'', opacity = Num 1,
                  content = [CHR ''x'', CHR ''<'', CHR 0x22, CHR ''&'', CHR ''>''],
                  fontFamily = [CHR ''F'', CHR ''&'', CHR ''<''], fontSize = Num 12,
                  fontWeight = ''400'', fontStyle = ''normal'', letterSpacing = Num 0,
                  lineHeight = Num 14, textAnchor = AnchorStart\<rparr>\<close>

definition markedIcon :: iconData where
  \<open>markedIcon = \<lparr>iconName = [CHR ''i'', CHR ''<'', CHR 0x22], iconColor = ''#000000'',
                  svgPath = Some ''M0 0'', viewBox = Some ''0 0 24 24''\<rparr>\<close>

definition emptyContext :: renderContext where
  "emptyContext = \<lparr>defs = [], gradientIndex = 0, filterIndex = 0\<rparr>"

text \<open>Two styles for the fill parser.\<close>

definition transparentStyle :: cssStyle where
  "transparentStyle = (\<lambda>p. if p = ''backgroundColor'' then ''rgba(0, 0, 0, 0)''
                             else if p = ''backgroundImage'' then ''none'' else [])"

definition gradientStyle :: cssStyle where
  "gradientStyle = (\<lambda>p. if p = ''backgroundColor'' then ''rgb(1, 2, 3)''
                          else if p = ''backgroundImage'' then ''linear-gradient(45deg, red, blue)''
                          else [])"

definition sampleGradient :: linearGradientFill where
  "sampleGradient =
     \<lparr>angle = Num 45,
      stops = [\<lparr>color = ''red'', opacity = Num 1, offset = Num 0\<rparr>,
               \<lparr>color = ''blue'', opacity = Num 1, offset = Num 1\<rparr>]\<rparr>"

section \<open>Properties of the parsers\<close>

subsection \<open>Numbers and scanning\<close>

lemma toDouble_notNaN: "toDouble q \<noteq> NaN"
  by (simp add: toDouble_def)

lemma toDouble_below_256: "\<bar>q\<bar> \<le> 256 \<Longrightarrow> toDouble q = Num q"
proof -
  assume a: "\<bar>q\<bar> \<le> 256"
  have "(256 :: real) < 2 ^ 1024 - 2 ^ 970" by simp
  then show ?thesis using a by (simp add: toDouble_def)
qed

lemma numLe_Num: "numLe (Num a) (Num b) = (a \<le> b)"
  by (auto simp add: numLe_def strictEq_def)

lemma clampNumber_isFinite: "isFinite fallback \<Longrightarrow> isFinite (clampNumber v fallback)"
  by (cases v) (simp_all add: clampNumber_def isNaN_def)

lemma isDigit_notSpace: "isDigit c \<Longrightarrow> \<not> isSpace c"
  by (auto simp add: isDigit_def isSpace_def)

lemma isDigit_notSign: "isDigit c \<Longrightarrow> c \<noteq> CHR ''-'' \<and> c \<noteq> CHR ''+'' \<and> c \<noteq> CHR ''I''"
  by (auto simp add: isDigit_def)

lemma isHexDigit_plain:
  "isHexDigit c \<Longrightarrow> \<not> isSpace c \<and> c \<noteq> CHR ''-'' \<and> c \<noteq> CHR ''+'' \<and> c \<noteq> CHR ''x'' \<and> c \<noteq> CHR ''X''"
  by (auto simp add: isHexDigit_def isDigit_def isSpace_def)

lemma isHexDigit_not_r: "isHexDigit c \<Longrightarrow> c \<noteq> CHR ''r'' \<and> c \<noteq> CHR ''R''"
  by (auto simp add: isHexDigit_def isDigit_def)

lemma takeWhile_head: "takeWhile P s \<noteq> [] \<Longrightarrow> \<exists>c t. takeWhile P s = c # t \<and> P c"
  by (cases s) (auto split: if_splits)

lemma dropWhile_spaces:
  "list_all isSpace w \<Longrightarrow> t \<noteq> [] \<Longrightarrow> \<not> isSpace (hd t) \<Longrightarrow> dropWhile isSpace (w @ t) = t"
  by (induction w) (auto simp add: neq_Nil_conv)

lemma span_digits:
  "list_all isDigit d \<Longrightarrow> t \<noteq> [] \<Longrightarrow> \<not> isDigit (hd t)
   \<Longrightarrow> takeWhile isDigit (d @ t) = d \<and> dropWhile isDigit (d @ t) = t"
  by (induction d) (auto simp add: neq_Nil_conv)

lemma span_alpha:
  "list_all isDigitOrDot a \<Longrightarrow> t \<noteq> [] \<Longrightarrow> \<not> isDigitOrDot (hd t)
   \<Longrightarrow> takeWhile isDigitOrDot (a @ t) = a \<and> dropWhile isDigitOrDot (a @ t) = t"
  by (induction a) (auto simp add: neq_Nil_conv)

lemma trim_plain: "s \<noteq> [] \<Longrightarrow> \<not> isSpace (hd s) \<Longrightarrow> \<not> isSpace (last s) \<Longrightarrow> trim s = s"
proof -
  assume a: "s \<noteq> []" "\<not> isSpace (hd s)" "\<not> isSpace (last s)"
  then have 1: "dropWhile isSpace s = s" by (cases s) auto
  have "rev s \<noteq> []" "\<not> isSpace (hd (rev s))" using a by (auto simp add: hd_rev)
  then have 2: "dropWhile isSpace (rev s) = rev s" by (cases "rev s") auto
  show ?thesis by (simp add: trim_def 1 2)
qed

text \<open>A text that starts with a digit, with or without a minus sign, reads as a number.\<close>

lemma parseDecimal_digit: "isDigit c \<Longrightarrow> \<exists>v r. parseDecimal (c # t) = Some (toDouble v, r)"
  using isDigit_notSign [of c]
  by (auto simp add: parseDecimal_def splitSign_def Let_def split_beta)

lemma parseDecimal_minus_digit:
  "isDigit c \<Longrightarrow> \<exists>v r. parseDecimal (CHR ''-'' # c # t) = Some (toDouble v, r)"
  using isDigit_notSign [of c]
  by (auto simp add: parseDecimal_def splitSign_def Let_def split_beta)

lemma parseFloat_digit: "isDigit c \<Longrightarrow> parseFloat (c # t) \<noteq> NaN"
  using parseDecimal_digit [of c t] isDigit_notSpace [of c]
  by (auto simp add: parseFloat_def toDouble_notNaN)

lemma parseFloat_minus_digit: "isDigit c \<Longrightarrow> parseFloat (CHR ''-'' # c # t) \<noteq> NaN"
  using parseDecimal_minus_digit [of c t]
  by (auto simp add: parseFloat_def toDouble_notNaN isSpace_def)

lemma matchPxAt_notNaN: "matchPxAt s = Some m \<Longrightarrow> parseFloat m \<noteq> NaN"
proof -
  assume a: "matchPxAt s = Some m"
  let ?sgn = "(case s of [] \<Rightarrow> [] | c # r \<Rightarrow> if c = CHR ''-'' then ''-'' else [])"
  let ?ip = "takeWhile isDigit (drop (length ?sgn) s)"
  from a have ip: "?ip \<noteq> []"
    by (auto simp add: matchPxAt_def Let_def split: if_splits)
  then obtain c t where ct: "?ip = c # t" "isDigit c"
    using takeWhile_head [of isDigit "drop (length ?sgn) s"] by blast
  from a obtain rest where m: "m = ?sgn @ ?ip @ rest"
    by (auto simp add: matchPxAt_def Let_def split: if_splits)
  have "?sgn = [] \<or> ?sgn = ''-''" by (auto split: list.splits)
  then show ?thesis
    using m ct parseFloat_digit [of c "t @ rest"] parseFloat_minus_digit [of c "t @ rest"]
    by auto
qed

lemma pxMatch_notNaN: "pxMatch s = Some m \<Longrightarrow> parseFloat m \<noteq> NaN"
  by (induction s) (auto simp add: matchPxAt_notNaN split: option.splits)

lemma parsePx_notNaN: "fallback \<noteq> NaN \<Longrightarrow> parsePx v fallback \<noteq> NaN"
  by (auto simp add: parsePx_def isNaN_def pxMatch_notNaN split: option.splits)

lemma digitsValue_snoc: "digitsValue (ds @ [c]) = 10 * digitsValue ds + ((of_char c :: nat) - 48)"
  by (simp add: digitsValue_def)

lemma digitsValue_bound: "list_all isDigit ds \<Longrightarrow> digitsValue ds < 10 ^ length ds"
proof (induction ds rule: rev_induct)
  case Nil
  show ?case by (simp add: digitsValue_def)
next
  case (snoc c ds)
  then have "digitsValue ds < 10 ^ length ds" and "(of_char c :: nat) - 48 \<le> 9"
    by (auto simp add: isDigit_def)
  then show ?case by (simp add: digitsValue_snoc)
qed

text \<open>A decimal fraction with a small whole part reads as its exact value.\<close>

lemma parseFloat_fraction:
  assumes ip: "isChannel ip" and fp: "fp \<noteq> []" "list_all isDigit fp"
  shows "parseFloat (ip @ ''.'' @ fp)
         = Num (of_nat (digitsValue ip) + of_nat (digitsValue fp) / 10 ^ length fp)"
proof -
  let ?m = "(of_nat (digitsValue ip) + of_nat (digitsValue fp) / 10 ^ length fp) :: real"
  obtain c t where c: "ip = c # t" "isDigit c"
    using ip by (cases ip) (auto simp add: isChannel_def)
  have sp: "dropWhile isSpace (ip @ ''.'' @ fp) = ip @ ''.'' @ fp"
    using c isDigit_notSpace by simp
  have sg: "splitSign (ip @ ''.'' @ fp) = (False, ip @ ''.'' @ fp)"
    using c isDigit_notSign [of c] by (simp add: splitSign_def)
  have inf: "take 8 (ip @ ''.'' @ fp) \<noteq> ''Infinity''"
    using c isDigit_notSign [of c] by auto
  have s1: "takeWhile isDigit (ip @ ''.'' @ fp) = ip \<and> dropWhile isDigit (ip @ ''.'' @ fp) = ''.'' @ fp"
    using ip by (intro span_digits) (simp_all add: isChannel_def isDigit_def)
  have s2: "takeWhile isDigit fp = fp" "dropWhile isDigit fp = []"
    using fp by (simp_all add: list_all_iff)
  have "real (digitsValue fp) < 10 ^ length fp"
    using digitsValue_bound [OF fp(2)] by (metis of_nat_less_iff of_nat_numeral of_nat_power)
  then have "real (digitsValue fp) / 10 ^ length fp < 1" by simp
  moreover have "0 \<le> real (digitsValue fp) / 10 ^ length fp" by simp
  moreover have "real (digitsValue ip) \<le> 255" using ip by (simp add: isChannel_def)
  ultimately have "\<bar>?m\<bar> \<le> 256" by linarith
  then have td: "toDouble ?m = Num ?m" by (rule toDouble_below_256)
  have ne: "ip \<noteq> []" using c by simp
  show ?thesis
    using sp sg inf s1 td ne
    by (simp add: parseFloat_def parseDecimal_def parseExponent_def Let_def s2)
qed

subsection \<open>Colours\<close>

lemma hexDigitValue_less: "isHexDigit c \<Longrightarrow> hexDigitValue c < 16"
  by (auto simp add: isHexDigit_def isDigit_def hexDigitValue_def Let_def)

lemma hexValue_pair: "hexValue [a, b] = 16 * hexDigitValue a + hexDigitValue b"
  by (simp add: hexValue_def)

lemma parseInt16_pair:
  "isHexDigit a \<Longrightarrow> isHexDigit b \<Longrightarrow> parseInt16 [a, b] = Num (of_nat (hexValue [a, b]))"
proof -
  assume a: "isHexDigit a" and b: "isHexDigit b"
  have v: "hexValue [a, b] \<le> 255"
    using hexDigitValue_less [OF a] hexDigitValue_less [OF b] by (simp add: hexValue_pair)
  then have "\<bar>(of_nat (hexValue [a, b]) :: real)\<bar> \<le> 256" by simp
  then have "toDouble (of_nat (hexValue [a, b])) = Num (of_nat (hexValue [a, b]))"
    by (rule toDouble_below_256)
  then show ?thesis
    using isHexDigit_plain [OF a] isHexDigit_plain [OF b] a b
    by (simp add: parseInt16_def splitSign_def Let_def)
qed

lemma parseInt16_ff: "parseInt16 ''ff'' = Num 255"
  by (simp add: parseInt16_def splitSign_def Let_def isSpace_def isHexDigit_def isDigit_def
        hexValue_def hexDigitValue_def toDouble_def)

lemma toLowerChar_r: "toLowerChar c = CHR ''r'' \<Longrightarrow> c = CHR ''r'' \<or> c = CHR ''R''"
proof -
  assume a: "toLowerChar c = CHR ''r''"
  let ?n = "of_char c :: nat"
  show ?thesis
  proof (cases "(65 \<le> ?n \<and> ?n \<le> 90) \<or> (192 \<le> ?n \<and> ?n \<le> 222 \<and> ?n \<noteq> 215)")
    case True
    have "toLowerChar c = char_of (?n + 32)"
      unfolding toLowerChar_def Let_def by (rule if_P) (rule True)
    then have "char_of (?n + 32) = CHR ''r''" using a by simp
    then have "(?n + 32) mod 256 = 114" by (simp add: char_of_eq_iff take_bit_eq_mod)
    moreover have "?n + 32 < 256" using True by auto
    ultimately have "?n = 82" by simp
    then have "c = char_of (82 :: nat)" by (metis char_of_char)
    moreover have "char_of (82 :: nat) = CHR ''R''" by code_simp
    ultimately show ?thesis by simp
  next
    case False
    have "toLowerChar c = c"
      unfolding toLowerChar_def Let_def by (rule if_not_P) (rule False)
    then show ?thesis using a by simp
  qed
qed

lemma matchRgbaAt_head:
  "matchRgbaAt s \<noteq> None \<Longrightarrow> \<exists>c t. s = c # t \<and> (c = CHR ''r'' \<or> c = CHR ''R'')"
proof -
  assume a: "matchRgbaAt s \<noteq> None"
  then have l: "toLowerCase (take 3 s) = ''rgb''"
    by (auto simp add: matchRgbaAt_def split: if_splits)
  then obtain c t where s: "s = c # t" by (cases s) (auto simp add: toLowerCase_def)
  then have "toLowerChar c = CHR ''r''" using l by (simp add: toLowerCase_def)
  then show ?thesis using s toLowerChar_r by blast
qed

lemma rgbaMatch_no_r: "list_all (\<lambda>c. c \<noteq> CHR ''r'' \<and> c \<noteq> CHR ''R'') s \<Longrightarrow> rgbaMatch s = None"
proof (induction s)
  case Nil
  then show ?case by (simp add: matchRgbaAt_def toLowerCase_def)
next
  case (Cons c s)
  have "matchRgbaAt (c # s) = None"
  proof (rule ccontr)
    assume "matchRgbaAt (c # s) \<noteq> None"
    then obtain c' t' where "c # s = c' # t'" "c' = CHR ''r'' \<or> c' = CHR ''R''"
      using matchRgbaAt_head by blast
    then show False using Cons.prems by simp
  qed
  then show ?case using Cons by simp
qed

lemma rgbaMatch_hex: "list_all isHexDigit h \<Longrightarrow> rgbaMatch (CHR ''#'' # h) = None"
proof -
  assume "list_all isHexDigit h"
  then have "list_all (\<lambda>c. c \<noteq> CHR ''r'' \<and> c \<noteq> CHR ''R'') (CHR ''#'' # h)"
    using isHexDigit_not_r by (auto simp add: list_all_iff)
  then show ?thesis by (rule rgbaMatch_no_r)
qed

lemma trim_hex: "list_all isHexDigit h \<Longrightarrow> trim (CHR ''#'' # h) = CHR ''#'' # h"
proof -
  assume a: "list_all isHexDigit h"
  have "\<not> isSpace (last (CHR ''#'' # h))"
  proof (cases "h = []")
    case True
    then show ?thesis by (simp add: isSpace_def)
  next
    case False
    then have "last h \<in> set h" by simp
    then have "isHexDigit (last h)" using a by (simp add: list_all_iff)
    then show ?thesis using False isHexDigit_plain by simp
  qed
  then show ?thesis by (intro trim_plain) (simp_all add: isSpace_def)
qed

lemma parseColor_hex3:
  "isHexDigit a \<Longrightarrow> isHexDigit b \<Longrightarrow> isHexDigit c
   \<Longrightarrow> parseColor [CHR ''#'', a, b, c] = \<lparr>color = [CHR ''#'', a, a, b, b, c, c], opacity = Num 1\<rparr>"
proof -
  assume h: "isHexDigit a" "isHexDigit b" "isHexDigit c"
  show ?thesis
    using h rgbaMatch_hex [of "[a, b, c]"] trim_hex [of "[a, b, c]"]
    by (simp add: parseColor_def Let_def hexMatch_def normalizeHex_def slice_def parseInt16_ff)
qed

lemma parseColor_hex4:
  "isHexDigit a \<Longrightarrow> isHexDigit b \<Longrightarrow> isHexDigit c \<Longrightarrow> isHexDigit d
   \<Longrightarrow> parseColor [CHR ''#'', a, b, c, d]
       = \<lparr>color = [CHR ''#'', a, a, b, b, c, c], opacity = Num (of_nat (hexValue [d, d]) / 255)\<rparr>"
proof -
  assume h: "isHexDigit a" "isHexDigit b" "isHexDigit c" "isHexDigit d"
  show ?thesis
    using h rgbaMatch_hex [of "[a, b, c, d]"] trim_hex [of "[a, b, c, d]"] parseInt16_pair [of d d]
    by (simp add: parseColor_def Let_def hexMatch_def normalizeHex_def slice_def)
qed

lemma parseColor_hex6:
  "list_all isHexDigit h \<Longrightarrow> length h = 6
   \<Longrightarrow> parseColor (CHR ''#'' # h) = \<lparr>color = CHR ''#'' # h, opacity = Num 1\<rparr>"
proof -
  assume h: "list_all isHexDigit h" "length h = 6"
  show ?thesis
    using h rgbaMatch_hex [of h] trim_hex [of h]
    by (simp add: parseColor_def Let_def hexMatch_def normalizeHex_def slice_def parseInt16_ff)
qed

lemma parseColor_hex8:
  "list_all isHexDigit h \<Longrightarrow> length h = 6 \<Longrightarrow> isHexDigit e \<Longrightarrow> isHexDigit f
   \<Longrightarrow> parseColor (CHR ''#'' # h @ [e, f])
       = \<lparr>color = CHR ''#'' # h, opacity = Num (of_nat (hexValue [e, f]) / 255)\<rparr>"
proof -
  assume h: "list_all isHexDigit h" "length h = 6" "isHexDigit e" "isHexDigit f"
  show ?thesis
    using h rgbaMatch_hex [of "h @ [e, f]"] trim_hex [of "h @ [e, f]"] parseInt16_pair [of e f]
    by (simp add: parseColor_def Let_def hexMatch_def normalizeHex_def slice_def)
qed

lemma length_two: "length xs = 2 \<Longrightarrow> \<exists>a b. xs = [a, b]"
  by (auto simp add: length_Suc_conv numeral_2_eq_2)

text \<open>The opacity of a parsed colour is a finite number.\<close>

lemma parseColor_opacity_finite: "isFinite (opacity (parseColor v))"
proof (cases "v = []")
  case True
  then show ?thesis by (simp add: parseColor_def)
next
  case False
  show ?thesis
  proof (cases "rgbaMatch (trim v)")
    case (Some m)
    obtain m1 m2 m3 m4 where m: "m = (m1, m2, m3, m4)" by (cases m)
    show ?thesis
      using False Some m clampNumber_isFinite [of "Num 1"]
      by (cases m4) (simp_all add: parseColor_def Let_def)
  next
    case None
    show ?thesis
    proof (cases "hexMatch (trim v)")
      case hn: None
      then show ?thesis using False None by (simp add: parseColor_def)
    next
      case (Some h)
      then have hs: "list_all isHexDigit h" "length h = 3 \<or> length h = 4 \<or> length h = 6 \<or> length h = 8"
        by (auto simp add: hexMatch_def split: list.splits if_splits)
      let ?n = "normalizeHex h"
      have all: "list_all isHexDigit ?n"
        using hs(1) by (auto simp add: normalizeHex_def list_all_iff isHexDigit_def isDigit_def)
      have len: "length ?n = 8"
        using hs(2) by (auto simp add: normalizeHex_def length_concat comp_def sum_list_triv)
      then have "length (drop 6 ?n) = 2" by simp
      then obtain a b where ab: "drop 6 ?n = [a, b]"
        using length_two by blast
      have "set (drop 6 ?n) \<subseteq> set ?n" by (rule set_drop_subset)
      then have "isHexDigit a" "isHexDigit b" using all ab by (auto simp add: list_all_iff)
      then have "parseInt16 (drop 6 ?n) = Num (of_nat (hexValue [a, b]))"
        using ab parseInt16_pair by simp
      then show ?thesis using False None Some len by (simp add: parseColor_def Let_def)
    qed
  qed
qed

lemma isSeparator_split:
  "isSeparator p \<Longrightarrow> \<exists>w w'. p = w @ '','' @ w' \<and> list_all isSpace w \<and> list_all isSpace w'"
proof -
  assume a: "isSeparator p"
  then obtain r where r: "dropWhile isSpace p = CHR '','' # r" "list_all isSpace r"
    by (auto simp add: isSeparator_def split: list.splits)
  have "p = takeWhile isSpace p @ dropWhile isSpace p" by simp
  then have "p = takeWhile isSpace p @ '','' @ r" using r by simp
  moreover have "list_all isSpace (takeWhile isSpace p)"
    by (auto simp add: list_all_iff dest: set_takeWhileD)
  ultimately show ?thesis using r by blast
qed

lemma skipComma_sep:
  "list_all isSpace w \<Longrightarrow> list_all isSpace w' \<Longrightarrow> t \<noteq> [] \<Longrightarrow> \<not> isSpace (hd t)
   \<Longrightarrow> skipComma (w @ '','' @ w' @ t) = Some t"
proof -
  assume a: "list_all isSpace w" "list_all isSpace w'" "t \<noteq> []" "\<not> isSpace (hd t)"
  have 1: "dropWhile isSpace (w @ '','' @ w' @ t) = '','' @ w' @ t"
    using a(1) by (intro dropWhile_spaces) (simp_all add: isSpace_def)
  have 2: "dropWhile isSpace (w' @ t) = t"
    using a by (intro dropWhile_spaces)
  show ?thesis using 1 2 by (simp add: skipComma_def)
qed

lemma hd_digits: "d \<noteq> [] \<Longrightarrow> list_all isDigit d \<Longrightarrow> \<not> isSpace (hd (d @ t))"
  by (cases d) (auto simp add: isDigit_notSpace)

lemma hd_alpha: "a \<noteq> [] \<Longrightarrow> list_all isDigitOrDot a \<Longrightarrow> \<not> isSpace (hd (a @ t))"
  by (cases a) (auto simp add: isDigitOrDot_def isDigit_def isSpace_def)

lemma hd_sep_notDigit: "list_all isSpace w \<Longrightarrow> \<not> isDigit (hd (w @ '','' @ t))"
  by (cases w) (auto simp add: isDigit_def isSpace_def)

lemma alphaGroup_close: "alphaGroup ('')'' @ t) = None"
  by (simp add: alphaGroup_def skipComma_def isSpace_def)

lemma alphaGroup_alpha:
  "list_all isSpace w \<Longrightarrow> list_all isSpace w' \<Longrightarrow> a \<noteq> [] \<Longrightarrow> list_all isDigitOrDot a
   \<Longrightarrow> alphaGroup (w @ '','' @ w' @ a @ '')'' @ t) = Some (a, '')'' @ t)"
proof -
  assume h: "list_all isSpace w" "list_all isSpace w'" "a \<noteq> []" "list_all isDigitOrDot a"
  have 1: "skipComma (w @ '','' @ w' @ a @ '')'' @ t) = Some (a @ '')'' @ t)"
    using h hd_alpha [of a "'')'' @ t"] by (intro skipComma_sep) simp_all
  have 2: "takeWhile isDigitOrDot (a @ '')'' @ t) = a \<and> dropWhile isDigitOrDot (a @ '')'' @ t) = '')'' @ t"
    using h by (intro span_alpha) (simp_all add: isDigitOrDot_def isDigit_def)
  show ?thesis using h 1 2 by (simp add: alphaGroup_def)
qed

text \<open>The match attempt after the opening parenthesis, over the three channels.\<close>

lemma channels_span:
  assumes d: "d1 \<noteq> []" "list_all isDigit d1" "d2 \<noteq> []" "list_all isDigit d2" "d3 \<noteq> []" "list_all isDigit d3"
    and w: "list_all isSpace w1" "list_all isSpace w2" "list_all isSpace w3" "list_all isSpace w4"
    and t: "t \<noteq> []" "\<not> isDigit (hd t)"
  shows "takeWhile isDigit (d1 @ w1 @ '','' @ w2 @ d2 @ w3 @ '','' @ w4 @ d3 @ t) = d1"
    and "skipComma (dropWhile isDigit (d1 @ w1 @ '','' @ w2 @ d2 @ w3 @ '','' @ w4 @ d3 @ t))
          = Some (d2 @ w3 @ '','' @ w4 @ d3 @ t)"
    and "takeWhile isDigit (d2 @ w3 @ '','' @ w4 @ d3 @ t) = d2"
    and "skipComma (dropWhile isDigit (d2 @ w3 @ '','' @ w4 @ d3 @ t)) = Some (d3 @ t)"
    and "takeWhile isDigit (d3 @ t) = d3"
    and "dropWhile isDigit (d3 @ t) = t"
proof -
  have s1: "takeWhile isDigit (d1 @ (w1 @ '','' @ w2 @ d2 @ w3 @ '','' @ w4 @ d3 @ t)) = d1
            \<and> dropWhile isDigit (d1 @ (w1 @ '','' @ w2 @ d2 @ w3 @ '','' @ w4 @ d3 @ t))
               = w1 @ '','' @ w2 @ d2 @ w3 @ '','' @ w4 @ d3 @ t"
    using d(2) hd_sep_notDigit [OF w(1)] by (intro span_digits) simp_all
  have s2: "takeWhile isDigit (d2 @ (w3 @ '','' @ w4 @ d3 @ t)) = d2
            \<and> dropWhile isDigit (d2 @ (w3 @ '','' @ w4 @ d3 @ t)) = w3 @ '','' @ w4 @ d3 @ t"
    using d(4) hd_sep_notDigit [OF w(3)] by (intro span_digits) simp_all
  have s3: "takeWhile isDigit (d3 @ t) = d3 \<and> dropWhile isDigit (d3 @ t) = t"
    using d(6) t by (intro span_digits)
  have k1: "skipComma (w1 @ '','' @ w2 @ (d2 @ w3 @ '','' @ w4 @ d3 @ t)) = Some (d2 @ w3 @ '','' @ w4 @ d3 @ t)"
    using w(1,2) d(3,4) hd_digits [of d2] by (intro skipComma_sep) simp_all
  have k2: "skipComma (w3 @ '','' @ w4 @ (d3 @ t)) = Some (d3 @ t)"
    using w(3,4) d(5,6) hd_digits [of d3] by (intro skipComma_sep) simp_all
  show "takeWhile isDigit (d1 @ w1 @ '','' @ w2 @ d2 @ w3 @ '','' @ w4 @ d3 @ t) = d1"
    using s1 by simp
  show "skipComma (dropWhile isDigit (d1 @ w1 @ '','' @ w2 @ d2 @ w3 @ '','' @ w4 @ d3 @ t))
          = Some (d2 @ w3 @ '','' @ w4 @ d3 @ t)"
    using s1 k1 by simp
  show "takeWhile isDigit (d2 @ w3 @ '','' @ w4 @ d3 @ t) = d2" using s2 by simp
  show "skipComma (dropWhile isDigit (d2 @ w3 @ '','' @ w4 @ d3 @ t)) = Some (d3 @ t)"
    using s2 k2 by simp
  show "takeWhile isDigit (d3 @ t) = d3" using s3 by simp
  show "dropWhile isDigit (d3 @ t) = t" using s3 by simp
qed

lemma clampChannel_channel: "n \<le> 255 \<Longrightarrow> clampChannel (Num (of_nat n)) = Num (of_nat n)"
  by (auto simp add: clampChannel_def mathMin_def mathMax_def)

lemma natToHex_small: "n < 256 \<Longrightarrow> padStart2 (natToHex n) = hexPair n"
proof (cases "n < 16")
  case True
  then show ?thesis by (simp add: natToHex.simps padStart2_def hexPair_def hexChar_def)
next
  case False
  assume "n < 256"
  then have "n div 16 < 16" by simp
  then show ?thesis
    using False natToHex.simps [of n] natToHex.simps [of "n div 16"]
    by (simp add: padStart2_def hexPair_def)
qed

lemma toHex_channel: "n \<le> 255 \<Longrightarrow> toHex (clampChannel (Num (of_nat n))) = hexPair n"
  using natToHex_small [of n] by (simp add: clampChannel_channel toHex_def)

lemma parseInt10_channel: "isChannel d \<Longrightarrow> parseInt10 d = Num (of_nat (digitsValue d))"
proof -
  assume a: "isChannel d"
  then obtain c t where d: "d = c # t" "isDigit c" by (cases d) (auto simp add: isChannel_def)
  have 1: "dropWhile isSpace d = d" using d isDigit_notSpace by simp
  have 2: "splitSign d = (False, d)" using d isDigit_notSign [of c] by (simp add: splitSign_def)
  have 3: "takeWhile isDigit d = d" using a by (simp add: isChannel_def list_all_iff)
  have "\<bar>(of_nat (digitsValue d) :: real)\<bar> \<le> 256" using a by (simp add: isChannel_def)
  then have 4: "toDouble (of_nat (digitsValue d)) = Num (of_nat (digitsValue d))"
    by (rule toDouble_below_256)
  have 5: "d \<noteq> []" using a by (simp add: isChannel_def)
  show ?thesis by (simp add: parseInt10_def 1 2 3 4 5)
qed

lemma channel_hex: "isChannel d \<Longrightarrow> toHex (clampChannel (parseInt10 d)) = hexPair (digitsValue d)"
  by (simp add: parseInt10_channel toHex_channel isChannel_def)

lemma matchRgbaAt_plain:
  assumes fn: "fn = ''rgb'' \<or> fn = ''rgba''"
    and d: "isChannel d1" "isChannel d2" "isChannel d3"
    and p: "isSeparator p1" "isSeparator p2"
  shows "matchRgbaAt (fn @ ''('' @ d1 @ p1 @ d2 @ p2 @ d3 @ '')'') = Some (d1, d2, d3, None)"
proof -
  obtain w1 w2 where p1: "p1 = w1 @ '','' @ w2" "list_all isSpace w1" "list_all isSpace w2"
    using isSeparator_split [OF p(1)] by blast
  obtain w3 w4 where p2: "p2 = w3 @ '','' @ w4" "list_all isSpace w3" "list_all isSpace w4"
    using isSeparator_split [OF p(2)] by blast
  have dd: "d1 \<noteq> []" "list_all isDigit d1" "d2 \<noteq> []" "list_all isDigit d2" "d3 \<noteq> []" "list_all isDigit d3"
    using d by (simp_all add: isChannel_def)
  have t: "'')'' \<noteq> []" "\<not> isDigit (hd '')'')" by (simp_all add: isDigit_def)
  note sp = channels_span [OF dd p1(2,3) p2(2,3) t]
  show ?thesis
    using fn sp dd alphaGroup_close [of "[]"]
    by (auto simp add: matchRgbaAt_def p1(1) p2(1) toLowerCase_def toLowerChar_def startsWith_def Let_def)
qed

lemma matchRgbaAt_alpha:
  assumes fn: "fn = ''rgb'' \<or> fn = ''rgba''"
    and d: "isChannel d1" "isChannel d2" "isChannel d3"
    and p: "isSeparator p1" "isSeparator p2" "isSeparator p3"
    and a: "isAlphaText a"
  shows "matchRgbaAt (fn @ ''('' @ d1 @ p1 @ d2 @ p2 @ d3 @ p3 @ a @ '')'') = Some (d1, d2, d3, Some a)"
proof -
  obtain w1 w2 where p1: "p1 = w1 @ '','' @ w2" "list_all isSpace w1" "list_all isSpace w2"
    using isSeparator_split [OF p(1)] by blast
  obtain w3 w4 where p2: "p2 = w3 @ '','' @ w4" "list_all isSpace w3" "list_all isSpace w4"
    using isSeparator_split [OF p(2)] by blast
  obtain w5 w6 where p3: "p3 = w5 @ '','' @ w6" "list_all isSpace w5" "list_all isSpace w6"
    using isSeparator_split [OF p(3)] by blast
  have dd: "d1 \<noteq> []" "list_all isDigit d1" "d2 \<noteq> []" "list_all isDigit d2" "d3 \<noteq> []" "list_all isDigit d3"
    using d by (simp_all add: isChannel_def)
  have t: "w5 @ '','' @ w6 @ a @ '')'' \<noteq> []" "\<not> isDigit (hd (w5 @ '','' @ w6 @ a @ '')''))"
    using hd_sep_notDigit [OF p3(2)] by simp_all
  note sp = channels_span [OF dd p1(2,3) p2(2,3) t]
  have ag: "alphaGroup (w5 @ '','' @ w6 @ a @ '')'' @ []) = Some (a, '')'' @ [])"
    using p3(2,3) a by (intro alphaGroup_alpha) (simp_all add: isAlphaText_def)
  show ?thesis
    using fn sp dd ag
    by (auto simp add: matchRgbaAt_def p1(1) p2(1) p3(1) toLowerCase_def toLowerChar_def startsWith_def Let_def)
qed

lemma trim_call: "trim (CHR ''r'' # t @ '')'') = CHR ''r'' # t @ '')''"
  by (rule trim_plain) (simp_all add: isSpace_def)

lemma parseColor_rgb_plain:
  assumes fn: "fn = ''rgb'' \<or> fn = ''rgba''"
    and d: "isChannel d1" "isChannel d2" "isChannel d3"
    and p: "isSeparator p1" "isSeparator p2"
  shows "parseColor (fn @ ''('' @ d1 @ p1 @ d2 @ p2 @ d3 @ '')'')
         = \<lparr>color = ''#'' @ hexPair (digitsValue d1) @ hexPair (digitsValue d2) @ hexPair (digitsValue d3),
            opacity = Num 1\<rparr>"
proof -
  let ?s = "fn @ ''('' @ d1 @ p1 @ d2 @ p2 @ d3 @ '')''"
  have m: "matchRgbaAt ?s = Some (d1, d2, d3, None)"
    using fn d p by (rule matchRgbaAt_plain)
  obtain t where s: "?s = CHR ''r'' # t @ '')''"
    using fn by auto
  have tr: "trim ?s = ?s" unfolding s by (rule trim_call)
  have rm: "rgbaMatch ?s = Some (d1, d2, d3, None)"
    using m unfolding s by simp
  have ne: "?s \<noteq> []" unfolding s by simp
  show ?thesis
    using ne tr rm
    by (simp add: parseColor_def Let_def rgbToHex_def channel_hex [OF d(1)] channel_hex [OF d(2)]
          channel_hex [OF d(3)])
qed

lemma parseColor_rgb_alpha:
  assumes fn: "fn = ''rgb'' \<or> fn = ''rgba''"
    and d: "isChannel d1" "isChannel d2" "isChannel d3"
    and p: "isSeparator p1" "isSeparator p2" "isSeparator p3"
    and a: "isAlphaText a"
  shows "parseColor (fn @ ''('' @ d1 @ p1 @ d2 @ p2 @ d3 @ p3 @ a @ '')'')
         = \<lparr>color = ''#'' @ hexPair (digitsValue d1) @ hexPair (digitsValue d2) @ hexPair (digitsValue d3),
            opacity = clampNumber (parseFloat a) (Num 1)\<rparr>"
proof -
  let ?s = "fn @ ''('' @ d1 @ p1 @ d2 @ p2 @ d3 @ p3 @ a @ '')''"
  have m: "matchRgbaAt ?s = Some (d1, d2, d3, Some a)"
    using fn d p a by (rule matchRgbaAt_alpha)
  obtain t where s: "?s = CHR ''r'' # t @ '')''"
    using fn by auto
  have tr: "trim ?s = ?s" unfolding s by (rule trim_call)
  have rm: "rgbaMatch ?s = Some (d1, d2, d3, Some a)"
    using m unfolding s by simp
  have ne: "?s \<noteq> []" unfolding s by simp
  show ?thesis
    using ne tr rm
    by (simp add: parseColor_def Let_def rgbToHex_def channel_hex [OF d(1)] channel_hex [OF d(2)]
          channel_hex [OF d(3)])
qed

lemma hexChar_value: "k < 16 \<Longrightarrow> hexDigitValue (hexChar k) = k \<and> isHexDigit (hexChar k)"
proof -
  assume "k < 16"
  then have "k = 0 \<or> k = 1 \<or> k = 2 \<or> k = 3 \<or> k = 4 \<or> k = 5 \<or> k = 6 \<or> k = 7
    \<or> k = 8 \<or> k = 9 \<or> k = 10 \<or> k = 11 \<or> k = 12 \<or> k = 13 \<or> k = 14 \<or> k = 15"
    by arith
  then show ?thesis
    by (elim disjE) (simp_all add: hexChar_def hexDigitValue_def isHexDigit_def isDigit_def)
qed

lemma hexPair_value: "n \<le> 255 \<Longrightarrow> hexValue (hexPair n) = n \<and> list_all isHexDigit (hexPair n)"
proof -
  assume a: "n \<le> 255"
  then have 1: "n div 16 < 16" by simp
  have 2: "n mod 16 < 16" by simp
  have 3: "hexChar n = hexChar (n mod 16)" by (simp add: hexChar_def)
  show ?thesis
    using hexChar_value [OF 1] hexChar_value [OF 2]
    by (simp add: hexPair_def hexValue_pair 3)
qed

text \<open>
  Claim C2. \<^verbatim>\<open>parseColor\<close> normalises a colour text to a six-digit hexadecimal colour and
  a separate opacity that keep the channels of the input. The empty text gives opaque
  black. A text \<^verbatim>\<open>rgb(d1, d2, d3)\<close> or \<^verbatim>\<open>rgba(d1, d2, d3)\<close> with channels from 0 to 255
  gives the colour made of the two hexadecimal digits of each channel, with opacity 1; with
  a fourth group \<open>a\<close> the opacity is the number read from \<open>a\<close>, which for a decimal
  fraction \<open>ip.fp\<close> is its exact value. The two digits written for a channel read back as
  that channel. A text \<^verbatim>\<open>#RGB\<close> or \<^verbatim>\<open>#RGBA\<close> gives the colour with every digit doubled, a
  text \<^verbatim>\<open>#RRGGBB\<close> or \<^verbatim>\<open>#RRGGBBAA\<close> gives its first six digits; the opacity is 1 without
  alpha digits, and the value of the alpha digits over 255 with them. The opacity is a
  finite number for every input.
\<close>

theorem parseColor_normalizes:
  "parseColor [] = \<lparr>color = ''#000000'', opacity = Num 1\<rparr>
   \<and> ((fn = ''rgb'' \<or> fn = ''rgba'') \<and> isChannel d1 \<and> isChannel d2 \<and> isChannel d3
        \<and> isSeparator p1 \<and> isSeparator p2
      \<longrightarrow> parseColor (fn @ ''('' @ d1 @ p1 @ d2 @ p2 @ d3 @ '')'')
          = \<lparr>color = ''#'' @ hexPair (digitsValue d1) @ hexPair (digitsValue d2) @ hexPair (digitsValue d3),
             opacity = Num 1\<rparr>)
   \<and> ((fn = ''rgb'' \<or> fn = ''rgba'') \<and> isChannel d1 \<and> isChannel d2 \<and> isChannel d3
        \<and> isSeparator p1 \<and> isSeparator p2 \<and> isSeparator p3 \<and> isAlphaText a
      \<longrightarrow> parseColor (fn @ ''('' @ d1 @ p1 @ d2 @ p2 @ d3 @ p3 @ a @ '')'')
          = \<lparr>color = ''#'' @ hexPair (digitsValue d1) @ hexPair (digitsValue d2) @ hexPair (digitsValue d3),
             opacity = clampNumber (parseFloat a) (Num 1)\<rparr>)
   \<and> (isChannel ip \<and> fp \<noteq> [] \<and> list_all isDigit fp
      \<longrightarrow> isAlphaText (ip @ ''.'' @ fp)
          \<and> clampNumber (parseFloat (ip @ ''.'' @ fp)) (Num 1)
             = Num (real (digitsValue ip) + real (digitsValue fp) / 10 ^ length fp))
   \<and> (n \<le> 255 \<longrightarrow> hexValue (hexPair n) = n \<and> list_all isHexDigit (hexPair n))
   \<and> (isHexDigit h1 \<and> isHexDigit h2 \<and> isHexDigit h3
      \<longrightarrow> parseColor [CHR ''#'', h1, h2, h3]
          = \<lparr>color = [CHR ''#'', h1, h1, h2, h2, h3, h3], opacity = Num 1\<rparr>)
   \<and> (isHexDigit h1 \<and> isHexDigit h2 \<and> isHexDigit h3 \<and> isHexDigit h4
      \<longrightarrow> parseColor [CHR ''#'', h1, h2, h3, h4]
          = \<lparr>color = [CHR ''#'', h1, h1, h2, h2, h3, h3],
             opacity = Num (real (hexValue [h4, h4]) / 255)\<rparr>)
   \<and> (list_all isHexDigit h \<and> length h = 6
      \<longrightarrow> parseColor (CHR ''#'' # h) = \<lparr>color = CHR ''#'' # h, opacity = Num 1\<rparr>)
   \<and> (list_all isHexDigit h \<and> length h = 6 \<and> isHexDigit h7 \<and> isHexDigit h8
      \<longrightarrow> parseColor (CHR ''#'' # h @ [h7, h8])
          = \<lparr>color = CHR ''#'' # h, opacity = Num (real (hexValue [h7, h8]) / 255)\<rparr>)
   \<and> isFinite (opacity (parseColor v))"
proof (intro conjI impI)
  show "parseColor [] = \<lparr>color = ''#000000'', opacity = Num 1\<rparr>"
    by (simp add: parseColor_def)
next
  assume "(fn = ''rgb'' \<or> fn = ''rgba'') \<and> isChannel d1 \<and> isChannel d2 \<and> isChannel d3
        \<and> isSeparator p1 \<and> isSeparator p2"
  then show "parseColor (fn @ ''('' @ d1 @ p1 @ d2 @ p2 @ d3 @ '')'')
          = \<lparr>color = ''#'' @ hexPair (digitsValue d1) @ hexPair (digitsValue d2) @ hexPair (digitsValue d3),
             opacity = Num 1\<rparr>"
    by (intro parseColor_rgb_plain) blast+
next
  assume "(fn = ''rgb'' \<or> fn = ''rgba'') \<and> isChannel d1 \<and> isChannel d2 \<and> isChannel d3
        \<and> isSeparator p1 \<and> isSeparator p2 \<and> isSeparator p3 \<and> isAlphaText a"
  then show "parseColor (fn @ ''('' @ d1 @ p1 @ d2 @ p2 @ d3 @ p3 @ a @ '')'')
          = \<lparr>color = ''#'' @ hexPair (digitsValue d1) @ hexPair (digitsValue d2) @ hexPair (digitsValue d3),
             opacity = clampNumber (parseFloat a) (Num 1)\<rparr>"
    by (intro parseColor_rgb_alpha) blast+
next
  assume a: "isChannel ip \<and> fp \<noteq> [] \<and> list_all isDigit fp"
  then show "isAlphaText (ip @ ''.'' @ fp)"
    by (auto simp add: isAlphaText_def isChannel_def isDigitOrDot_def list_all_iff)
  have "parseFloat (ip @ ''.'' @ fp)
        = Num (of_nat (digitsValue ip) + of_nat (digitsValue fp) / 10 ^ length fp)"
    using a by (intro parseFloat_fraction) blast+
  then show "clampNumber (parseFloat (ip @ ''.'' @ fp)) (Num 1)
             = Num (real (digitsValue ip) + real (digitsValue fp) / 10 ^ length fp)"
    by (simp add: clampNumber_def isNaN_def)
next
  assume "n \<le> 255"
  then show "hexValue (hexPair n) = n" "list_all isHexDigit (hexPair n)"
    using hexPair_value by blast+
next
  assume "isHexDigit h1 \<and> isHexDigit h2 \<and> isHexDigit h3"
  then show "parseColor [CHR ''#'', h1, h2, h3]
          = \<lparr>color = [CHR ''#'', h1, h1, h2, h2, h3, h3], opacity = Num 1\<rparr>"
    by (intro parseColor_hex3) blast+
next
  assume "isHexDigit h1 \<and> isHexDigit h2 \<and> isHexDigit h3 \<and> isHexDigit h4"
  then show "parseColor [CHR ''#'', h1, h2, h3, h4]
          = \<lparr>color = [CHR ''#'', h1, h1, h2, h2, h3, h3],
             opacity = Num (real (hexValue [h4, h4]) / 255)\<rparr>"
    by (intro parseColor_hex4) blast+
next
  assume "list_all isHexDigit h \<and> length h = 6"
  then show "parseColor (CHR ''#'' # h) = \<lparr>color = CHR ''#'' # h, opacity = Num 1\<rparr>"
    by (intro parseColor_hex6) blast+
next
  assume "list_all isHexDigit h \<and> length h = 6 \<and> isHexDigit h7 \<and> isHexDigit h8"
  then show "parseColor (CHR ''#'' # h @ [h7, h8])
          = \<lparr>color = CHR ''#'' # h, opacity = Num (real (hexValue [h7, h8]) / 255)\<rparr>"
    by (intro parseColor_hex8) blast+
next
  show "isFinite (opacity (parseColor v))" by (rule parseColor_opacity_finite)
qed

text \<open>
  The theorem at the two examples of the specification, \<^verbatim>\<open>rgba(255,0,0,0.5)\<close> and
  \<^verbatim>\<open>#ff000080\<close>, and at \<^verbatim>\<open>rgb(12, 0, 255)\<close>, \<^verbatim>\<open>#0af\<close>, \<^verbatim>\<open>#0afc\<close> and \<^verbatim>\<open>#00aaff\<close>.
\<close>

lemmas colour_shapes = isChannel_def isSeparator_def isAlphaText_def isDigitOrDot_def isDigit_def
  isSpace_def isHexDigit_def digitsValue_def hexPair_def hexChar_def hexValue_def hexDigitValue_def
  clampNumber_def parseFloat_def parseDecimal_def parseExponent_def splitSign_def toDouble_def
  isNaN_def Let_def

theorem parseColor_normalizes_witness:
  "parseColor ''rgba(255,0,0,0.5)'' = \<lparr>color = ''#ff0000'', opacity = Num (1 / 2)\<rparr>
   \<and> parseColor ''#ff000080'' = \<lparr>color = ''#ff0000'', opacity = Num (128 / 255)\<rparr>
   \<and> parseColor ''rgb(12, 0, 255)'' = \<lparr>color = ''#0c00ff'', opacity = Num 1\<rparr>
   \<and> parseColor ''#0af'' = \<lparr>color = ''#00aaff'', opacity = Num 1\<rparr>
   \<and> parseColor ''#0afc'' = \<lparr>color = ''#00aaff'', opacity = Num (204 / 255)\<rparr>
   \<and> parseColor ''#00aaff'' = \<lparr>color = ''#00aaff'', opacity = Num 1\<rparr>
   \<and> hexValue ''0c'' = 12"
  using parseColor_normalizes [where fn = "''rgba''" and ?d1.0 = "''255''" and ?d2.0 = "''0''"
      and ?d3.0 = "''0''" and ?p1.0 = "'',''" and ?p2.0 = "'',''" and ?p3.0 = "'',''" and a = "''0.5''"
      and ip = "''0''" and fp = "''5''" and n = 12
      and ?h1.0 = "CHR ''0''" and ?h2.0 = "CHR ''a''" and ?h3.0 = "CHR ''f''" and ?h4.0 = "CHR ''c''"
      and h = "''ff0000''" and ?h7.0 = "CHR ''8''" and ?h8.0 = "CHR ''0''"]
    parseColor_normalizes [where fn = "''rgb''" and ?d1.0 = "''12''" and ?d2.0 = "''0''"
      and ?d3.0 = "''255''" and ?p1.0 = "'', ''" and ?p2.0 = "'', ''" and h = "''00aaff''"]
  by (simp add: colour_shapes)

subsection \<open>Fills and gradients\<close>

lemmas gradient_eval = parseLinearGradient_def extractLinearGradientSegment_def indexOf_def startsWith_def slice_def
  splitGradientArgs_def trim_def isSpace_def strIncludes_def parseGradientAngle_def toLowerCase_def toLowerChar_def
  endsWith_def clampNumber_def parseFloat_def parseDecimal_def splitSign_def isDigit_def digitsValue_def
  parseExponent_def toDouble_def collectStops_def parseGradientStop_def closesAhead_def parseColor_def
  matchRgbaAt_def hexMatch_def mathMax_def numSub_def isNaN_def List.map_filter_def Let_def

lemma gradient_example: "parseLinearGradient ''linear-gradient(45deg, red, blue)'' = Some sampleGradient"
  by (simp add: gradient_eval sampleGradient_def)

lemma gradient_none: "parseLinearGradient [] = None" "parseLinearGradient ''none'' = None"
  by (simp_all add: gradient_eval)

lemma parseGradientStop_None: "(parseGradientStop token i n = None) = (token = [])"
  by (simp add: parseGradientStop_def Let_def)

lemma collectStops_length: "length (collectStops arr) = length (filter (\<lambda>t. trim t \<noteq> []) arr)"
proof -
  have "length (List.map_filter (\<lambda>(i, t). parseGradientStop (trim t) i n) (enumerate k ts))
        = length (filter (\<lambda>t. trim t \<noteq> []) ts)" for n k ts
  proof (induction ts arbitrary: k)
    case Nil
    show ?case by (simp add: List.map_filter_def)
  next
    case (Cons t ts)
    show ?case
      using Cons [of "Suc k"] parseGradientStop_None [of "trim t" k n]
      by (cases "parseGradientStop (trim t) k n") (auto simp add: List.map_filter_def)
  qed
  then show ?thesis by (simp add: collectStops_def)
qed

lemma parseLinearGradient_stops:
  "parseLinearGradient v = Some g \<Longrightarrow> stops g = collectStops (stopTokens v)"
  by (auto simp add: parseLinearGradient_def stopTokens_def gradientTokens_def hasAngleToken_def Let_def
        drop_Suc split: option.splits if_splits)

lemma few_tokens: "length ts < 2 \<Longrightarrow> length (filter P ts) < 2"
  by (meson le_less_trans length_filter_le)

lemma parseLinearGradient_None: "(parseLinearGradient v = None) = (length (usableStops v) < 2)"
proof (cases "extractLinearGradientSegment v")
  case None
  then show ?thesis
    by (simp add: parseLinearGradient_def usableStops_def stopTokens_def gradientTokens_def hasAngleToken_def)
next
  case (Some segment)
  show ?thesis
  proof (cases "hasAngleToken (gradientTokens v)")
    case True
    then show ?thesis
      using Some
      by (auto simp add: parseLinearGradient_def usableStops_def stopTokens_def gradientTokens_def
            hasAngleToken_def Let_def drop_Suc collectStops_length few_tokens)
  next
    case False
    then show ?thesis
      using Some
      by (auto simp add: parseLinearGradient_def usableStops_def stopTokens_def gradientTokens_def
            hasAngleToken_def Let_def collectStops_length few_tokens)
  qed
qed

text \<open>
  Claim C3. When the background image holds no linear gradient that parses and the
  background colour is \<^verbatim>\<open>rgba(0, 0, 0, 0)\<close>, as a computed style writes the fully
  transparent colour, or \<^verbatim>\<open>transparent\<close>, \<^verbatim>\<open>parseFill\<close> returns no fill; with such a
  background colour it never returns a solid fill; and when the background image holds a
  linear gradient that parses, that gradient is the fill, whatever the background colour.
\<close>

theorem parseFill_prefers_gradient:
  "(parseLinearGradient (style ''backgroundImage'') = None
      \<and> (style ''backgroundColor'' = ''rgba(0, 0, 0, 0)'' \<or> style ''backgroundColor'' = ''transparent'')
      \<longrightarrow> parseFill style = None)
   \<and> (style ''backgroundColor'' = ''rgba(0, 0, 0, 0)'' \<or> style ''backgroundColor'' = ''transparent''
      \<longrightarrow> (\<forall>c. parseFill style \<noteq> Some (SolidFill c)))
   \<and> (parseLinearGradient (style ''backgroundImage'') = Some g
      \<longrightarrow> parseFill style = Some (LinearGradientFill g))"
proof (intro conjI impI)
  assume "parseLinearGradient (style ''backgroundImage'') = None
      \<and> (style ''backgroundColor'' = ''rgba(0, 0, 0, 0)'' \<or> style ''backgroundColor'' = ''transparent'')"
  then show "parseFill style = None" by (auto simp add: parseFill_def)
next
  assume "style ''backgroundColor'' = ''rgba(0, 0, 0, 0)'' \<or> style ''backgroundColor'' = ''transparent''"
  then show "\<forall>c. parseFill style \<noteq> Some (SolidFill c)"
    by (auto simp add: parseFill_def split: option.splits)
next
  assume g: "parseLinearGradient (style ''backgroundImage'') = Some g"
  then have "style ''backgroundImage'' \<noteq> []" "style ''backgroundImage'' \<noteq> ''none''"
    using gradient_none by auto
  then show "parseFill style = Some (LinearGradientFill g)"
    using g by (simp add: parseFill_def)
qed

text \<open>
  The theorem at a style with a transparent background and no gradient, and at a style
  with both a background colour and a gradient.
\<close>

theorem parseFill_prefers_gradient_witness:
  "parseFill transparentStyle = None
   \<and> parseFill gradientStyle = Some (LinearGradientFill sampleGradient)"
  using parseFill_prefers_gradient [of transparentStyle] gradient_none(2)
    parseFill_prefers_gradient [of gradientStyle sampleGradient] gradient_example
  by (simp add: transparentStyle_def gradientStyle_def)

text \<open>
  Claim C4. \<^verbatim>\<open>parseLinearGradient\<close> on \<^verbatim>\<open>linear-gradient(45deg, red, blue)\<close> returns the
  angle 45 and the two stops red at offset 0 and blue at offset 1. For every value it
  returns nothing exactly when fewer than two stop tokens after the optional angle are
  usable, that is, not blank; and a gradient that it returns holds one stop for each
  usable token, hence at least two.
\<close>

theorem parseLinearGradient_usable_stops:
  "parseLinearGradient ''linear-gradient(45deg, red, blue)''
     = Some \<lparr>angle = Num 45,
              stops = [\<lparr>color = ''red'', opacity = Num 1, offset = Num 0\<rparr>,
                       \<lparr>color = ''blue'', opacity = Num 1, offset = Num 1\<rparr>]\<rparr>
   \<and> (parseLinearGradient v = None) = (length (usableStops v) < 2)
   \<and> (parseLinearGradient v = Some g
      \<longrightarrow> stops g = collectStops (stopTokens v) \<and> length (stops g) = length (usableStops v)
          \<and> 2 \<le> length (stops g))"
proof (intro conjI impI)
  show "parseLinearGradient ''linear-gradient(45deg, red, blue)''
     = Some \<lparr>angle = Num 45,
              stops = [\<lparr>color = ''red'', opacity = Num 1, offset = Num 0\<rparr>,
                       \<lparr>color = ''blue'', opacity = Num 1, offset = Num 1\<rparr>]\<rparr>"
    using gradient_example by (simp add: sampleGradient_def)
  show "(parseLinearGradient v = None) = (length (usableStops v) < 2)"
    by (rule parseLinearGradient_None)
next
  assume g: "parseLinearGradient v = Some g"
  then show s: "stops g = collectStops (stopTokens v)" by (rule parseLinearGradient_stops)
  then show l: "length (stops g) = length (usableStops v)"
    by (simp add: collectStops_length usableStops_def)
  show "2 \<le> length (stops g)"
    using g l parseLinearGradient_None [of v] by simp
qed

text \<open>
  The theorem at a gradient with one stop, at one whose second stop is blank, and at the
  example.
\<close>

lemmas token_eval = usableStops_def stopTokens_def gradientTokens_def hasAngleToken_def
  extractLinearGradientSegment_def indexOf_def startsWith_def slice_def splitGradientArgs_def trim_def
  isSpace_def strIncludes_def closesAhead_def Let_def

theorem parseLinearGradient_usable_stops_witness:
  "parseLinearGradient ''linear-gradient(45deg, red)'' = None
   \<and> usableStops ''linear-gradient(45deg, red)'' = [''red'']
   \<and> parseLinearGradient ''linear-gradient(red, )'' = None
   \<and> usableStops ''linear-gradient(red, )'' = [''red'']
   \<and> usableStops ''linear-gradient(45deg, red, blue)'' = [''red'', ''blue'']
   \<and> length (stops sampleGradient) = 2"
  using parseLinearGradient_usable_stops [of "''linear-gradient(45deg, red)''"]
    parseLinearGradient_usable_stops [of "''linear-gradient(red, )''"]
    parseLinearGradient_usable_stops [of "''linear-gradient(45deg, red, blue)''" sampleGradient]
  by (simp add: token_eval sampleGradient_def)

lemma spaced_value:
  "numDiv (Num (of_nat i)) (mathMax (numSub (Num (of_nat n)) (Num 1)) (Num 1)) = Num (evenOffset i n)"
  by (simp add: mathMax_def numSub_def evenOffset_def max_def)

lemma parseGradientStop_offset_finite:
  "parseGradientStop token i n = Some s \<Longrightarrow> isFinite (offset s)"
  by (auto simp add: parseGradientStop_def Let_def spaced_value clampNumber_isFinite split: if_splits)

lemma parseGradientStop_even:
  "token \<noteq> [] \<Longrightarrow> \<not> hasExplicitOffset token
   \<Longrightarrow> map_option offset (parseGradientStop token i n) = Some (Num (evenOffset i n))"
  by (auto simp add: parseGradientStop_def Let_def spaced_value hasExplicitOffset_def)

lemma parseGradientStop_explicit:
  "parseGradientStop token i n = Some s \<Longrightarrow> hasExplicitOffset token
   \<Longrightarrow> parseFloat (last (splitStop [] token)) = Num p \<Longrightarrow> offset s = Num (p / 100)"
  by (auto simp add: parseGradientStop_def hasExplicitOffset_def Let_def clampNumber_def isNaN_def
        split: if_splits)

lemma collectStops_finite: "list_all (\<lambda>s. isFinite (offset s)) (collectStops arr)"
  by (auto simp add: collectStops_def List.map_filter_def list_all_iff
        dest: parseGradientStop_offset_finite)

lemma collect_offsets:
  "list_all (\<lambda>t. \<not> hasExplicitOffset (trim t)) ts
   \<Longrightarrow> map offset (List.map_filter (\<lambda>(i, t). parseGradientStop (trim t) i n) (enumerate k ts))
       = map (\<lambda>(i, t). Num (evenOffset i n)) (filter (\<lambda>(i, t). trim t \<noteq> []) (enumerate k ts))"
proof (induction ts arbitrary: k)
  case Nil
  show ?case by (simp add: List.map_filter_def)
next
  case (Cons t ts)
  have rest: "map offset (List.map_filter (\<lambda>(i, t). parseGradientStop (trim t) i n) (enumerate (Suc k) ts))
       = map (\<lambda>(i, t). Num (evenOffset i n)) (filter (\<lambda>(i, t). trim t \<noteq> []) (enumerate (Suc k) ts))"
    using Cons by simp
  show ?case
  proof (cases "trim t = []")
    case True
    then show ?thesis using rest by (simp add: List.map_filter_def parseGradientStop_None)
  next
    case False
    have "\<not> hasExplicitOffset (trim t)" using Cons.prems by simp
    then obtain s where s: "parseGradientStop (trim t) k n = Some s" "offset s = Num (evenOffset k n)"
      using parseGradientStop_even [OF False, of k n] by auto
    then show ?thesis using rest False by (simp add: List.map_filter_def)
  qed
qed

lemma evenOffset_mono: "i \<le> j \<Longrightarrow> evenOffset i n \<le> evenOffset j n"
  by (simp add: evenOffset_def divide_right_mono)

lemma evenOffset_range: "i < n \<Longrightarrow> 0 \<le> evenOffset i n \<and> evenOffset i n \<le> 1"
proof -
  assume a: "i < n"
  then have "real i \<le> real n - 1" by linarith
  then have "real i \<le> max (real n - 1) 1" by simp
  then show ?thesis by (simp add: evenOffset_def)
qed

lemma enumerate_sorted:
  "sorted_wrt numLe (map (\<lambda>(i, t). Num (evenOffset i n)) (filter P (enumerate k ts)))"
proof (induction ts arbitrary: k)
  case Nil
  show ?case by simp
next
  case (Cons t ts)
  have "\<forall>x \<in> set (enumerate (Suc k) ts). k \<le> fst x"
    by (auto simp add: in_set_enumerate_eq)
  then have "\<forall>x \<in> set (filter P (enumerate (Suc k) ts)).
               numLe (Num (evenOffset k n)) (Num (evenOffset (fst x) n))"
    by (auto simp add: numLe_Num evenOffset_mono)
  then show ?case using Cons [of "Suc k"] by (auto simp add: case_prod_beta)
qed

lemma enumerate_range:
  "list_all (\<lambda>v. numLe (Num 0) v \<and> numLe v (Num 1))
     (map (\<lambda>(i, t). Num (evenOffset i (length ts))) (filter P (enumerate 0 ts)))"
proof -
  have "\<forall>x \<in> set (enumerate 0 ts). fst x < length ts"
    by (auto simp add: in_set_enumerate_eq)
  then show ?thesis
    using evenOffset_range [of _ "length ts"]
    by (auto simp add: list_all_iff numLe_Num case_prod_beta)
qed

lemma collectStops_even:
  assumes "list_all (\<lambda>t. \<not> hasExplicitOffset (trim t)) arr"
  shows "map offset (collectStops arr)
         = map (\<lambda>(j, t). Num (evenOffset j (length arr))) (filter (\<lambda>(j, t). trim t \<noteq> []) (enumerate 0 arr))"
  unfolding collectStops_def using assms by (rule collect_offsets)

text \<open>
  Claim C5. The offset of every stop that the gradient parser produces is a finite
  number. A token without an explicit percentage, at position \<open>i\<close> among \<open>n\<close> tokens,
  receives the offset \<open>i / max (n - 1) 1\<close>; the position counts the blank tokens, which
  give no stop. When no token carries an explicit percentage the offsets of the stops
  are these evenly spaced values, they never decrease and they lie between 0 and 1; the
  same holds for the stops of a parsed gradient. An explicit percentage that reads as the
  number \<open>p\<close> gives the offset \<open>p / 100\<close> as it is, so it is not confined to the interval
  from 0 to 1.
\<close>

theorem gradient_stop_offsets:
  "(parseGradientStop token i n = Some s \<longrightarrow> isFinite (offset s))
   \<and> (parseGradientStop token i n = Some s \<and> \<not> hasExplicitOffset token
        \<longrightarrow> offset s = Num (real i / max (real n - 1) 1))
   \<and> (list_all (\<lambda>t. \<not> hasExplicitOffset (trim t)) arr
        \<longrightarrow> map offset (collectStops arr)
              = map (\<lambda>(j, t). Num (real j / max (real (length arr) - 1) 1))
                  (filter (\<lambda>(j, t). trim t \<noteq> []) (enumerate 0 arr))
            \<and> sorted_wrt numLe (map offset (collectStops arr))
            \<and> list_all (\<lambda>x. numLe (Num 0) x \<and> numLe x (Num 1)) (map offset (collectStops arr)))
   \<and> (parseLinearGradient v = Some g \<longrightarrow> list_all (\<lambda>s. isFinite (offset s)) (stops g))
   \<and> (parseLinearGradient v = Some g \<and> list_all (\<lambda>t. \<not> hasExplicitOffset (trim t)) (stopTokens v)
        \<longrightarrow> sorted_wrt numLe (map offset (stops g))
            \<and> list_all (\<lambda>x. numLe (Num 0) x \<and> numLe x (Num 1)) (map offset (stops g)))
   \<and> (parseGradientStop token i n = Some s \<and> hasExplicitOffset token
        \<and> parseFloat (last (splitStop [] token)) = Num p
        \<longrightarrow> offset s = Num (p / 100))"
proof (intro conjI impI)
  assume "parseGradientStop token i n = Some s"
  then show "isFinite (offset s)" by (rule parseGradientStop_offset_finite)
next
  assume a: "parseGradientStop token i n = Some s \<and> \<not> hasExplicitOffset token"
  then have "token \<noteq> []" using parseGradientStop_None [of token i n] by auto
  then show "offset s = Num (real i / max (real n - 1) 1)"
    using a parseGradientStop_even [of token i n] by (simp add: evenOffset_def)
next
  assume a: "list_all (\<lambda>t. \<not> hasExplicitOffset (trim t)) arr"
  note eq = collectStops_even [OF a]
  show "map offset (collectStops arr)
              = map (\<lambda>(j, t). Num (real j / max (real (length arr) - 1) 1))
                  (filter (\<lambda>(j, t). trim t \<noteq> []) (enumerate 0 arr))"
    using eq by (simp add: evenOffset_def)
  show "sorted_wrt numLe (map offset (collectStops arr))"
    unfolding eq by (rule enumerate_sorted)
  show "list_all (\<lambda>x. numLe (Num 0) x \<and> numLe x (Num 1)) (map offset (collectStops arr))"
    unfolding eq by (rule enumerate_range)
next
  assume "parseLinearGradient v = Some g"
  then show "list_all (\<lambda>s. isFinite (offset s)) (stops g)"
    using collectStops_finite [of "stopTokens v"] by (simp add: parseLinearGradient_stops)
next
  assume a: "parseLinearGradient v = Some g \<and> list_all (\<lambda>t. \<not> hasExplicitOffset (trim t)) (stopTokens v)"
  then have s: "stops g = collectStops (stopTokens v)" by (simp add: parseLinearGradient_stops)
  from a have b: "list_all (\<lambda>t. \<not> hasExplicitOffset (trim t)) (stopTokens v)" by simp
  note eq = collectStops_even [OF b]
  show "sorted_wrt numLe (map offset (stops g))"
    unfolding s eq by (rule enumerate_sorted)
  show "list_all (\<lambda>x. numLe (Num 0) x \<and> numLe x (Num 1)) (map offset (stops g))"
    unfolding s eq by (rule enumerate_range)
next
  assume "parseGradientStop token i n = Some s \<and> hasExplicitOffset token
        \<and> parseFloat (last (splitStop [] token)) = Num p"
  then show "offset s = Num (p / 100)"
    using parseGradientStop_explicit by blast
qed

text \<open>
  The theorem at three tokens without percentages, the second of four being blank in the
  other list, at the example gradient, and at a token with the percentage 150.
\<close>

theorem gradient_stop_offsets_witness:
  "map offset (collectStops [''red'', '' lime'', '' blue'']) = [Num 0, Num (1 / 2), Num 1]
   \<and> map offset (collectStops [''red'', '' '', '' lime'', '' blue'']) = [Num 0, Num (2 / 3), Num 1]
   \<and> stopTokens ''linear-gradient(45deg, red, blue)'' = [''red'', ''blue'']
   \<and> map offset (stops sampleGradient) = [Num 0, Num 1]
   \<and> parseGradientStop ''blue 150%'' 1 2 = Some \<lparr>color = ''blue'', opacity = Num 1, offset = Num (3 / 2)\<rparr>"
  using gradient_stop_offsets [of "''red''" 0 2 "\<lparr>color = ''red'', opacity = Num 1, offset = Num 0\<rparr>"
      "[''red'', '' lime'', '' blue'']" "''linear-gradient(45deg, red, blue)''" sampleGradient 0]
    gradient_stop_offsets [of "''blue 150%''" 1 2
      "\<lparr>color = ''blue'', opacity = Num 1, offset = Num (3 / 2)\<rparr>"
      "[''red'', '' '', '' lime'', '' blue'']" "''linear-gradient(45deg, red, blue)''" sampleGradient 150]
  by (simp add: token_eval gradient_eval hasExplicitOffset_def endsWith_def sampleGradient_def
        enumerate_eq_zip upt_rec numLe_Num)

text \<open>
  Explicit percentages below 0 and above 100 give offsets outside the interval from 0 to
  1: \<^verbatim>\<open>clampNumber\<close> replaces a value that is not finite and leaves every other value.
\<close>

theorem gradient_offset_out_of_range:
  "map offset (case parseLinearGradient ''linear-gradient(red -20%, blue 150%)'' of
                 Some g \<Rightarrow> stops g | None \<Rightarrow> [])
     = [Num (- (1 / 5)), Num (3 / 2)]
   \<and> \<not> numLe (Num 0) (Num (- (1 / 5))) \<and> \<not> numLe (Num (3 / 2)) (Num 1)"
  by (simp add: gradient_eval numLe_Num)

section \<open>Properties of the emitter\<close>

subsection \<open>Printed numbers\<close>

text \<open>A whole number that is not negative is printed as its decimal digits.\<close>

lemma formatNumber_nat: "formatNumber (Num (of_nat n)) = natToString n"
proof -
  have "\<lfloor>(real n + 1 / 2 ^ 52) * 1000 + 1 / 2\<rfloor> = int (1000 * n)"
    by (rule floor_unique) (simp_all add: algebra_simps)
  then show ?thesis
    by (simp add: formatNumber_def EPSILON_def Let_def)
qed

lemma formatNumber_numeral: "formatNumber (Num (numeral k)) = natToString (numeral k)"
  using formatNumber_nat [of "numeral k"] by simp

lemma formatNumber_zero: "formatNumber (Num 0) = ''0''"
  using formatNumber_nat [of 0] by (simp add: natToString.simps digitChar_def)

lemma formatNumber_one: "formatNumber (Num 1) = ''1''"
  using formatNumber_nat [of 1] by (simp add: natToString.simps digitChar_def)

lemmas print_eval = formatNumber_numeral formatNumber_zero formatNumber_one natToString.simps digitChar_def

subsection \<open>The markup of a box\<close>

text \<open>
  The emission of a box fails when the emission of its children does, and else it is the
  four parts of the markup with what the border gives between the start and the end of the
  path, followed by the children.
\<close>

lemma renderNode_box:
  "renderNode (BoxNode nb d kids) c =
     (case renderNodes kids (boxChildContext nb d c) of
        Inl err \<Rightarrow> Inl err
      | Inr (kc, c4) \<Rightarrow>
          Inr (boxOpening nb d c
                 @ boxPathStart (roundedRectPath (nodeX nb) (nodeY nb) (nodeWidth nb) (nodeHeight nb) (borderRadius d))
                     (fst (resolveFill (background d) c))
                 @ (if resolveStroke (borders d) = [] then [] else '' '' @ resolveStroke (borders d))
                 @ boxPathEnd nb d c @ kc @ ''</g>'',
               c4))"
  by (simp add: boxChildContext_def boxOpening_def boxPathStart_def boxPathEnd_def strictEq_def split_beta Let_def
        split: sum.splits)

lemmas box_eval = sampleBase_def sampleBox_def redBox_def emptyContext_def redBorders_def redSide_def
  lopsidedBorders_def defaultBorderSide_def roundedRectPath_def resolveFill_def resolveStroke_def
  resolveShadows_def strictEq_def mathMin3_def mathMin_def escapeAttribute_def replaceChar_def numSub_def
  boxChildContext_def boxOpening_def boxPathStart_def boxPathEnd_def Let_def

subsection \<open>Borders\<close>

lemma numLe_zero_notNaN: "numLe (Num 0) w \<Longrightarrow> w \<noteq> NaN"
  by (cases w) (simp_all add: numLe_def strictEq_def)

lemma numLe_zero_cases: "numLe (Num 0) w \<Longrightarrow> (\<not> strictEq w (Num 0)) = numGt w (Num 0)"
  by (cases w) (auto simp add: numLe_def strictEq_def numGt_def)

lemma numLe_zero_total: "w \<noteq> NaN \<Longrightarrow> \<not> numLe w (Num 0) \<Longrightarrow> numLe (Num 0) w"
  by (cases w) (auto simp add: numLe_def strictEq_def)

lemma isFinite_notNaN: "isFinite v \<Longrightarrow> v \<noteq> NaN"
  by (cases v) simp_all

lemma parseBorderSide_valid:
  "parseBorderSide style side = Some s \<Longrightarrow> numLe (Num 0) (sideWidth s) \<and> opacity s \<noteq> NaN"
proof -
  assume a: "parseBorderSide style side = Some s"
  let ?w = "parsePx (style (''border'' @ side @ ''Width'')) (Num 0)"
  have n: "?w \<noteq> NaN" by (rule parsePx_notNaN) simp
  have p: "opacity (parseColor (style (''border'' @ side @ ''Color''))) \<noteq> NaN"
    using parseColor_opacity_finite by (rule isFinite_notNaN)
  from a have w: "sideWidth s = ?w" "\<not> numLe ?w (Num 0)"
    and o: "opacity s = opacity (parseColor (style (''border'' @ side @ ''Color'')))"
    by (auto simp add: parseBorderSide_def Let_def split: if_splits)
  show ?thesis using n p w o numLe_zero_total [of ?w] by simp
qed

lemma orElse_valid:
  "numLe (Num 0) (sideWidth (orElse (parseBorderSide style side) defaultBorderSide))
   \<and> opacity (orElse (parseBorderSide style side) defaultBorderSide) \<noteq> NaN"
proof (cases "parseBorderSide style side")
  case None
  then show ?thesis by (simp add: orElse_def defaultBorderSide_def numLe_def strictEq_def)
next
  case (Some s)
  then show ?thesis using parseBorderSide_valid [OF Some] by (simp add: orElse_def)
qed

lemma parseBorders_valid:
  "parseBorders style = Some b \<Longrightarrow> numLe (Num 0) (sideWidth (topSide b)) \<and> opacity (topSide b) \<noteq> NaN"
proof -
  assume "parseBorders style = Some b"
  then have "topSide b = orElse (parseBorderSide style ''Top'') defaultBorderSide"
    by (auto simp add: parseBorders_def Let_def split: if_splits)
  then show ?thesis using orElse_valid [of style "''Top''"] by simp
qed

text \<open>
  The attribute that \<^verbatim>\<open>resolveStroke\<close> gives for a border set whose top side has a width
  that is not negative and an opacity that is a number.
\<close>

lemma resolveStroke_value:
  assumes "numLe (Num 0) (sideWidth (topSide b))" and "opacity (topSide b) \<noteq> NaN"
  shows "resolveStroke (Some b)
         = (if uniformBorder b \<and> numGt (sideWidth (topSide b)) (Num 0)
            then strokeAttribute (topSide b) else [])"
proof -
  have w: "sideWidth (topSide b) \<noteq> NaN"
    and z: "(\<not> strictEq (sideWidth (topSide b)) (Num 0)) = numGt (sideWidth (topSide b)) (Num 0)"
    using assms numLe_zero_notNaN numLe_zero_cases by blast+
  show ?thesis
    using w assms(2) z
    by (auto simp add: resolveStroke_def uniformBorder_def strokeAttribute_def Let_def strictEq_def)
qed

lemma strokeAttribute_nonempty: "strokeAttribute s \<noteq> []"
  by (simp add: strokeAttribute_def)

lemma box_parts_borders:
  "boxChildContext nb (d\<lparr>borders := x\<rparr>) c = boxChildContext nb d c"
  "boxOpening nb (d\<lparr>borders := x\<rparr>) c = boxOpening nb d c"
  "boxPathEnd nb (d\<lparr>borders := x\<rparr>) c = boxPathEnd nb d c"
  "borderRadius (d\<lparr>borders := x\<rparr>) = borderRadius d"
  "background (d\<lparr>borders := x\<rparr>) = background d"
  "borders (d\<lparr>borders := x\<rparr>) = x"
  by (simp_all add: boxChildContext_def boxOpening_def boxPathEnd_def ensureClipPath_def Let_def
        cong: if_cong)

text \<open>
  Claim C7. A box is emitted with a stroke exactly when it has a border set whose four
  sides have the same width, colour and opacity and whose common width is positive. The
  statement is for a border set whose top side has a width that is not negative and an
  opacity that is a number, as every border set that \<^verbatim>\<open>parseBorders\<close> returns has. The
  markup of the box is then its opening tag, the path element up to the fill attribute,
  the stroke attributes after a blank when the border is uniform and positive and nothing
  when it is not, the end of the path element, which holds no stroke, and the children; a
  box without a border set is emitted with nothing in that place. The attribute that
  \<^verbatim>\<open>resolveStroke\<close> gives is empty exactly when the border is not uniform or not positive,
  and in that case the box is emitted as the same box without a border set is.
\<close>

theorem box_stroke_uniform:
  "(numLe (Num 0) (sideWidth (topSide b)) \<and> opacity (topSide b) \<noteq> NaN \<and> borders d = Some b
      \<longrightarrow> renderNode (BoxNode nb d kids) c =
          (case renderNodes kids (boxChildContext nb d c) of
             Inl err \<Rightarrow> Inl err
           | Inr (kc, c4) \<Rightarrow>
               Inr (boxOpening nb d c
                      @ boxPathStart
                          (roundedRectPath (nodeX nb) (nodeY nb) (nodeWidth nb) (nodeHeight nb) (borderRadius d))
                          (fst (resolveFill (background d) c))
                      @ (if uniformBorder b \<and> numGt (sideWidth (topSide b)) (Num 0)
                         then '' '' @ strokeAttribute (topSide b) else [])
                      @ boxPathEnd nb d c @ kc @ ''</g>'',
                    c4)))
   \<and> (borders d = None
      \<longrightarrow> renderNode (BoxNode nb d kids) c =
          (case renderNodes kids (boxChildContext nb d c) of
             Inl err \<Rightarrow> Inl err
           | Inr (kc, c4) \<Rightarrow>
               Inr (boxOpening nb d c
                      @ boxPathStart
                          (roundedRectPath (nodeX nb) (nodeY nb) (nodeWidth nb) (nodeHeight nb) (borderRadius d))
                          (fst (resolveFill (background d) c))
                      @ boxPathEnd nb d c @ kc @ ''</g>'',
                    c4)))
   \<and> resolveStroke None = []
   \<and> (numLe (Num 0) (sideWidth (topSide b)) \<and> opacity (topSide b) \<noteq> NaN
      \<longrightarrow> (resolveStroke (Some b) \<noteq> []) = (uniformBorder b \<and> numGt (sideWidth (topSide b)) (Num 0)))
   \<and> (parseBorders style = Some b
      \<longrightarrow> numLe (Num 0) (sideWidth (topSide b)) \<and> opacity (topSide b) \<noteq> NaN)
   \<and> (resolveStroke (borders d) = []
      \<longrightarrow> renderNode (BoxNode nb d kids) c = renderNode (BoxNode nb (d\<lparr>borders := None\<rparr>) kids) c)"
proof (intro conjI impI)
  show none: "resolveStroke None = []" by (simp add: resolveStroke_def)
  {
    assume h: "numLe (Num 0) (sideWidth (topSide b)) \<and> opacity (topSide b) \<noteq> NaN \<and> borders d = Some b"
    then have rs: "resolveStroke (borders d)
               = (if uniformBorder b \<and> numGt (sideWidth (topSide b)) (Num 0)
                  then strokeAttribute (topSide b) else [])"
      using resolveStroke_value [of b] by simp
    show "renderNode (BoxNode nb d kids) c =
          (case renderNodes kids (boxChildContext nb d c) of
             Inl err \<Rightarrow> Inl err
           | Inr (kc, c4) \<Rightarrow>
               Inr (boxOpening nb d c
                      @ boxPathStart
                          (roundedRectPath (nodeX nb) (nodeY nb) (nodeWidth nb) (nodeHeight nb) (borderRadius d))
                          (fst (resolveFill (background d) c))
                      @ (if uniformBorder b \<and> numGt (sideWidth (topSide b)) (Num 0)
                         then '' '' @ strokeAttribute (topSide b) else [])
                      @ boxPathEnd nb d c @ kc @ ''</g>'',
                    c4))"
      unfolding renderNode_box rs
      by (cases "uniformBorder b"; cases "numGt (sideWidth (topSide b)) (Num 0)")
         (simp_all add: strokeAttribute_nonempty)
  }
  {
    assume "borders d = None"
    then show "renderNode (BoxNode nb d kids) c =
          (case renderNodes kids (boxChildContext nb d c) of
             Inl err \<Rightarrow> Inl err
           | Inr (kc, c4) \<Rightarrow>
               Inr (boxOpening nb d c
                      @ boxPathStart
                          (roundedRectPath (nodeX nb) (nodeY nb) (nodeWidth nb) (nodeHeight nb) (borderRadius d))
                          (fst (resolveFill (background d) c))
                      @ boxPathEnd nb d c @ kc @ ''</g>'',
                    c4))"
      using none unfolding renderNode_box
      by (cases "renderNodes kids (boxChildContext nb d c)") auto
  }
  {
    assume h: "numLe (Num 0) (sideWidth (topSide b)) \<and> opacity (topSide b) \<noteq> NaN"
    then show "(resolveStroke (Some b) \<noteq> []) = (uniformBorder b \<and> numGt (sideWidth (topSide b)) (Num 0))"
      using resolveStroke_value [of b] by (simp add: strokeAttribute_nonempty)
  }
  {
    assume "parseBorders style = Some b"
    then show "numLe (Num 0) (sideWidth (topSide b))" "opacity (topSide b) \<noteq> NaN"
      using parseBorders_valid by blast+
  }
  {
    assume "resolveStroke (borders d) = []"
    then show "renderNode (BoxNode nb d kids) c = renderNode (BoxNode nb (d\<lparr>borders := None\<rparr>) kids) c"
      using none unfolding renderNode_box box_parts_borders
      by (cases "renderNodes kids (boxChildContext nb d c)") auto
  }
qed

text \<open>
  The theorem at a box of 10 by 4 with the border set read from a style with a red border
  of 2px on every side, and at the same box when its left side has no border.
\<close>

lemmas border_eval = parseBorders_def parseBorderSide_def parsePx_def matchPxAt_def orElse_def
  redBorderStyle_def endsWith_def uniformBorder_def numLe_def numGt_def strokeAttribute_def
  clampNumber_def parseFloat_def parseDecimal_def splitSign_def isSpace_def isDigit_def digitsValue_def
  parseExponent_def toDouble_def isNaN_def toLowerCase_def toLowerChar_def

theorem box_stroke_uniform_witness:
  \<open>parseBorders redBorderStyle = Some redBorders
   \<and> renderNode (BoxNode sampleBase redBox []) emptyContext
       = Inr (''<g data-tag="div"><path d="M 2 0 H 8 Q 10 0 10 2 V 2 Q 10 4 8 4 H 2 Q 0 4 0 2 V 2 Q 0 0 2 0 Z" fill="transparent" stroke="#ff0000" stroke-width="2" shape-rendering="geometricPrecision" /></g>'',
              emptyContext)
   \<and> renderNode (BoxNode sampleBase sampleBox []) emptyContext
       = Inr (''<g data-tag="div"><path d="M 2 0 H 8 Q 10 0 10 2 V 2 Q 10 4 8 4 H 2 Q 0 4 0 2 V 2 Q 0 0 2 0 Z" fill="transparent" /></g>'',
              emptyContext)
   \<and> renderNode (BoxNode sampleBase (sampleBox\<lparr>borders := None\<rparr>) []) emptyContext
       = renderNode (BoxNode sampleBase sampleBox []) emptyContext\<close>
  using box_stroke_uniform [of redBorders redBox sampleBase "[]" emptyContext redBorderStyle]
    box_stroke_uniform [of lopsidedBorders sampleBox sampleBase "[]" emptyContext redBorderStyle]
    parseColor_rgb_plain [of "''rgb''" "''255''" "''0''" "''0''" "'', ''" "'', ''"]
  by (simp add: border_eval box_eval colour_shapes print_eval)

subsection \<open>Corner radii\<close>

lemma mathMin3_idem: "mathMin3 (mathMin3 r a b) a b = mathMin3 r a b"
  by (cases r; cases a; cases b) (auto simp add: mathMin3_def mathMin_def)

lemma roundedRectPath_clamped:
  "roundedRectPath x y width height (clampRadii width height radii) = roundedRectPath x y width height radii"
  by (simp add: roundedRectPath_def clampRadii_def clampedRadius_def mathMin3_idem)

lemma clampedRadius_Num:
  "clampedRadius (Num r) (Num w) (Num h) = Num (min r (min (w / 2) (h / 2)))"
  by (auto simp add: clampedRadius_def mathMin3_def mathMin_def)

lemma clampedRadius_bounds:
  "isFinite width \<Longrightarrow> isFinite height \<Longrightarrow> r \<noteq> NaN
   \<Longrightarrow> numLe (clampedRadius r width height) (numDiv width (Num 2))
       \<and> numLe (clampedRadius r width height) (numDiv height (Num 2))"
  by (cases width; cases height; cases r)
     (auto simp add: clampedRadius_def mathMin3_def mathMin_def numLe_def strictEq_def)

lemma clampedRadius_unchanged:
  "numLe r (numDiv width (Num 2)) \<Longrightarrow> numLe r (numDiv height (Num 2))
   \<Longrightarrow> clampedRadius r width height = r"
  by (cases width; cases height; cases r)
     (auto simp add: clampedRadius_def mathMin3_def mathMin_def numLe_def strictEq_def infOfSign_def
        split: if_splits)

lemma clampedRadius_sum:
  "isFinite width \<Longrightarrow> isFinite height \<Longrightarrow> r \<noteq> NaN \<Longrightarrow> r' \<noteq> NaN
   \<Longrightarrow> numLe (numAdd (clampedRadius r width height) (clampedRadius r' width height)) width
       \<and> numLe (numAdd (clampedRadius r width height) (clampedRadius r' width height)) height"
  by (cases width; cases height; cases r; cases r')
     (auto simp add: clampedRadius_def mathMin3_def mathMin_def numLe_def strictEq_def)

lemma roundedRectPath_roundedPath:
  "roundedRectPath x y width height radii
   = roundedPath x y width height
       (clampedRadius (topLeft radii) width height) (clampedRadius (topRight radii) width height)
       (clampedRadius (bottomRight radii) width height) (clampedRadius (bottomLeft radii) width height)"
  by (simp add: roundedRectPath_def roundedPath_def clampedRadius_def Let_def)

lemma parseRadiusValue_notNaN: "parseRadiusValue v \<noteq> NaN"
  by (simp add: parseRadiusValue_def parsePx_notNaN)

text \<open>
  Claim C8. The path of a box is the outline drawn with every declared corner radius
  replaced by the least of that radius, half the width and half the height; this is the
  path data of the path element in the markup of the box. On numbers
  that least value is \<open>min r (min (w / 2) (h / 2))\<close>. For a box with finite width and height
  and a radius that is a number, the radius drawn is at most half the width and at most
  half the height, whatever the width and height are, so two corners never take more than
  a whole side between them; a radius that is already within both halves is drawn as it
  is. The radii read from a style are numbers.
\<close>

theorem roundedRectPath_radius_clamp:
  "roundedRectPath x y width height radii
     = roundedPath x y width height
         (clampedRadius (topLeft radii) width height) (clampedRadius (topRight radii) width height)
         (clampedRadius (bottomRight radii) width height) (clampedRadius (bottomLeft radii) width height)
   \<and> renderNode (BoxNode nb d kids) c =
       (case renderNodes kids (boxChildContext nb d c) of
          Inl err \<Rightarrow> Inl err
        | Inr (kc, c4) \<Rightarrow>
            Inr (boxOpening nb d c
                   @ boxPathStart
                       (roundedPath (nodeX nb) (nodeY nb) (nodeWidth nb) (nodeHeight nb)
                          (clampedRadius (topLeft (borderRadius d)) (nodeWidth nb) (nodeHeight nb))
                          (clampedRadius (topRight (borderRadius d)) (nodeWidth nb) (nodeHeight nb))
                          (clampedRadius (bottomRight (borderRadius d)) (nodeWidth nb) (nodeHeight nb))
                          (clampedRadius (bottomLeft (borderRadius d)) (nodeWidth nb) (nodeHeight nb)))
                       (fst (resolveFill (background d) c))
                   @ (if resolveStroke (borders d) = [] then [] else '' '' @ resolveStroke (borders d))
                   @ boxPathEnd nb d c @ kc @ ''</g>'',
                 c4))
   \<and> roundedRectPath x y width height radii = roundedRectPath x y width height (clampRadii width height radii)
   \<and> (clampRadii width height radii = clampRadii width height radii'
      \<longrightarrow> roundedRectPath x y width height radii = roundedRectPath x y width height radii')
   \<and> clampedRadius (Num a) (Num w) (Num h) = Num (min a (min (w / 2) (h / 2)))
   \<and> (isFinite width \<and> isFinite height \<and> r \<noteq> NaN
      \<longrightarrow> numLe (clampedRadius r width height) (numDiv width (Num 2))
          \<and> numLe (clampedRadius r width height) (numDiv height (Num 2)))
   \<and> (isFinite width \<and> isFinite height \<and> r \<noteq> NaN \<and> r' \<noteq> NaN
      \<longrightarrow> numLe (numAdd (clampedRadius r width height) (clampedRadius r' width height)) width
          \<and> numLe (numAdd (clampedRadius r width height) (clampedRadius r' width height)) height)
   \<and> (numLe r (numDiv width (Num 2)) \<and> numLe r (numDiv height (Num 2))
      \<longrightarrow> clampedRadius r width height = r)
   \<and> topLeft (parseBorderRadius style) \<noteq> NaN \<and> topRight (parseBorderRadius style) \<noteq> NaN
   \<and> bottomRight (parseBorderRadius style) \<noteq> NaN \<and> bottomLeft (parseBorderRadius style) \<noteq> NaN"
proof (intro conjI impI)
  show "roundedRectPath x y width height radii
     = roundedPath x y width height
         (clampedRadius (topLeft radii) width height) (clampedRadius (topRight radii) width height)
         (clampedRadius (bottomRight radii) width height) (clampedRadius (bottomLeft radii) width height)"
    by (rule roundedRectPath_roundedPath)
  show "renderNode (BoxNode nb d kids) c =
       (case renderNodes kids (boxChildContext nb d c) of
          Inl err \<Rightarrow> Inl err
        | Inr (kc, c4) \<Rightarrow>
            Inr (boxOpening nb d c
                   @ boxPathStart
                       (roundedPath (nodeX nb) (nodeY nb) (nodeWidth nb) (nodeHeight nb)
                          (clampedRadius (topLeft (borderRadius d)) (nodeWidth nb) (nodeHeight nb))
                          (clampedRadius (topRight (borderRadius d)) (nodeWidth nb) (nodeHeight nb))
                          (clampedRadius (bottomRight (borderRadius d)) (nodeWidth nb) (nodeHeight nb))
                          (clampedRadius (bottomLeft (borderRadius d)) (nodeWidth nb) (nodeHeight nb)))
                       (fst (resolveFill (background d) c))
                   @ (if resolveStroke (borders d) = [] then [] else '' '' @ resolveStroke (borders d))
                   @ boxPathEnd nb d c @ kc @ ''</g>'',
                 c4))"
    unfolding renderNode_box roundedRectPath_roundedPath by (rule refl)
  show "roundedRectPath x y width height radii = roundedRectPath x y width height (clampRadii width height radii)"
    by (simp add: roundedRectPath_clamped)
  show "clampedRadius (Num a) (Num w) (Num h) = Num (min a (min (w / 2) (h / 2)))"
    by (rule clampedRadius_Num)
  show "topLeft (parseBorderRadius style) \<noteq> NaN" "topRight (parseBorderRadius style) \<noteq> NaN"
    "bottomRight (parseBorderRadius style) \<noteq> NaN" "bottomLeft (parseBorderRadius style) \<noteq> NaN"
    by (simp_all add: parseBorderRadius_def parseRadiusValue_notNaN)
  {
    assume "clampRadii width height radii = clampRadii width height radii'"
    then show "roundedRectPath x y width height radii = roundedRectPath x y width height radii'"
      using roundedRectPath_clamped [of x y width height radii]
        roundedRectPath_clamped [of x y width height radii'] by simp
  }
  {
    assume "isFinite width \<and> isFinite height \<and> r \<noteq> NaN"
    then show "numLe (clampedRadius r width height) (numDiv width (Num 2))"
      "numLe (clampedRadius r width height) (numDiv height (Num 2))"
      using clampedRadius_bounds by blast+
  }
  {
    assume "isFinite width \<and> isFinite height \<and> r \<noteq> NaN \<and> r' \<noteq> NaN"
    then show "numLe (numAdd (clampedRadius r width height) (clampedRadius r' width height)) width"
      "numLe (numAdd (clampedRadius r width height) (clampedRadius r' width height)) height"
      using clampedRadius_sum by blast+
  }
  {
    assume "numLe r (numDiv width (Num 2)) \<and> numLe r (numDiv height (Num 2))"
    then show "clampedRadius r width height = r"
      using clampedRadius_unchanged by blast
  }
qed

text \<open>
  The theorem at a box of 10 by 4: a radius of 50 is drawn as 2, a radius of 1 is drawn as
  it is, radii of 50 and of 2 on every corner give the same path, and the path of the box
  with radii of 50 is the outline with radii of 2.
\<close>

theorem roundedRectPath_radius_clamp_witness:
  "clampedRadius (Num 50) (Num 10) (Num 4) = Num 2
   \<and> clampedRadius (Num 1) (Num 10) (Num 4) = Num 1
   \<and> roundedRectPath (Num 0) (Num 0) (Num 10) (Num 4) (borderRadius sampleBox)
     = roundedRectPath (Num 0) (Num 0) (Num 10) (Num 4)
         \<lparr>topLeft = Num 2, topRight = Num 2, bottomRight = Num 2, bottomLeft = Num 2\<rparr>
   \<and> roundedRectPath (Num 0) (Num 0) (Num 10) (Num 4) (borderRadius sampleBox)
     = ''M 2 0 H 8 Q 10 0 10 2 V 2 Q 10 4 8 4 H 2 Q 0 4 0 2 V 2 Q 0 0 2 0 Z''"
  using roundedRectPath_radius_clamp [of "Num 0" "Num 0" "Num 10" "Num 4" "borderRadius sampleBox"
      sampleBase "sampleBox\<lparr>borders := None\<rparr>" "[]" emptyContext
      "\<lparr>topLeft = Num 2, topRight = Num 2, bottomRight = Num 2, bottomLeft = Num 2\<rparr>"
      50 10 4 "Num 50" "Num 1" plainStyle]
    roundedRectPath_radius_clamp [of "Num 0" "Num 0" "Num 10" "Num 4" "borderRadius sampleBox"
      sampleBase "sampleBox\<lparr>borders := None\<rparr>" "[]" emptyContext
      "\<lparr>topLeft = Num 2, topRight = Num 2, bottomRight = Num 2, bottomLeft = Num 2\<rparr>"
      2 10 4 "Num 1" "Num 1" plainStyle]
  by (simp add: clampRadii_def sampleBox_def numLe_Num roundedPath_def print_eval numSub_def
        del: renderNode.simps)

subsection \<open>Escaping\<close>

lemma replaceChar_Nil: "replaceChar c r [] = []"
  by (simp add: replaceChar_def)

lemma replaceChar_Cons: "replaceChar c r (d # s) = (if d = c then r else [d]) @ replaceChar c r s"
  by (simp add: replaceChar_def)

lemma replaceChar_append: "replaceChar c r (s @ t) = replaceChar c r s @ replaceChar c r t"
  by (simp add: replaceChar_def)

text \<open>
  Where the emitters escape. The markup of a text node ends with its class, when it has
  one, its tag name and its content, and holds the font family before them; the markup of
  an icon node holds its class, its tag name and its icon name; the markup of a box holds
  its class and its tag name on the group and the class again on the path.
\<close>

lemma renderTextNode_escapes:
  \<open>\<exists>pre mid. renderTextNode b t =
     pre @ '' font-family="'' @ escapeAttribute (fontFamily t) @ ''"'' @ mid
       @ (if nodeClassName b = [] then [] else '' class="'' @ escapeAttribute (nodeClassName b) @ ''"'')
       @ '' data-tag="'' @ escapeAttribute (nodeTagName b) @ ''">'' @ escapeText (content t) @ ''</text>''\<close>
proof -
  let ?pre = \<open>''<text x="'' @ formatNumber (nodeX b) @ ''" y="'' @ formatNumber (nodeY b) @ ''"''\<close>
  let ?mid = \<open>'' font-size="'' @ formatNumber (fontSize t) @ ''" '' @ normalizeFontWeight (fontWeight t)
       @ '' font-style="'' @ escapeAttribute (fontStyle t)
       @ ''" text-anchor="'' @ anchorText (textAnchor t)
       @ ''" dominant-baseline="alphabetic" xml:space="preserve" fill="'' @ color t @ ''"''
       @ (if \<not> strictEq (numMul (nodeOpacity b) (opacity t)) (Num 1)
          then '' fill-opacity="'' @ formatNumber (numMul (nodeOpacity b) (opacity t)) @ ''"'' else [])
       @ (if truthy (letterSpacing t)
          then '' letter-spacing="'' @ formatNumber (letterSpacing t) @ ''"'' else [])\<close>
  have \<open>renderTextNode b t =
     ?pre @ '' font-family="'' @ escapeAttribute (fontFamily t) @ ''"'' @ ?mid
       @ (if nodeClassName b = [] then [] else '' class="'' @ escapeAttribute (nodeClassName b) @ ''"'')
       @ '' data-tag="'' @ escapeAttribute (nodeTagName b) @ ''">'' @ escapeText (content t) @ ''</text>''\<close>
    by (simp add: renderTextNode_def Let_def)
  then show ?thesis by blast
qed

lemma renderIconNode_escapes:
  assumes \<open>renderIconNode b i = Inr out\<close>
  shows \<open>\<exists>pre post. out =
     pre @ (if nodeClassName b = [] then [] else '' class="'' @ escapeAttribute (nodeClassName b) @ ''"'')
       @ '' data-tag="'' @ escapeAttribute (nodeTagName b)
       @ ''" data-icon="'' @ escapeAttribute (iconName i) @ ''"><path d="'' @ post\<close>
proof -
  obtain box where box: "viewBox i = Some box"
    using assms by (cases "viewBox i") (simp_all add: renderIconNode_def)
  let ?scale = "mathMin (numDiv (nodeWidth b) (viewBoxPart box 2)) (numDiv (nodeHeight b) (viewBoxPart box 3))"
  let ?pre = \<open>''<g transform="translate(''
       @ formatNumber (numAdd (nodeX b)
           (numDiv (numSub (nodeWidth b) (numMul (viewBoxPart box 2) ?scale)) (Num 2)))
       @ '','' @ formatNumber (numAdd (nodeY b)
           (numDiv (numSub (nodeHeight b) (numMul (viewBoxPart box 3) ?scale)) (Num 2)))
       @ '') scale('' @ formatNumber ?scale @ '')"''
       @ (if \<not> strictEq (nodeOpacity b) (Num 1)
          then '' opacity="'' @ formatNumber (nodeOpacity b) @ ''"'' else [])\<close>
  let ?post = \<open>(case svgPath i of Some path \<Rightarrow> path | None \<Rightarrow> ''undefined'')
       @ ''" fill="'' @ iconColor i @ ''"/></g>''\<close>
  have \<open>out =
     ?pre @ (if nodeClassName b = [] then [] else '' class="'' @ escapeAttribute (nodeClassName b) @ ''"'')
       @ '' data-tag="'' @ escapeAttribute (nodeTagName b)
       @ ''" data-icon="'' @ escapeAttribute (iconName i) @ ''"><path d="'' @ ?post\<close>
    using assms box by (auto simp add: renderIconNode_def Let_def)
  then show ?thesis by blast
qed

lemma renderNode_box_escapes:
  assumes \<open>renderNode (BoxNode nb d kids) c = Inr (out, c')\<close>
  shows \<open>\<exists>pre mid post. out =
     pre @ (if nodeClassName nb = [] then [] else '' class="'' @ escapeAttribute (nodeClassName nb) @ ''"'')
       @ '' data-tag="'' @ escapeAttribute (nodeTagName nb) @ ''"'' @ mid
       @ (if nodeClassName nb = [] then [] else '' class="'' @ escapeAttribute (nodeClassName nb) @ ''"'')
       @ '' />'' @ post\<close>
proof -
  obtain kc where kc: "renderNodes kids (boxChildContext nb d c) = Inr (kc, c')"
    using assms unfolding renderNode_box
    by (cases "renderNodes kids (boxChildContext nb d c)") auto
  let ?pre = \<open>''<g'' @ (if nodeOpacity nb = Num 1 then []
                        else '' opacity="'' @ formatNumber (nodeOpacity nb) @ ''"'')\<close>
  let ?mid = \<open>(if overflowHidden d
          then '' clip-path="url(#''
                 @ fst (ensureClipPath nb d
                          (snd (resolveShadows (shadows d) (snd (resolveFill (background d) c)))))
                 @ '')"''
          else [])
       @ ''>''
       @ boxPathStart (roundedRectPath (nodeX nb) (nodeY nb) (nodeWidth nb) (nodeHeight nb) (borderRadius d))
           (fst (resolveFill (background d) c))
       @ (if resolveStroke (borders d) = [] then [] else '' '' @ resolveStroke (borders d))
       @ (case fst (resolveShadows (shadows d) (snd (resolveFill (background d) c))) of
            Some f \<Rightarrow> '' filter="url(#'' @ f @ '')"'' | None \<Rightarrow> [])\<close>
  have \<open>out =
     ?pre @ (if nodeClassName nb = [] then [] else '' class="'' @ escapeAttribute (nodeClassName nb) @ ''"'')
       @ '' data-tag="'' @ escapeAttribute (nodeTagName nb) @ ''"'' @ ?mid
       @ (if nodeClassName nb = [] then [] else '' class="'' @ escapeAttribute (nodeClassName nb) @ ''"'')
       @ '' />'' @ (kc @ ''</g>'')\<close>
    using assms kc unfolding renderNode_box by (simp add: boxOpening_def boxPathEnd_def)
  then show ?thesis by blast
qed

text \<open>
  Claim C9, as the code has it. In the emitted markup the content of a text node is
  written through \<^verbatim>\<open>escapeText\<close>, which replaces exactly the three characters \<^verbatim>\<open>&\<close>, \<^verbatim>\<open><\<close>
  and \<^verbatim>\<open>>\<close> by their entities and leaves every other character as it is. Class names,
  the font family, tag names and icon names are written through \<^verbatim>\<open>escapeAttribute\<close>, which
  replaces exactly the two characters \<^verbatim>\<open>&\<close> and the double quote; the characters \<^verbatim>\<open><\<close> and
  \<^verbatim>\<open>>\<close> pass through it unchanged.
\<close>

theorem escape_characters:
  \<open>escapeText v =
     concat (map (\<lambda>c. if c = CHR ''&'' then ''&amp;'' else if c = CHR ''<'' then ''&lt;''
                        else if c = CHR ''>'' then ''&gt;'' else [c]) v)
   \<and> escapeAttribute v =
     concat (map (\<lambda>c. if c = CHR ''&'' then ''&amp;'' else if c = CHR 0x22 then ''&quot;''
                        else [c]) v)
   \<and> (\<exists>pre mid. renderTextNode b t =
        pre @ '' font-family="'' @ escapeAttribute (fontFamily t) @ ''"'' @ mid
          @ (if nodeClassName b = [] then [] else '' class="'' @ escapeAttribute (nodeClassName b) @ ''"'')
          @ '' data-tag="'' @ escapeAttribute (nodeTagName b) @ ''">'' @ escapeText (content t) @ ''</text>'')
   \<and> (renderIconNode b i = Inr iconMarkup
      \<longrightarrow> (\<exists>pre post. iconMarkup =
            pre @ (if nodeClassName b = [] then [] else '' class="'' @ escapeAttribute (nodeClassName b) @ ''"'')
              @ '' data-tag="'' @ escapeAttribute (nodeTagName b)
              @ ''" data-icon="'' @ escapeAttribute (iconName i) @ ''"><path d="'' @ post))
   \<and> (renderNode (BoxNode b d kids) c = Inr (boxMarkup, c')
      \<longrightarrow> (\<exists>pre mid post. boxMarkup =
            pre @ (if nodeClassName b = [] then [] else '' class="'' @ escapeAttribute (nodeClassName b) @ ''"'')
              @ '' data-tag="'' @ escapeAttribute (nodeTagName b) @ ''"'' @ mid
              @ (if nodeClassName b = [] then [] else '' class="'' @ escapeAttribute (nodeClassName b) @ ''"'')
              @ '' />'' @ post))\<close>
proof (intro conjI impI)
  show "escapeText v =
     concat (map (\<lambda>c. if c = CHR ''&'' then ''&amp;'' else if c = CHR ''<'' then ''&lt;''
                        else if c = CHR ''>'' then ''&gt;'' else [c]) v)"
    by (induction v)
       (simp_all add: escapeText_def replaceChar_Cons replaceChar_Nil replaceChar_append)
  show "escapeAttribute v =
     concat (map (\<lambda>c. if c = CHR ''&'' then ''&amp;'' else if c = CHR 0x22 then ''&quot;''
                        else [c]) v)"
    by (induction v)
       (simp_all add: escapeAttribute_def replaceChar_Cons replaceChar_Nil replaceChar_append)
  show \<open>\<exists>pre mid. renderTextNode b t =
        pre @ '' font-family="'' @ escapeAttribute (fontFamily t) @ ''"'' @ mid
          @ (if nodeClassName b = [] then [] else '' class="'' @ escapeAttribute (nodeClassName b) @ ''"'')
          @ '' data-tag="'' @ escapeAttribute (nodeTagName b) @ ''">'' @ escapeText (content t) @ ''</text>''\<close>
    by (rule renderTextNode_escapes)
  {
    assume "renderIconNode b i = Inr iconMarkup"
    then show \<open>\<exists>pre post. iconMarkup =
            pre @ (if nodeClassName b = [] then [] else '' class="'' @ escapeAttribute (nodeClassName b) @ ''"'')
              @ '' data-tag="'' @ escapeAttribute (nodeTagName b)
              @ ''" data-icon="'' @ escapeAttribute (iconName i) @ ''"><path d="'' @ post\<close>
      by (rule renderIconNode_escapes)
  }
  {
    assume "renderNode (BoxNode b d kids) c = Inr (boxMarkup, c')"
    then show \<open>\<exists>pre mid post. boxMarkup =
            pre @ (if nodeClassName b = [] then [] else '' class="'' @ escapeAttribute (nodeClassName b) @ ''"'')
              @ '' data-tag="'' @ escapeAttribute (nodeTagName b) @ ''"'' @ mid
              @ (if nodeClassName b = [] then [] else '' class="'' @ escapeAttribute (nodeClassName b) @ ''"'')
              @ '' />'' @ post\<close>
      by (rule renderNode_box_escapes)
  }
qed

text \<open>
  The theorem at a text node, an icon node and a box whose class is \<^verbatim>\<open>a<"&>\<close>, with the
  content \<^verbatim>\<open>x<"&>\<close>, the font family \<^verbatim>\<open>F&<\<close> and the icon name \<^verbatim>\<open>i<"\<close>.
\<close>

lemmas emit_eval = markedBase_def markedText_def markedIcon_def renderTextNode_def renderIconNode_def
  normalizeFontWeight_def anchorText_def truthy_def escapeText_def viewBoxPart_def toNumber_def trim_def
  isSpace_def toLowerCase_def toLowerChar_def prefixedLiteral_def parseDecimal_def splitSign_def isDigit_def
  digitsValue_def parseExponent_def toDouble_def startsWith_def

theorem escape_characters_witness:
  \<open>renderTextNode markedBase markedText
     = ''<text x="1" y="2" font-family="F&amp;<" font-size="12" font-weight="400" font-style="normal" text-anchor="start" dominant-baseline="alphabetic" xml:space="preserve" fill="#000000" class="a<&quot;&amp;>" data-tag="span">x&lt;"&amp;&gt;</text>''
   \<and> renderIconNode markedBase markedIcon
     = Inr ''<g transform="translate(1,2) scale(1)" class="a<&quot;&amp;>" data-tag="span" data-icon="i<&quot;"><path d="M0 0" fill="#000000"/></g>''
   \<and> renderNode (BoxNode markedBase (sampleBox\<lparr>borders := None\<rparr>) []) emptyContext
     = Inr (''<g class="a<&quot;&amp;>" data-tag="span"><path d="M 13 2 H 13 Q 25 2 25 14 V 14 Q 25 26 13 26 H 13 Q 1 26 1 14 V 14 Q 1 2 13 2 Z" fill="transparent" class="a<&quot;&amp;>" /></g>'',
            emptyContext)\<close>
  using escape_characters [of \<open>[CHR ''x'', CHR ''<'', CHR 0x22, CHR ''&'', CHR ''>'']\<close> markedBase markedText markedIcon
      \<open>''<g transform="translate(1,2) scale(1)" class="a<&quot;&amp;>" data-tag="span" data-icon="i<&quot;"><path d="M0 0" fill="#000000"/></g>''\<close>
      \<open>sampleBox\<lparr>borders := None\<rparr>\<close> "[]" emptyContext
      \<open>''<g class="a<&quot;&amp;>" data-tag="span"><path d="M 13 2 H 13 Q 25 2 25 14 V 14 Q 25 26 13 26 H 13 Q 1 26 1 14 V 14 Q 1 2 13 2 Z" fill="transparent" class="a<&quot;&amp;>" /></g>''\<close>
      emptyContext]
  by (simp add: emit_eval box_eval print_eval)

text \<open>
  Claim C9, as the specification states it, fails: an attribute value keeps its \<^verbatim>\<open><\<close>
  and \<^verbatim>\<open>>\<close>, here the class of a box in its markup.
\<close>

theorem escapeAttribute_keeps_angle_brackets:
  \<open>escapeAttribute ''x<y>z'' = ''x<y>z''
   \<and> renderNode (BoxNode (sampleBase\<lparr>nodeClassName := ''x<y>z''\<rparr>) (sampleBox\<lparr>borders := None\<rparr>) []) emptyContext
     = Inr (''<g class="x<y>z" data-tag="div"><path d="M 2 0 H 8 Q 10 0 10 2 V 2 Q 10 4 8 4 H 2 Q 0 4 0 2 V 2 Q 0 0 2 0 Z" fill="transparent" class="x<y>z" /></g>'',
            emptyContext)\<close>
  by (simp add: box_eval print_eval)

subsection \<open>Node identifiers\<close>

text \<open>No emitter reads the identifier of a node.\<close>

lemma renderNodes_map_cong:
  "(\<And>n c. n \<in> set ns \<Longrightarrow> renderNode (f n) c = renderNode n c)
   \<Longrightarrow> renderNodes (map f ns) c = renderNodes ns c"
proof (induction ns arbitrary: c)
  case Nil
  show ?case by simp
next
  case (Cons n ns)
  have h: "renderNode (f n) c = renderNode n c" using Cons.prems by simp
  have t: "\<And>c. renderNodes (map f ns) c = renderNodes ns c" using Cons by simp
  show ?case by (cases "renderNode n c") (auto simp add: h t)
qed

lemma box_parts_nodeId:
  "boxChildContext (b\<lparr>nodeId := v\<rparr>) d c = boxChildContext b d c"
  "boxOpening (b\<lparr>nodeId := v\<rparr>) d c = boxOpening b d c"
  "boxPathEnd (b\<lparr>nodeId := v\<rparr>) d c = boxPathEnd b d c"
  "nodeX (b\<lparr>nodeId := v\<rparr>) = nodeX b" "nodeY (b\<lparr>nodeId := v\<rparr>) = nodeY b"
  "nodeWidth (b\<lparr>nodeId := v\<rparr>) = nodeWidth b" "nodeHeight (b\<lparr>nodeId := v\<rparr>) = nodeHeight b"
  by (simp_all add: boxChildContext_def boxOpening_def boxPathEnd_def ensureClipPath_def Let_def
        cong: if_cong)

lemma renderTextNode_nodeId: "renderTextNode (b\<lparr>nodeId := v\<rparr>) t = renderTextNode b t"
  by (simp add: renderTextNode_def)

lemma renderIconNode_nodeId: "renderIconNode (b\<lparr>nodeId := v\<rparr>) i = renderIconNode b i"
  by (cases "viewBox i") (simp_all add: renderIconNode_def)

lemma renderNode_stripIds: "renderNode (stripIds n) c = renderNode n c"
proof (induction n arbitrary: c)
  case (BoxNode b d kids)
  have kidsEq: "\<And>c. renderNodes (map stripIds kids) c = renderNodes kids c"
    by (rule renderNodes_map_cong) (simp add: BoxNode.IH)
  show ?case
    unfolding stripIds.simps renderNode_box box_parts_nodeId kidsEq by (rule refl)
next
  case (TextNode b t)
  show ?case by (simp add: renderTextNode_nodeId)
next
  case (IconNode b i)
  show ?case by (simp add: renderIconNode_nodeId)
qed

section \<open>Properties of the snapshotter\<close>

subsection \<open>The cases of the traversal\<close>

lemma createNodeFromElement_skipped:
  "strictEq (rectWidth (boundingRect e)) (Num 0) \<or> strictEq (rectHeight (boundingRect e)) (Num 0)
     \<or> (\<not> allowHidden \<and> \<not> isRenderable (computedStyle e))
   \<Longrightarrow> createNodeFromElement (Element e kids) rootRect allowHidden counter = (None, counter)"
  by auto

lemma createNodeFromElement_icon:
  "\<not> (strictEq (rectWidth (boundingRect e)) (Num 0) \<or> strictEq (rectHeight (boundingRect e)) (Num 0)
     \<or> (\<not> allowHidden \<and> \<not> isRenderable (computedStyle e)))
   \<Longrightarrow> classListContains (className e) ''material-symbols-outlined''
   \<Longrightarrow> createNodeFromElement (Element e kids) rootRect allowHidden counter
       = createIconNode (Element e kids) rootRect counter"
  by auto

lemma createNodeFromElement_box_captured:
  "\<not> (strictEq (rectWidth (boundingRect e)) (Num 0) \<or> strictEq (rectHeight (boundingRect e)) (Num 0)
     \<or> (\<not> allowHidden \<and> \<not> isRenderable (computedStyle e)))
   \<Longrightarrow> \<not> classListContains (className e) ''material-symbols-outlined''
   \<Longrightarrow> fst (createNodeFromElement (Element e kids) rootRect allowHidden counter) \<noteq> None"
  by (simp add: split_beta Let_def)

lemma createNodeFromElement_box:
  "\<not> (strictEq (rectWidth (boundingRect e)) (Num 0) \<or> strictEq (rectHeight (boundingRect e)) (Num 0)
     \<or> (\<not> allowHidden \<and> \<not> isRenderable (computedStyle e)))
   \<Longrightarrow> \<not> classListContains (className e) ''material-symbols-outlined''
   \<Longrightarrow> map_option stripIds (fst (createNodeFromElement (Element e kids) rootRect allowHidden counter))
       = Some (BoxNode
               \<lparr>nodeId = [],
                nodeTagName = toLowerCase (tagName e),
                nodeX = numSub (rectLeft (boundingRect e)) (rectLeft rootRect),
                nodeY = numSub (rectTop (boundingRect e)) (rectTop rootRect),
                nodeWidth = rectWidth (boundingRect e),
                nodeHeight = rectHeight (boundingRect e),
                nodeOpacity = clampNumber (parseFloat (computedStyle e ''opacity'')) (Num 1),
                nodeClassName = className e\<rparr>
               \<lparr>background = parseFill (computedStyle e),
                borderRadius = parseBorderRadius (computedStyle e),
                borders = parseBorders (computedStyle e),
                shadows = parseBoxShadows (computedStyle e),
                overflowHidden = (computedStyle e ''overflow'' = ''hidden''
                                  \<or> computedStyle e ''overflowX'' = ''hidden''
                                  \<or> computedStyle e ''overflowY'' = ''hidden'')\<rparr>
               (map stripIds (fst (collectTextNodes e kids rootRect (if elementId e \<noteq> [] then counter else counter + 1)))
                @ map stripIds (fst (createChildNodes kids rootRect allowHidden
                    (snd (collectTextNodes e kids rootRect (if elementId e \<noteq> [] then counter else counter + 1)))))))"
  by (simp add: split_beta Let_def)

lemma createChildNodes_ignored:
  "\<not> isHTMLElement (elementInfo child) \<or> tagName (elementInfo child) \<in> set IGNORED_TAGS
   \<Longrightarrow> createChildNodes (ElementChild child # rest) rootRect allowHidden counter
       = createChildNodes rest rootRect allowHidden counter"
  by auto

lemma createChildNodes_visited:
  "\<not> (\<not> isHTMLElement (elementInfo child) \<or> tagName (elementInfo child) \<in> set IGNORED_TAGS)
   \<Longrightarrow> fst (createChildNodes (ElementChild child # rest) rootRect allowHidden counter)
       = (case fst (createNodeFromElement child rootRect allowHidden counter) of
            Some n \<Rightarrow> [n] | None \<Rightarrow> [])
         @ fst (createChildNodes rest rootRect allowHidden
                  (snd (createNodeFromElement child rootRect allowHidden counter)))"
  by (simp add: split_beta Let_def)

lemma createIconNode_None:
  "(fst (createIconNode (Element e kids) rootRect counter) = None)
   = (lookupIcon (trim (textContent (Element e kids))) = None
      \<or> strictEq (rectWidth (boundingRect e)) (Num 0) \<or> strictEq (rectHeight (boundingRect e)) (Num 0))"
  by (simp add: createIconNode_def Let_def split: option.splits prod.splits)

lemma lower_div: "char_of (100 :: nat) = CHR ''d''" "char_of (105 :: nat) = CHR ''i''"
  "char_of (118 :: nat) = CHR ''v''"
  by code_simp+


lemmas snapshot_eval = squareRect_def zeroRect_def hiddenStyle_def plainStyle_def hiddenChildInfo_def
  hiddenChild_def plainRootInfo_def rootWithHiddenChild_def emptyRootInfo_def emptyRoot_def
  unknownIconRoot_def inheritedIconRoot_def anonymousRoot_def noOptions_def
  strictEq_def isRenderable_def classListContains_def isAsciiSpace_def IGNORED_TAGS_def
  parseFill_def parseBorderRadius_def parseRadiusValue_def parseBorders_def parseBorderSide_def parsePx_def
  parseBoxShadows_def clampNumber_def parseFloat_def parseDecimal_def splitSign_def isSpace_def isDigit_def
  digitsValue_def parseExponent_def toDouble_def isNaN_def numLe_def numGt_def toLowerCase_def toLowerChar_def
  Let_def

subsection \<open>Skipped elements\<close>




subsection \<open>Failures of the entry point\<close>

lemma createNodeFromElement_root_None:
  "(fst (createNodeFromElement (Element e kids) rootRect True counter) = None)
   = (strictEq (rectWidth (boundingRect e)) (Num 0) \<or> strictEq (rectHeight (boundingRect e)) (Num 0)
      \<or> (classListContains (className e) ''material-symbols-outlined''
          \<and> fst (createIconNode (Element e kids) rootRect counter) = None))"
proof (cases "strictEq (rectWidth (boundingRect e)) (Num 0) \<or> strictEq (rectHeight (boundingRect e)) (Num 0)")
  case True
  then show ?thesis using createNodeFromElement_skipped [of e True kids rootRect counter] by auto
next
  case nz: False
  show ?thesis
  proof (cases "classListContains (className e) ''material-symbols-outlined''")
    case True
    show ?thesis
      using nz True createNodeFromElement_icon [of e True kids rootRect counter] by auto
  next
    case False
    show ?thesis
      using nz False createNodeFromElement_box_captured [of e True kids rootRect counter] by auto
  qed
qed

text \<open>
  The result of the entry point. It throws one of its own three errors exactly when the
  root handle is missing, when the measured width or height of the root is zero, or when
  the traversal gives no node for the root; when the traversal gives a node, the result is
  the exception thrown while the tree is emitted, if there is one, and a document
  otherwise.
\<close>

lemma htmlToSvg_result:
  "fst (htmlToSvg rootElement options counter) =
     (case rootElement of
        None \<Rightarrow> Inl (Error ''A root element is required to generate SVG.'')
      | Some rootEl \<Rightarrow>
          if strictEq (rectWidth (boundingRect (elementInfo rootEl))) (Num 0)
             \<or> strictEq (rectHeight (boundingRect (elementInfo rootEl))) (Num 0)
          then Inl (Error ''Root element has no measurable layout.'')
          else
            (case fst (createNodeFromElement rootEl (boundingRect (elementInfo rootEl)) True counter) of
               None \<Rightarrow> Inl (Error ''Unable to capture layout from the provided HTML.'')
             | Some simpleTree \<Rightarrow>
                 (case renderNode simpleTree \<lparr>defs = [], gradientIndex = 0, filterIndex = 0\<rparr> of
                    Inl err \<Rightarrow> Inl err
                  | Inr r \<Rightarrow> Inr (projr (fst (htmlToSvg rootElement options counter))))))"
  by (cases rootElement)
     (auto simp add: htmlToSvg_def split_beta Let_def split: option.splits sum.splits)

lemma htmlToSvg_own_errors:
  "(\<exists>m. fst (htmlToSvg rootElement options counter) = Inl (Error m)) =
     (case rootElement of
        None \<Rightarrow> True
      | Some rootEl \<Rightarrow>
          strictEq (rectWidth (boundingRect (elementInfo rootEl))) (Num 0)
          \<or> strictEq (rectHeight (boundingRect (elementInfo rootEl))) (Num 0)
          \<or> fst (createNodeFromElement rootEl (boundingRect (elementInfo rootEl)) True counter) = None
          \<or> (\<exists>tree m. fst (createNodeFromElement rootEl (boundingRect (elementInfo rootEl)) True counter)
                         = Some tree
                 \<and> renderNode tree \<lparr>defs = [], gradientIndex = 0, filterIndex = 0\<rparr> = Inl (Error m)))"
  by (subst htmlToSvg_result) (auto split: option.splits sum.splits)

text \<open>
  Claim C1, at an icon root whose name is not in the glyph table. For the name \<^verbatim>\<open>nope\<close>
  the icon gives no node and the entry point throws its third error, as the claim says.
  For the name \<^verbatim>\<open>constructor\<close> the table has no entry either, but the lookup finds the
  property that the table inherits: the root, which is present and has a size, gets an
  icon node without path and view box, and the emission of that node throws a
  \<^verbatim>\<open>TypeError\<close>, a failure outside the three cases of the claim.
\<close>

theorem htmlToSvg_inherited_icon_name:
  "map_of MATERIAL_SYMBOLS_PATHS ''nope'' = None
   \<and> fst (htmlToSvg (Some unknownIconRoot) noOptions 0)
       = Inl (Error ''Unable to capture layout from the provided HTML.'')
   \<and> map_of MATERIAL_SYMBOLS_PATHS ''constructor'' = None
   \<and> rectWidth (boundingRect (elementInfo inheritedIconRoot)) = Num 10
   \<and> rectHeight (boundingRect (elementInfo inheritedIconRoot)) = Num 10
   \<and> fst (createNodeFromElement inheritedIconRoot (boundingRect (elementInfo inheritedIconRoot)) True 0)
       \<noteq> None
   \<and> htmlToSvg (Some inheritedIconRoot) noOptions 0 = (Inl TypeError, 1)"
  by (simp add: snapshot_eval htmlToSvg_def createIconNode_def lookupIcon_def INHERITED_NAMES_def
        MATERIAL_SYMBOLS_PATHS_def trim_def renderIconNode_def)

subsection \<open>The tree up to identifiers\<close>

text \<open>
  The value of the counter at the start of a traversal shows in the identifiers of the
  nodes and nowhere else.
\<close>

lemma lineTextNode_shape: "stripIds (lineTextNode e rr seg k) = stripIds (lineTextNode e rr seg k')"
  by (simp add: lineTextNode_def Let_def)

lemma segmentNodes_shape:
  "map stripIds (fst (segmentNodes e rr segs c)) = map stripIds (fst (segmentNodes e rr segs c'))"
proof (induction segs arbitrary: c c')
  case Nil
  show ?case by simp
next
  case (Cons seg rest)
  show ?case
    using Cons.IH [of "c + 1" "c' + 1"] Cons.IH [of c c'] lineTextNode_shape [of e rr seg c c']
    by (simp add: split_beta Let_def)
qed

lemma collectTextNodes_shape:
  "map stripIds (fst (collectTextNodes e kids rr c)) = map stripIds (fst (collectTextNodes e kids rr c'))"
proof (induction kids arbitrary: c c')
  case Nil
  show ?case by simp
next
  case (Cons k rest)
  show ?case
  proof (cases k)
    case (ElementChild el)
    then show ?thesis using Cons.IH [of c c'] by simp
  next
    case (TextChild fullText rects)
    show ?thesis
    proof (cases "trim (collapseWhitespace fullText) = []")
      case True
      then show ?thesis using TextChild Cons.IH [of c c'] by simp
    next
      case False
      then show ?thesis
        using TextChild
          Cons.IH [of "snd (segmentNodes e rr (splitTextByVisualLines fullText rects) c)"
                      "snd (segmentNodes e rr (splitTextByVisualLines fullText rects) c')"]
          segmentNodes_shape [of e rr "splitTextByVisualLines fullText rects" c c']
        by (simp add: split_beta Let_def)
    qed
  next
    case OtherChild
    then show ?thesis using Cons.IH [of c c'] by simp
  qed
qed

lemma createIconNode_shape:
  "map_option stripIds (fst (createIconNode el rr c)) = map_option stripIds (fst (createIconNode el rr c'))"
  by (simp add: createIconNode_def Let_def split: option.splits prod.splits)

lemma snapshot_shape:
  "map_option stripIds (fst (createNodeFromElement el rr ah c))
     = map_option stripIds (fst (createNodeFromElement el rr ah c'))"
  "map stripIds (fst (createChildNodes kids rr ah c))
     = map stripIds (fst (createChildNodes kids rr ah c'))"
proof (induction el rr ah c and kids rr ah c arbitrary: c' and c'
       rule: createNodeFromElement_createChildNodes.induct)
  case (1 e kids rootRect allowHidden counter)
  let ?c0 = "if elementId e \<noteq> [] then counter else counter + 1"
  let ?c1 = "if elementId e \<noteq> [] then c' else c' + 1"
  show ?case
  proof (cases "strictEq (rectWidth (boundingRect e)) (Num 0) \<or> strictEq (rectHeight (boundingRect e)) (Num 0)
                \<or> (\<not> allowHidden \<and> \<not> isRenderable (computedStyle e))")
    case True
    then show ?thesis by (simp only: createNodeFromElement_skipped fst_conv)
  next
    case skip: False
    show ?thesis
    proof (cases "classListContains (className e) ''material-symbols-outlined''")
      case True
      show ?thesis
        by (simp only: createNodeFromElement_icon [OF skip True] createIconNode_shape [of "Element e kids" rootRect counter c'])
    next
      case False
      have kidsEq:
        "map stripIds (fst (createChildNodes kids rootRect allowHidden (snd (collectTextNodes e kids rootRect ?c0))))
         = map stripIds (fst (createChildNodes kids rootRect allowHidden (snd (collectTextNodes e kids rootRect ?c1))))"
        using skip False by (intro "1.IH" [OF _ _ _ refl refl prod.collapse]) auto
      show ?thesis
        by (simp only: createNodeFromElement_box [OF skip False] kidsEq
              collectTextNodes_shape [of e kids rootRect ?c0 ?c1])
    qed
  qed
next
  case (2 rootRect allowHidden counter)
  then show ?case by simp
next
  case (3 child rest rootRect allowHidden counter)
  show ?case
  proof (cases "\<not> isHTMLElement (elementInfo child) \<or> tagName (elementInfo child) \<in> set IGNORED_TAGS")
    case True
    have "map stripIds (fst (createChildNodes rest rootRect allowHidden counter))
          = map stripIds (fst (createChildNodes rest rootRect allowHidden c'))"
      using True "3.IH"(1,2) [of c'] by blast
    then show ?thesis by (simp only: createChildNodes_ignored [OF True])
  next
    case False
    have restEq:
      "map stripIds (fst (createChildNodes rest rootRect allowHidden (snd (createNodeFromElement child rootRect allowHidden counter))))
       = map stripIds (fst (createChildNodes rest rootRect allowHidden (snd (createNodeFromElement child rootRect allowHidden c'))))"
      using False by (intro "3.IH"(4) [OF _ _ refl prod.collapse]) auto
    have headEq:
      "map_option stripIds (fst (createNodeFromElement child rootRect allowHidden counter))
       = map_option stripIds (fst (createNodeFromElement child rootRect allowHidden c'))"
      using False by (intro "3.IH"(3)) auto
    have "map stripIds (case fst (createNodeFromElement child rootRect allowHidden counter) of
                          Some n \<Rightarrow> [n] | None \<Rightarrow> [])
          = map stripIds (case fst (createNodeFromElement child rootRect allowHidden c') of
                          Some n \<Rightarrow> [n] | None \<Rightarrow> [])"
      using headEq
      by (cases "fst (createNodeFromElement child rootRect allowHidden counter)";
          cases "fst (createNodeFromElement child rootRect allowHidden c')") simp_all
    then show ?thesis
      using restEq by (simp only: createChildNodes_visited [OF False] map_append)
  qed
qed simp_all

text \<open>
  Claim C10. The document that \<^verbatim>\<open>htmlToSvg\<close> returns, or the error that it throws, is a
  function of the snapshot of the root and of the options: it does not depend on the value
  that the shared node counter has when the call starts, the only state that one call
  leaves to the next. The identifiers written in a document, those of gradients, filters
  and clip paths, are numbered from 0 in every call; the identifiers of the nodes, which
  the counter numbers, are not written.
\<close>

theorem htmlToSvg_deterministic:
  "fst (htmlToSvg rootElement options c1) = fst (htmlToSvg rootElement options c2)"
proof (cases rootElement)
  case None
  then show ?thesis by (simp add: htmlToSvg_def)
next
  case (Some rootEl)
  let ?rr = "boundingRect (elementInfo rootEl)"
  let ?t1 = "fst (createNodeFromElement rootEl ?rr True c1)"
  let ?t2 = "fst (createNodeFromElement rootEl ?rr True c2)"
  have shape: "map_option stripIds ?t1 = map_option stripIds ?t2"
    by (rule snapshot_shape(1))
  show ?thesis
  proof (cases ?t1)
    case None
    then have "?t2 = None" using shape by simp
    then show ?thesis using None Some by (simp add: htmlToSvg_def split_beta Let_def)
  next
    case t1: (Some n1)
    then obtain n2 where t2: "?t2 = Some n2" and eq: "stripIds n1 = stripIds n2"
      using shape by (cases ?t2) auto
    have "renderNode n1 c = renderNode n2 c" for c
      using renderNode_stripIds [of n1 c] renderNode_stripIds [of n2 c] eq by simp
    then show ?thesis
      using t1 t2 Some
      by (cases "renderNode n2 \<lparr>defs = [], gradientIndex = 0, filterIndex = 0\<rparr>")
         (simp_all add: htmlToSvg_def split_beta Let_def)
  qed
qed

text \<open>
  The theorem at a root without an identifier of its own and at the counter values 0 and
  7: the node of the root is named after the counter, and the document is the same.
\<close>

theorem htmlToSvg_deterministic_witness:
  "fst (htmlToSvg (Some anonymousRoot) noOptions 0) = fst (htmlToSvg (Some anonymousRoot) noOptions 7)
   \<and> map_option (\<lambda>n. nodeId (nodeBaseOf n)) (fst (createNodeFromElement anonymousRoot squareRect True 0))
       = Some ''div-0''
   \<and> map_option (\<lambda>n. nodeId (nodeBaseOf n)) (fst (createNodeFromElement anonymousRoot squareRect True 7))
       = Some ''div-7''"
proof (intro conjI)
  show "fst (htmlToSvg (Some anonymousRoot) noOptions 0) = fst (htmlToSvg (Some anonymousRoot) noOptions 7)"
    by (rule htmlToSvg_deterministic)
  show "map_option (\<lambda>n. nodeId (nodeBaseOf n)) (fst (createNodeFromElement anonymousRoot squareRect True 0))
       = Some ''div-0''"
    by (simp add: snapshot_eval natToString.simps digitChar_def lower_div)
  show "map_option (\<lambda>n. nodeId (nodeBaseOf n)) (fst (createNodeFromElement anonymousRoot squareRect True 7))
       = Some ''div-7''"
    by (simp add: snapshot_eval natToString.simps digitChar_def lower_div)
qed

end
